theory Spec2Isabelle
  imports Main
begin

section \<open>Object paths, entities, trackers and contexts\<close>

text \<open>
  The tree-shaking core is object-oriented TypeScript. Objects are modelled by value:
  a class is a record of its fields, a method is a function from the receiver (and the
  parts of the world it touches) to its result and the updated receiver. References to
  objects whose classes are not part of the sources (the initialiser of a variable, the
  expressions that cache a value, call arguments) are opaque identities, and what their
  virtual methods answer is a parameter of the model (record \<open>Entities\<close> below).
  Calls of their mutating methods are recorded as a list of \<open>Call\<close>s.
\<close>

text \<open>\<open>ObjectPath\<close>, \<open>UNKNOWN_PATH\<close> of ast/utils/PathTracker: a path is an array of keys
  and \<open>UNKNOWN_PATH\<close> is the one-element path of the unknown key. The code below only
  looks at the length of a path and passes paths on.\<close>

datatype ObjectPathKey = Key string | UnknownKey

type_synonym ObjectPath = "ObjectPathKey list"

definition UNKNOWN_PATH :: ObjectPath where
  "UNKNOWN_PATH = [UnknownKey]"

text \<open>An \<open>ExpressionEntity\<close> reference: the shared constant \<open>UNKNOWN_EXPRESSION\<close> or any
  other object, told apart by identity.\<close>

datatype ExpressionEntity = UNKNOWN_EXPRESSION | Entity nat

datatype LiteralValueOrUnknown = UnknownValue | LiteralValue string

type_synonym DeoptimizableEntity = nat

datatype NodeEvent = EVENT_ACCESSED | EVENT_ASSIGNED | EVENT_CALLED

record CallOptions =
  withNew :: bool
  args :: "ExpressionEntity list"

text \<open>Modelled from the spec: the class PathTracker (ast/utils/PathTracker) is not among
  the sources. Spec 4.1 and 4.2: a path-tracker prevents revisiting; it answers "already
  tracked" on re-entry of an entity at a path. A tracker is the set of (path, entity)
  pairs entered so far.\<close>

type_synonym 'e PathTracker = "(ObjectPath \<times> 'e) set"

definition trackEntityAtPathAndGetIfTracked ::
  "ObjectPath \<Rightarrow> 'e \<Rightarrow> 'e PathTracker \<Rightarrow> bool \<times> 'e PathTracker" where
  "trackEntityAtPathAndGetIfTracked path entity tracker =
     (if (path, entity) \<in> tracker then (True, tracker)
      else (False, insert (path, entity) tracker))"

text \<open>Modelled from the spec: \<open>withTrackedEntityAtPath(path, entity, onUntracked,
  returnIfTracked)\<close> of the same absent class: the sentinel on re-entry, otherwise the
  callback, run while the entity is tracked.\<close>

definition withTrackedEntityAtPath ::
  "ObjectPath \<Rightarrow> 'e \<Rightarrow> ('e PathTracker \<Rightarrow> 'a) \<Rightarrow> 'a \<Rightarrow> 'e PathTracker \<Rightarrow> 'a" where
  "withTrackedEntityAtPath path entity onUntracked returnIfTracked tracker =
     (if (path, entity) \<in> tracker then returnIfTracked
      else onUntracked (insert (path, entity) tracker))"

text \<open>The fields of the contexts of ast/ExecutionContext that the code below reads.\<close>

record HasEffectsContext =
  accessed :: "ExpressionEntity PathTracker"
  called :: "(CallOptions \<times> ExpressionEntity) PathTracker"
  instantiated :: "(CallOptions \<times> ExpressionEntity) PathTracker"

definition createHasEffectsContext :: HasEffectsContext where
  "createHasEffectsContext = \<lparr>accessed = {}, called = {}, instantiated = {}\<rparr>"

record InclusionContext =
  includedCallArguments :: "ExpressionEntity set"

definition createInclusionContext :: InclusionContext where
  "createInclusionContext = \<lparr>includedCallArguments = {}\<rparr>"

text \<open>What the virtual methods of the other entities answer (dynamic dispatch on
  \<open>this.init\<close>).\<close>

record Entities =
  entity_getLiteralValueAtPath ::
    "ExpressionEntity \<Rightarrow> ObjectPath \<Rightarrow> ExpressionEntity PathTracker \<Rightarrow> DeoptimizableEntity
      \<Rightarrow> LiteralValueOrUnknown"
  entity_getReturnExpressionWhenCalledAtPath ::
    "ExpressionEntity \<Rightarrow> ObjectPath \<Rightarrow> CallOptions \<Rightarrow> ExpressionEntity PathTracker
      \<Rightarrow> DeoptimizableEntity \<Rightarrow> ExpressionEntity"
  entity_hasEffectsWhenAccessedAtPath ::
    "ExpressionEntity \<Rightarrow> ObjectPath \<Rightarrow> HasEffectsContext \<Rightarrow> bool"
  entity_hasEffectsWhenAssignedAtPath ::
    "ExpressionEntity \<Rightarrow> ObjectPath \<Rightarrow> HasEffectsContext \<Rightarrow> bool"
  entity_hasEffectsWhenCalledAtPath ::
    "ExpressionEntity \<Rightarrow> ObjectPath \<Rightarrow> CallOptions \<Rightarrow> HasEffectsContext \<Rightarrow> bool"

text \<open>Calls of mutating methods of other entities, in the order they are issued.\<close>

datatype Call =
    Call_deoptimizePath ExpressionEntity ObjectPath
  | Call_deoptimizeCache DeoptimizableEntity
  | Call_deoptimizeThisOnEventAtPath ExpressionEntity NodeEvent ObjectPath ExpressionEntity
  | Call_include ExpressionEntity bool
  | Call_includeCallArguments ExpressionEntity "ExpressionEntity list"

datatype JsError = TypeError

section \<open>The AST node store\<close>

text \<open>
  AST nodes live in an arena and are referred to by index. A node has its type tag, its
  parent pointer and its \<open>included\<close> flag; a SequenceExpression also has its
  \<open>expressions\<close> and a Program its \<open>body\<close> of top-level statements. A reference that does not resolve stands for \<open>undefined\<close>: reading a
  property of it is a TypeError.
\<close>

datatype NodeType = Program | ExpressionStatement | SequenceExpression | OtherNode string

record Node =
  type :: NodeType
  parent :: "nat option"
  included :: bool
  expressions :: "nat list"
  body :: "nat list"

type_synonym Nodes = "Node list"

definition node_at :: "Nodes \<Rightarrow> nat \<Rightarrow> Node option" where
  "node_at nodes n = (if n < length nodes then Some (nodes ! n) else None)"

definition set_included :: "Nodes \<Rightarrow> nat \<Rightarrow> Nodes" where
  "set_included nodes n = nodes[n := (nodes ! n)\<lparr>Node.included := True\<rparr>]"

definition excluded_count :: "Nodes \<Rightarrow> nat" where
  "excluded_count nodes = length (filter (\<lambda>x. \<not> Node.included x) nodes)"

lemma excluded_count_set_included:
  assumes "n < length nodes" and "\<not> Node.included (nodes ! n)"
  shows "excluded_count (set_included nodes n) < excluded_count nodes"
proof -
  let ?P = "\<lambda>x. \<not> Node.included x"
  let ?y = "(nodes ! n)\<lparr>Node.included := True\<rparr>"
  have split: "nodes = take n nodes @ (nodes ! n) # drop (Suc n) nodes"
    using assms(1) by (simp add: id_take_nth_drop)
  have upd: "nodes[n := ?y] = take n nodes @ ?y # drop (Suc n) nodes"
    using assms(1) by (simp add: upd_conv_take_nth_drop)
  have "length (filter ?P (take n nodes @ ?y # drop (Suc n) nodes))
        < length (filter ?P (take n nodes @ (nodes ! n) # drop (Suc n) nodes))"
    using assms(2) by simp
  then show ?thesis
    unfolding excluded_count_def set_included_def upd using split by simp
qed

section \<open>LocalVariable\<close>

text \<open>
  \<open>included\<close>, \<open>isReassigned\<close> and \<open>name\<close> are the fields of the base class Variable;
  \<open>this\<close> is the identity of the variable itself, under which the trackers record it.
  \<open>deoptimizationTracker\<close> is a reference to the tracker of the AstContext, shared by
  all variables, so it is passed to the methods that use it and returned updated.
\<close>

record LocalVariable =
  this :: ExpressionEntity
  name :: string
  included :: bool
  isReassigned :: bool
  calledFromTryStatement :: bool
  declarations :: "nat list"
  init :: "ExpressionEntity option"
  module :: string
  additionalInitializers :: "ExpressionEntity list option"
  expressionsToBeDeoptimized :: "DeoptimizableEntity list"

definition LocalVariable_new ::
  "ExpressionEntity \<Rightarrow> string \<Rightarrow> nat option \<Rightarrow> ExpressionEntity option \<Rightarrow> string \<Rightarrow> LocalVariable" where
  "LocalVariable_new self nm declarator ini context_module =
     \<lparr>this = self, name = nm, included = False, isReassigned = False,
      calledFromTryStatement = False,
      declarations = (case declarator of Some d \<Rightarrow> [d] | None \<Rightarrow> []),
      init = ini, module = context_module,
      additionalInitializers = None, expressionsToBeDeoptimized = []\<rparr>"

text \<open>\<open>markInitializersForDeoptimization\<close> returns the array held in
  \<open>additionalInitializers\<close>; the model returns its contents with the updated variable.\<close>

definition LocalVariable_markInitializersForDeoptimization ::
  "LocalVariable \<Rightarrow> ExpressionEntity list \<times> LocalVariable" where
  "LocalVariable_markInitializersForDeoptimization v =
     (case additionalInitializers v of
        None \<Rightarrow>
          (let ai = (case init v of None \<Rightarrow> [] | Some i \<Rightarrow> [i])
           in (ai, v\<lparr>additionalInitializers := Some ai,
                     init := Some UNKNOWN_EXPRESSION,
                     isReassigned := True\<rparr>))
      | Some ai \<Rightarrow> (ai, v))"

definition LocalVariable_addDeclaration ::
  "LocalVariable \<Rightarrow> nat \<Rightarrow> ExpressionEntity option \<Rightarrow> LocalVariable" where
  "LocalVariable_addDeclaration v identifier ini =
     (let v1 = v\<lparr>declarations := declarations v @ [identifier]\<rparr>;
          (ai, v2) = LocalVariable_markInitializersForDeoptimization v1
      in case ini of
           Some i \<Rightarrow> v2\<lparr>additionalInitializers := Some (ai @ [i])\<rparr>
         | None \<Rightarrow> v2)"

definition LocalVariable_consolidateInitializers ::
  "LocalVariable \<Rightarrow> LocalVariable \<times> Call list" where
  "LocalVariable_consolidateInitializers v =
     (case additionalInitializers v of
        Some ai \<Rightarrow>
          (v\<lparr>additionalInitializers := None\<rparr>,
           map (\<lambda>initializer. Call_deoptimizePath initializer UNKNOWN_PATH) ai)
      | None \<Rightarrow> (v, []))"

definition LocalVariable_deoptimizePath ::
  "LocalVariable \<Rightarrow> ObjectPath \<Rightarrow> ExpressionEntity PathTracker
     \<Rightarrow> LocalVariable \<times> ExpressionEntity PathTracker \<times> Call list" where
  "LocalVariable_deoptimizePath v path deoptimizationTracker =
     (if isReassigned v then (v, deoptimizationTracker, [])
      else
        let (tracked, tracker') =
              trackEntityAtPathAndGetIfTracked path (this v) deoptimizationTracker
        in if tracked then (v, tracker', [])
           else if length path = 0 then
             (if \<not> isReassigned v then
                (v\<lparr>isReassigned := True, expressionsToBeDeoptimized := []\<rparr>,
                 tracker',
                 map Call_deoptimizeCache (expressionsToBeDeoptimized v) @
                 (case init v of
                    Some i \<Rightarrow> [Call_deoptimizePath i UNKNOWN_PATH]
                  | None \<Rightarrow> []))
              else (v, tracker', []))
           else
             (v, tracker',
              (case init v of Some i \<Rightarrow> [Call_deoptimizePath i path] | None \<Rightarrow> [])))"

definition LocalVariable_deoptimizeThisOnEventAtPath ::
  "LocalVariable \<Rightarrow> NodeEvent \<Rightarrow> ObjectPath \<Rightarrow> ExpressionEntity
     \<Rightarrow> ExpressionEntity PathTracker \<Rightarrow> Call list" where
  "LocalVariable_deoptimizeThisOnEventAtPath v event path thisParameter recursionTracker =
     (case init v of
        None \<Rightarrow> [Call_deoptimizePath thisParameter UNKNOWN_PATH]
      | Some i \<Rightarrow>
          if isReassigned v then [Call_deoptimizePath thisParameter UNKNOWN_PATH]
          else withTrackedEntityAtPath path i
                 (\<lambda>_. [Call_deoptimizeThisOnEventAtPath i event path thisParameter])
                 [] recursionTracker)"

definition LocalVariable_getLiteralValueAtPath ::
  "Entities \<Rightarrow> LocalVariable \<Rightarrow> ObjectPath \<Rightarrow> ExpressionEntity PathTracker
     \<Rightarrow> DeoptimizableEntity \<Rightarrow> LiteralValueOrUnknown \<times> LocalVariable" where
  "LocalVariable_getLiteralValueAtPath env v path recursionTracker origin =
     (case init v of
        None \<Rightarrow> (UnknownValue, v)
      | Some i \<Rightarrow>
          if isReassigned v then (UnknownValue, v)
          else withTrackedEntityAtPath path i
                 (\<lambda>tracker.
                    (entity_getLiteralValueAtPath env i path tracker origin,
                     v\<lparr>expressionsToBeDeoptimized := expressionsToBeDeoptimized v @ [origin]\<rparr>))
                 (UnknownValue, v) recursionTracker)"

definition LocalVariable_getReturnExpressionWhenCalledAtPath ::
  "Entities \<Rightarrow> LocalVariable \<Rightarrow> ObjectPath \<Rightarrow> CallOptions \<Rightarrow> ExpressionEntity PathTracker
     \<Rightarrow> DeoptimizableEntity \<Rightarrow> ExpressionEntity \<times> LocalVariable" where
  "LocalVariable_getReturnExpressionWhenCalledAtPath env v path callOptions recursionTracker origin =
     (case init v of
        None \<Rightarrow> (UNKNOWN_EXPRESSION, v)
      | Some i \<Rightarrow>
          if isReassigned v then (UNKNOWN_EXPRESSION, v)
          else withTrackedEntityAtPath path i
                 (\<lambda>tracker.
                    (entity_getReturnExpressionWhenCalledAtPath env i path callOptions tracker origin,
                     v\<lparr>expressionsToBeDeoptimized := expressionsToBeDeoptimized v @ [origin]\<rparr>))
                 (UNKNOWN_EXPRESSION, v) recursionTracker)"

text \<open>The three effect queries end in \<open>(this.init && ... )!\<close>; where \<open>init\<close> is null the
  JavaScript value is the falsy \<open>null\<close>, which the model gives as \<open>False\<close>.\<close>

definition LocalVariable_hasEffectsWhenAccessedAtPath ::
  "Entities \<Rightarrow> LocalVariable \<Rightarrow> ObjectPath \<Rightarrow> HasEffectsContext \<Rightarrow> bool \<times> HasEffectsContext" where
  "LocalVariable_hasEffectsWhenAccessedAtPath env v path context =
     (if isReassigned v then (True, context)
      else case init v of
        None \<Rightarrow> (False, context)
      | Some i \<Rightarrow>
          let (tracked, accessed') =
                trackEntityAtPathAndGetIfTracked path (this v) (accessed context);
              context' = context\<lparr>accessed := accessed'\<rparr>
          in if tracked then (False, context')
             else (entity_hasEffectsWhenAccessedAtPath env i path context', context'))"

definition LocalVariable_hasEffectsWhenAssignedAtPath ::
  "Entities \<Rightarrow> LocalVariable \<Rightarrow> ObjectPath \<Rightarrow> HasEffectsContext \<Rightarrow> bool \<times> HasEffectsContext" where
  "LocalVariable_hasEffectsWhenAssignedAtPath env v path context =
     (if included v then (True, context)
      else if length path = 0 then (False, context)
      else if isReassigned v then (True, context)
      else case init v of
        None \<Rightarrow> (False, context)
      | Some i \<Rightarrow>
          let (tracked, accessed') =
                trackEntityAtPathAndGetIfTracked path (this v) (accessed context);
              context' = context\<lparr>accessed := accessed'\<rparr>
          in if tracked then (False, context')
             else (entity_hasEffectsWhenAssignedAtPath env i path context', context'))"

definition LocalVariable_hasEffectsWhenCalledAtPath ::
  "Entities \<Rightarrow> LocalVariable \<Rightarrow> ObjectPath \<Rightarrow> CallOptions \<Rightarrow> HasEffectsContext
     \<Rightarrow> bool \<times> HasEffectsContext" where
  "LocalVariable_hasEffectsWhenCalledAtPath env v path callOptions context =
     (if isReassigned v then (True, context)
      else case init v of
        None \<Rightarrow> (False, context)
      | Some i \<Rightarrow>
          if withNew callOptions then
            (let (tracked, tracker') =
                   trackEntityAtPathAndGetIfTracked path (callOptions, this v) (instantiated context);
                 context' = context\<lparr>instantiated := tracker'\<rparr>
             in if tracked then (False, context')
                else (entity_hasEffectsWhenCalledAtPath env i path callOptions context', context'))
          else
            (let (tracked, tracker') =
                   trackEntityAtPathAndGetIfTracked path (callOptions, this v) (called context);
                 context' = context\<lparr>called := tracker'\<rparr>
             in if tracked then (False, context')
                else (entity_hasEffectsWhenCalledAtPath env i path callOptions context', context')))"

text \<open>The loop of \<open>include\<close> that walks up the \<open>parent\<close> pointers of a declaration. It
  stops at the first node that is already included; every round includes one more node
  of the arena, which is why it ends.\<close>

function includeParents :: "Nodes \<Rightarrow> nat option \<Rightarrow> JsError + Nodes" where
  "includeParents nodes None = Inl TypeError"
| "includeParents nodes (Some n) =
     (if \<not> n < length nodes then Inl TypeError
      else if Node.included (nodes ! n) then Inr nodes
      else if type (nodes ! n) = Program then Inr (set_included nodes n)
      else includeParents (set_included nodes n) (parent (nodes ! n)))"
  by pat_completeness auto
termination
  by (relation "measure (\<lambda>(nodes, _). excluded_count nodes)")
     (auto simp: excluded_count_set_included)

text \<open>\<open>node_include d context r nodes\<close> stands for the virtual call
  \<open>d.include(context, r)\<close> on a node whose class is not among the sources (here a
  declaration: an Identifier or an ExportDefaultDeclaration); it may change the arena.\<close>

fun includeDeclarations ::
  "(nat \<Rightarrow> InclusionContext \<Rightarrow> bool \<Rightarrow> Nodes \<Rightarrow> Nodes) \<Rightarrow> nat list \<Rightarrow> Nodes \<Rightarrow> JsError + Nodes" where
  "includeDeclarations node_include [] nodes = Inr nodes"
| "includeDeclarations node_include (declaration # rest) nodes =
     (case node_at nodes declaration of
        None \<Rightarrow> Inl TypeError
      | Some d \<Rightarrow>
          (let nodes1 = (if \<not> Node.included d
                         then node_include declaration createInclusionContext False nodes
                         else nodes)
           in (case node_at nodes1 declaration of
                 None \<Rightarrow> Inl TypeError
               | Some d1 \<Rightarrow>
                   (case includeParents nodes1 (parent d1) of
                      Inl e \<Rightarrow> Inl e
                    | Inr nodes2 \<Rightarrow> includeDeclarations node_include rest nodes2))))"

definition LocalVariable_include ::
  "(nat \<Rightarrow> InclusionContext \<Rightarrow> bool \<Rightarrow> Nodes \<Rightarrow> Nodes) \<Rightarrow> LocalVariable \<Rightarrow> Nodes \<Rightarrow> JsError + LocalVariable \<times> Nodes" where
  "LocalVariable_include node_include v nodes =
     (if \<not> included v then
        (case includeDeclarations node_include (declarations v) nodes of
           Inl e \<Rightarrow> Inl e
         | Inr nodes' \<Rightarrow> Inr (v\<lparr>included := True\<rparr>, nodes'))
      else Inr (v, nodes))"

definition LocalVariable_includeCallArguments ::
  "LocalVariable \<Rightarrow> InclusionContext \<Rightarrow> ExpressionEntity list \<Rightarrow> InclusionContext \<times> Call list" where
  "LocalVariable_includeCallArguments v context arguments =
     (if isReassigned v \<or> (case init v of Some i \<Rightarrow> i \<in> includedCallArguments context | None \<Rightarrow> False)
      then (context, map (\<lambda>arg. Call_include arg False) arguments)
      else case init v of
        Some i \<Rightarrow>
          (context\<lparr>includedCallArguments := insert i (includedCallArguments context) - {i}\<rparr>,
           [Call_includeCallArguments i arguments])
      | None \<Rightarrow> (context, []))"

definition LocalVariable_markCalledFromTryStatement :: "LocalVariable \<Rightarrow> LocalVariable" where
  "LocalVariable_markCalledFromTryStatement v = v\<lparr>calledFromTryStatement := True\<rparr>"

text \<open>One method call on a local variable, with any arguments and in any surroundings:
  \<open>LocalVariable_call v v'\<close> holds when some method of the class takes the receiver from
  \<open>v\<close> to \<open>v'\<close>.\<close>

inductive LocalVariable_call :: "LocalVariable \<Rightarrow> LocalVariable \<Rightarrow> bool" where
  call_addDeclaration:
    "LocalVariable_call v (LocalVariable_addDeclaration v identifier ini)"
| call_consolidateInitializers:
    "LocalVariable_call v (fst (LocalVariable_consolidateInitializers v))"
| call_deoptimizePath:
    "LocalVariable_call v (fst (LocalVariable_deoptimizePath v path tracker))"
| call_deoptimizeThisOnEventAtPath:
    "LocalVariable_call v v"
| call_getLiteralValueAtPath:
    "LocalVariable_call v (snd (LocalVariable_getLiteralValueAtPath env v path tracker origin))"
| call_getReturnExpressionWhenCalledAtPath:
    "LocalVariable_call v
       (snd (LocalVariable_getReturnExpressionWhenCalledAtPath env v path callOptions tracker origin))"
| call_include:
    "LocalVariable_include node_include v nodes = Inr (v', nodes') \<Longrightarrow> LocalVariable_call v v'"
| call_markCalledFromTryStatement:
    "LocalVariable_call v (LocalVariable_markCalledFromTryStatement v)"
| call_markInitializersForDeoptimization:
    "LocalVariable_call v (snd (LocalVariable_markInitializersForDeoptimization v))"

text \<open>What holds of a local variable that was declared more than once, or whose extra
  initialisers are being collected: it is marked reassigned and its \<open>init\<close> is the unknown
  expression.\<close>

definition multiply_declared_inv :: "LocalVariable \<Rightarrow> bool" where
  "multiply_declared_inv v \<longleftrightarrow>
     (1 < length (declarations v) \<or> additionalInitializers v \<noteq> None
        \<longrightarrow> isReassigned v \<and> init v = Some UNKNOWN_EXPRESSION)"

text \<open>Concrete objects for the examples: an environment in which every initialiser has
  the literal value \<open>1\<close>, returns entity 9 when called and reports effects; and a variable
  \<open>x\<close> declared by node 0 with initialiser entity 1.\<close>

definition example_entities :: Entities where
  "example_entities =
     \<lparr>entity_getLiteralValueAtPath = (\<lambda>_ _ _ _. LiteralValue ''1''),
      entity_getReturnExpressionWhenCalledAtPath = (\<lambda>_ _ _ _ _. Entity 9),
      entity_hasEffectsWhenAccessedAtPath = (\<lambda>_ _ _. True),
      entity_hasEffectsWhenAssignedAtPath = (\<lambda>_ _ _. True),
      entity_hasEffectsWhenCalledAtPath = (\<lambda>_ _ _ _. True)\<rparr>"

definition example_variable :: LocalVariable where
  "example_variable = LocalVariable_new (Entity 0) ''x'' (Some 0) (Some (Entity 1)) ''main.js''"

section \<open>SequenceExpression\<close>

text \<open>
  The children of a SequenceExpression are nodes of classes that are not among the
  sources. As an \<open>ExpressionEntity\<close>, the node with index \<open>n\<close> is \<open>Entity n\<close>; what its
  \<open>hasEffects\<close>, \<open>shouldBeIncluded\<close> and \<open>include\<close> do is a parameter (\<open>NodeMethods\<close>). The
  InclusionContext object is handed on to the children as it is.
\<close>

record NodeMethods =
  node_hasEffects :: "nat \<Rightarrow> HasEffectsContext \<Rightarrow> bool"
  node_shouldBeIncluded :: "nat \<Rightarrow> InclusionContext \<Rightarrow> Nodes \<Rightarrow> bool"
  node_include :: "nat \<Rightarrow> InclusionContext \<Rightarrow> bool \<Rightarrow> Nodes \<Rightarrow> Nodes"

text \<open>\<open>this.expressions[this.expressions.length - 1]\<close>: \<open>undefined\<close> for the empty array.\<close>

definition lastExpression :: "Node \<Rightarrow> nat option" where
  "lastExpression s = (if expressions s = [] then None else Some (last (expressions s)))"

definition SequenceExpression_deoptimizePath :: "Node \<Rightarrow> ObjectPath \<Rightarrow> JsError + Call list" where
  "SequenceExpression_deoptimizePath s path =
     (case lastExpression s of
        None \<Rightarrow> Inl TypeError
      | Some e \<Rightarrow> Inr [Call_deoptimizePath (Entity e) path])"

definition SequenceExpression_deoptimizeThisOnEventAtPath ::
  "Node \<Rightarrow> NodeEvent \<Rightarrow> ObjectPath \<Rightarrow> ExpressionEntity \<Rightarrow> JsError + Call list" where
  "SequenceExpression_deoptimizeThisOnEventAtPath s event path thisParameter =
     (case lastExpression s of
        None \<Rightarrow> Inl TypeError
      | Some e \<Rightarrow> Inr [Call_deoptimizeThisOnEventAtPath (Entity e) event path thisParameter])"

definition SequenceExpression_getLiteralValueAtPath ::
  "Entities \<Rightarrow> Node \<Rightarrow> ObjectPath \<Rightarrow> ExpressionEntity PathTracker \<Rightarrow> DeoptimizableEntity
     \<Rightarrow> JsError + LiteralValueOrUnknown" where
  "SequenceExpression_getLiteralValueAtPath env s path recursionTracker origin =
     (case lastExpression s of
        None \<Rightarrow> Inl TypeError
      | Some e \<Rightarrow> Inr (entity_getLiteralValueAtPath env (Entity e) path recursionTracker origin))"

definition SequenceExpression_hasEffects :: "NodeMethods \<Rightarrow> Node \<Rightarrow> HasEffectsContext \<Rightarrow> bool" where
  "SequenceExpression_hasEffects methods s context =
     list_ex (\<lambda>expression. node_hasEffects methods expression context) (expressions s)"

definition SequenceExpression_hasEffectsWhenAccessedAtPath ::
  "Entities \<Rightarrow> Node \<Rightarrow> ObjectPath \<Rightarrow> HasEffectsContext \<Rightarrow> JsError + bool" where
  "SequenceExpression_hasEffectsWhenAccessedAtPath env s path context =
     (if length path > 0 then
        (case lastExpression s of
           None \<Rightarrow> Inl TypeError
         | Some e \<Rightarrow> Inr (entity_hasEffectsWhenAccessedAtPath env (Entity e) path context))
      else Inr False)"

definition SequenceExpression_hasEffectsWhenAssignedAtPath ::
  "Entities \<Rightarrow> Node \<Rightarrow> ObjectPath \<Rightarrow> HasEffectsContext \<Rightarrow> JsError + bool" where
  "SequenceExpression_hasEffectsWhenAssignedAtPath env s path context =
     (case lastExpression s of
        None \<Rightarrow> Inl TypeError
      | Some e \<Rightarrow> Inr (entity_hasEffectsWhenAssignedAtPath env (Entity e) path context))"

definition SequenceExpression_hasEffectsWhenCalledAtPath ::
  "Entities \<Rightarrow> Node \<Rightarrow> ObjectPath \<Rightarrow> CallOptions \<Rightarrow> HasEffectsContext \<Rightarrow> JsError + bool" where
  "SequenceExpression_hasEffectsWhenCalledAtPath env s path callOptions context =
     (case lastExpression s of
        None \<Rightarrow> Inl TypeError
      | Some e \<Rightarrow> Inr (entity_hasEffectsWhenCalledAtPath env (Entity e) path callOptions context))"

text \<open>\<open>this.parent instanceof ExpressionStatement\<close>, read in the current arena.\<close>

definition parentIsExpressionStatement :: "Nodes \<Rightarrow> nat \<Rightarrow> bool" where
  "parentIsExpressionStatement nodes this_node =
     (case node_at nodes this_node of
        None \<Rightarrow> False
      | Some s \<Rightarrow>
          (case parent s of
             None \<Rightarrow> False
           | Some p \<Rightarrow>
               (case node_at nodes p of
                  None \<Rightarrow> False
                | Some pn \<Rightarrow> type pn = ExpressionStatement)))"

text \<open>The test of the loop of \<open>include\<close> for one expression, and the loop. Besides the
  arena the loop returns the \<open>include\<close> calls it made on the children, in order.\<close>

definition includesExpression ::
  "NodeMethods \<Rightarrow> nat \<Rightarrow> nat option \<Rightarrow> InclusionContext \<Rightarrow> bool \<Rightarrow> nat \<Rightarrow> Nodes \<Rightarrow> bool" where
  "includesExpression methods this_node lastExpr context includeChildrenRecursively expression nodes =
     (includeChildrenRecursively
      \<or> (Some expression = lastExpr \<and> \<not> parentIsExpressionStatement nodes this_node)
      \<or> node_shouldBeIncluded methods expression context nodes)"

fun includeExpressions ::
  "NodeMethods \<Rightarrow> nat \<Rightarrow> nat option \<Rightarrow> InclusionContext \<Rightarrow> bool \<Rightarrow> nat list \<Rightarrow> Nodes
     \<Rightarrow> Nodes \<times> Call list" where
  "includeExpressions methods this_node lastExpr context r [] nodes = (nodes, [])"
| "includeExpressions methods this_node lastExpr context r (expression # rest) nodes =
     (if includesExpression methods this_node lastExpr context r expression nodes
      then (let (nodes', calls) =
                  includeExpressions methods this_node lastExpr context r rest
                    (node_include methods expression context r nodes)
            in (nodes', Call_include (Entity expression) r # calls))
      else includeExpressions methods this_node lastExpr context r rest nodes)"

definition SequenceExpression_include ::
  "NodeMethods \<Rightarrow> nat \<Rightarrow> InclusionContext \<Rightarrow> bool \<Rightarrow> Nodes \<Rightarrow> JsError + Nodes \<times> Call list" where
  "SequenceExpression_include methods this_node context includeChildrenRecursively nodes =
     (case node_at nodes this_node of
        None \<Rightarrow> Inl TypeError
      | Some s \<Rightarrow>
          Inr (includeExpressions methods this_node (lastExpression s) context
                 includeChildrenRecursively (expressions s) (set_included nodes this_node)))"

text \<open>The arena as it is when the loop of \<open>include\<close> reaches the expression at position
  \<open>i\<close>: after \<open>this.included = true\<close> and the rounds for the expressions before it.\<close>

definition nodesBeforeExpression ::
  "NodeMethods \<Rightarrow> nat \<Rightarrow> InclusionContext \<Rightarrow> bool \<Rightarrow> Nodes \<Rightarrow> nat \<Rightarrow> Nodes" where
  "nodesBeforeExpression methods this_node context r nodes i =
     (case node_at nodes this_node of
        None \<Rightarrow> nodes
      | Some s \<Rightarrow>
          fst (includeExpressions methods this_node (lastExpression s) context r
                 (take i (expressions s)) (set_included nodes this_node)))"

text \<open>An arena for the examples: the statement \<open>(a, b, c);\<close> is node 1 under the program
  node 0, and the declaration \<open>x = (d, e)\<close> is node 6 with the sequence node 7. The
  example methods say that exactly the nodes 3 and 8 should be included, and \<open>include\<close>
  sets the flag of the node it is called on.\<close>

definition example_nodes :: Nodes where
  "example_nodes =
     [\<lparr>type = Program, parent = None, included = False, expressions = [], body = [1, 6]\<rparr>,
      \<lparr>type = ExpressionStatement, parent = Some 0, included = False, expressions = [], body = []\<rparr>,
      \<lparr>type = SequenceExpression, parent = Some 1, included = False, expressions = [3, 4, 5], body = []\<rparr>,
      \<lparr>type = OtherNode ''CallExpression'', parent = Some 2, included = False, expressions = [], body = []\<rparr>,
      \<lparr>type = OtherNode ''Identifier'', parent = Some 2, included = False, expressions = [], body = []\<rparr>,
      \<lparr>type = OtherNode ''Identifier'', parent = Some 2, included = False, expressions = [], body = []\<rparr>,
      \<lparr>type = OtherNode ''VariableDeclarator'', parent = Some 0, included = False, expressions = [], body = []\<rparr>,
      \<lparr>type = SequenceExpression, parent = Some 6, included = False, expressions = [8, 9], body = []\<rparr>,
      \<lparr>type = OtherNode ''CallExpression'', parent = Some 7, included = False, expressions = [], body = []\<rparr>,
      \<lparr>type = OtherNode ''Identifier'', parent = Some 7, included = False, expressions = [], body = []\<rparr>]"

definition example_methods :: NodeMethods where
  "example_methods =
     \<lparr>node_hasEffects = (\<lambda>n _. n = 3 \<or> n = 8),
      node_shouldBeIncluded = (\<lambda>n _ _. n = 3 \<or> n = 8),
      node_include = (\<lambda>n _ _ nodes. set_included nodes n)\<rparr>"


section \<open>Modules, variables and the graph\<close>

text \<open>
  Modules refer to each other and variables refer to their modules, so the module graph
  is an arena: \<open>modulesById\<close> maps a module id to the module, and every reference to a
  module is its id (the field \<open>id\<close> of a module is the key it is stored under). A variable is identified by what it is: the class of the variable,
  its module and its name (the caches \<open>syntheticExports\<close> and the per-module
  \<open>namespace\<close> and \<open>exportShimVariable\<close> make these objects unique in the code).
\<close>

type_synonym ModuleId = string

datatype ModuleSideEffects = SideEffects bool | NoTreeshake

datatype SyntheticNamedExports = Synthetic bool | SyntheticName string

text \<open>JavaScript truthiness of the two option values: \<open>false\<close> and the empty string are
  falsy.\<close>

fun truthy_moduleSideEffects :: "ModuleSideEffects \<Rightarrow> bool" where
  "truthy_moduleSideEffects (SideEffects b) = b"
| "truthy_moduleSideEffects NoTreeshake = True"

fun truthy_syntheticNamedExports :: "SyntheticNamedExports \<Rightarrow> bool" where
  "truthy_syntheticNamedExports (Synthetic b) = b"
| "truthy_syntheticNamedExports (SyntheticName s) = (s \<noteq> [])"

datatype Variable =
    Var_Local ModuleId string
  | Var_ExportDefault ModuleId
  | Var_Namespace ModuleId
  | Var_External ModuleId string
  | Var_SyntheticNamedExport ModuleId string Variable
  | Var_ExportShim ModuleId

text \<open>\<open>variable.module\<close>, and the tests \<open>variable instanceof SyntheticNamedExportVariable\<close>
  and \<open>variable.module instanceof Module\<close> (the module of an ExternalVariable is an
  ExternalModule).\<close>

fun Variable_module :: "Variable \<Rightarrow> ModuleId" where
  "Variable_module (Var_Local m _) = m"
| "Variable_module (Var_ExportDefault m) = m"
| "Variable_module (Var_Namespace m) = m"
| "Variable_module (Var_External m _) = m"
| "Variable_module (Var_SyntheticNamedExport m _ _) = m"
| "Variable_module (Var_ExportShim m) = m"

fun isSyntheticNamedExportVariable :: "Variable \<Rightarrow> bool" where
  "isSyntheticNamedExportVariable (Var_SyntheticNamedExport _ _ _) = True"
| "isSyntheticNamedExportVariable _ = False"

fun isExternalVariable :: "Variable \<Rightarrow> bool" where
  "isExternalVariable (Var_External _ _) = True"
| "isExternalVariable _ = False"

fun isExportDefaultVariable :: "Variable \<Rightarrow> bool" where
  "isExportDefaultVariable (Var_ExportDefault _) = True"
| "isExportDefaultVariable _ = False"

record ImportDescription =
  module :: ModuleId
  name :: string
  source :: string
  start :: nat

record ReexportDescription =
  localName :: string
  module :: ModuleId
  source :: string
  start :: nat

text \<open>An export description is compared by identity with the constant
  \<open>MISSING_EXPORT_SHIM_DESCRIPTION\<close>; other descriptions carry \<open>identifier\<close> and
  \<open>localName\<close>.\<close>

datatype ExportDescription =
    MISSING_EXPORT_SHIM_DESCRIPTION
  | ExportDescription "string option" string

record ModuleInfo =
  isEntry :: bool
  moduleSideEffects :: ModuleSideEffects
  syntheticNamedExports :: SyntheticNamedExports

text \<open>\<open>null\<close>, \<open>undefined\<close> or a value: \<open>syntheticNamespace\<close> uses all three.\<close>

datatype 'a Nullable = Null | Undefined | Value 'a

text \<open>
  The fields of Module that the resolver, the dependency selector and the inclusion of
  variables use. A JavaScript Map or Set that the code iterates is a list in insertion
  order; one that is only looked up is a map or a set.
\<close>

record Module =
  info :: ModuleInfo
  ast :: "nat option"
  alternativeReexportModules :: "Variable \<rightharpoonup> ModuleId"
  cycles :: "nat set"
  dependencies :: "ModuleId list"
  exportAllModules :: "ModuleId list"
  exports :: "(string \<times> ExportDescription) list"
  implicitlyLoadedAfter :: "ModuleId list"
  importDescriptions :: "string \<rightharpoonup> ImportDescription"
  module_imports :: "Variable list"
  includedDynamicImporters :: "ModuleId list"
  isExecuted :: bool
  namespaceReexportsByName :: "string \<rightharpoonup> Variable option \<times> bool"
  reexportDescriptions :: "(string \<times> ReexportDescription) list"
  relevantDependencies :: "ModuleId list option"
  scope_variables :: "string \<rightharpoonup> Variable"
  sideEffectDependenciesByVariable :: "Variable \<rightharpoonup> ModuleId list"
  syntheticExports :: "string \<rightharpoonup> Variable"
  syntheticNamespace :: "Variable Nullable"
  transitiveReexports :: "string list option"

text \<open>Modelled from the spec: the class ExternalModule is not among the sources. An
  external module has its \<open>info\<close> and a flag \<open>reexported\<close> (spec 4.3, 6).\<close>

record ExternalModule =
  external_info :: ModuleInfo
  reexported :: bool

datatype GraphModule = Internal Module | External ExternalModule

fun GraphModule_info :: "GraphModule \<Rightarrow> ModuleInfo" where
  "GraphModule_info (Internal m) = info m"
| "GraphModule_info (External e) = external_info e"

datatype RollupWarning =
    NAMESPACE_CONFLICT string ModuleId "ModuleId list"
  | AMBIGUOUS_EXTERNAL_NAMESPACES string ModuleId ModuleId "ModuleId list"
  | SHIMMED_EXPORT ModuleId string

datatype RollupError =
    CIRCULAR_REEXPORT string ModuleId
  | MISSING_EXPORT string ModuleId ModuleId nat
  | SYNTHETIC_NAMED_EXPORTS_NEED_NAMESPACE_EXPORT ModuleId SyntheticNamedExports
  | JsTypeError

text \<open>The graph with what is shared by its modules: the options (\<open>treeshake\<close>,
  \<open>shimMissingExports\<close>), the warnings handed to \<open>onwarn\<close> (oldest first), the flag
  \<open>needsTreeshakingPass\<close> and the \<open>included\<close> flags of the variables.\<close>

record Graph =
  modulesById :: "ModuleId \<rightharpoonup> GraphModule"
  treeshake :: bool
  shimMissingExports :: bool
  warnings :: "RollupWarning list"
  needsTreeshakingPass :: bool
  includedVariables :: "Variable set"

text \<open>What a call does: it returns a value and leaves a graph, or it throws, or (for the
  recursive functions, which are given fuel) it has not returned when the fuel is used up.\<close>

datatype 'a Outcome = OutOfFuel | Throw RollupError | Return 'a Graph

definition updateModule :: "ModuleId \<Rightarrow> (Module \<Rightarrow> Module) \<Rightarrow> Graph \<Rightarrow> Graph" where
  "updateModule m f g =
     (case modulesById g m of
        Some (Internal md) \<Rightarrow> g\<lparr>modulesById := (modulesById g)(m \<mapsto> Internal (f md))\<rparr>
      | _ \<Rightarrow> g)"

definition onwarn :: "RollupWarning \<Rightarrow> Graph \<Rightarrow> Graph" where
  "onwarn w g = g\<lparr>warnings := warnings g @ [w]\<rparr>"

text \<open>\<open>Set.add\<close> and \<open>Map.set\<close> on collections kept in insertion order.\<close>

definition Set_add :: "'a \<Rightarrow> 'a list \<Rightarrow> 'a list" where
  "Set_add x xs = (if x \<in> set xs then xs else xs @ [x])"

fun Map_set :: "'k \<Rightarrow> 'v \<Rightarrow> ('k \<times> 'v) list \<Rightarrow> ('k \<times> 'v) list" where
  "Map_set k v [] = [(k, v)]"
| "Map_set k v (p # ps) = (if fst p = k then (k, v) # ps else p # Map_set k v ps)"

section \<open>The resolver\<close>

text \<open>
  \<open>getVariableForExportName\<close>, \<open>getVariableForExportNameRecursive\<close>, \<open>traceVariable\<close>,
  \<open>getSyntheticNamespace\<close> and \<open>getVariableFromNamespaceReexports\<close> call each other across
  modules, and an import cycle makes them run forever. Each is written here with the
  method \<open>getVariableForExportName\<close> of internal modules as a parameter \<open>gv\<close> (every
  recursion goes through it); \<open>Module_getVariableForExportName\<close> then closes the
  recursion with fuel.

  \<open>searchedNamesAndModules\<close> is an optional reference to a map that the callees update in
  place. The model hands the map down and returns it updated; a caller that passed
  \<open>undefined\<close> gets \<open>None\<close> back (the map created for it is not its own). The optional
  second component \<open>indirectExternal\<close> of a result is a boolean, absent meaning false.
\<close>

type_synonym Searched = "string \<rightharpoonup> ModuleId set"

type_synonym Resolution = "(Variable option \<times> bool) \<times> Searched option"

record ResolveOptions =
  importerForSideEffects :: "ModuleId option"
  isExportAllSearch :: bool
  onlyExplicit :: bool
  searchedNamesAndModules :: "Searched option"

type_synonym Resolver = "ModuleId \<Rightarrow> string \<Rightarrow> ResolveOptions \<Rightarrow> Graph \<Rightarrow> Resolution Outcome"

definition bind :: "'a Outcome \<Rightarrow> ('a \<Rightarrow> Graph \<Rightarrow> 'b Outcome) \<Rightarrow> 'b Outcome" where
  "bind x f = (case x of OutOfFuel \<Rightarrow> OutOfFuel | Throw e \<Rightarrow> Throw e | Return a g \<Rightarrow> f a g)"

text \<open>Modelled from the spec: \<open>ExternalModule.getVariableForExportName\<close> is not among the
  sources. Spec 3 and 4.4: an external variable is a name (or \<open>*\<close>) imported from an
  external module; querying the external module gives that variable.\<close>

definition ExternalModule_getVariableForExportName ::
  "ModuleId \<Rightarrow> string \<Rightarrow> Searched option \<Rightarrow> Graph \<Rightarrow> Resolution Outcome" where
  "ExternalModule_getVariableForExportName this_module nm searched g =
     Return ((Some (Var_External this_module nm), False), searched) g"

text \<open>\<open>target.getVariableForExportName(name, options)\<close> on a \<open>Module | ExternalModule\<close>. A
  reference that was never linked is \<open>null\<close>.\<close>

definition target_getVariableForExportName ::
  "Resolver \<Rightarrow> ModuleId \<Rightarrow> string \<Rightarrow> ResolveOptions \<Rightarrow> Graph \<Rightarrow> Resolution Outcome" where
  "target_getVariableForExportName gv target nm opts g =
     (case modulesById g target of
        None \<Rightarrow> Throw JsTypeError
      | Some (External e) \<Rightarrow>
          ExternalModule_getVariableForExportName target nm (searchedNamesAndModules opts) g
      | Some (Internal m) \<Rightarrow> gv target nm opts g)"

definition getVariableForExportNameRecursive ::
  "Resolver \<Rightarrow> ModuleId \<Rightarrow> string \<Rightarrow> ModuleId option \<Rightarrow> bool \<Rightarrow> Searched option \<Rightarrow> Graph
     \<Rightarrow> Resolution Outcome" where
  "getVariableForExportNameRecursive gv target nm importer exportAllSearch searched g =
     (let searchedMap = (case searched of None \<Rightarrow> Map.empty | Some s \<Rightarrow> s);
          call = (\<lambda>searchedMap'.
            bind (target_getVariableForExportName gv target nm
                    \<lparr>importerForSideEffects = importer, isExportAllSearch = exportAllSearch,
                     onlyExplicit = False, searchedNamesAndModules = Some searchedMap'\<rparr> g)
                 (\<lambda>(found, searched') g'.
                    Return (found, (case searched of None \<Rightarrow> None | Some _ \<Rightarrow> searched')) g'))
      in case searchedMap nm of
           Some searchedModules \<Rightarrow>
             if target \<in> searchedModules then
               (if exportAllSearch then Return ((None, False), searched) g
                else Throw (CIRCULAR_REEXPORT nm target))
             else call (searchedMap(nm \<mapsto> insert target searchedModules))
         | None \<Rightarrow> call (searchedMap(nm \<mapsto> {target})))"

definition setAlternativeExporterIfCyclic :: "Variable \<Rightarrow> ModuleId \<Rightarrow> ModuleId \<Rightarrow> Graph \<Rightarrow> Graph" where
  "setAlternativeExporterIfCyclic variable importer reexporter g =
     (case modulesById g (Variable_module variable) of
        Some (Internal variableModule) \<Rightarrow>
          if \<not> isExternalVariable variable \<and> Variable_module variable \<noteq> reexporter then
            (case modulesById g reexporter of
               Some (Internal r) \<Rightarrow>
                 if cycles variableModule \<noteq> {} \<and> (\<exists>cycleSymbol \<in> cycles r. cycleSymbol \<in> cycles variableModule)
                 then updateModule importer
                        (\<lambda>m. m\<lparr>alternativeReexportModules :=
                                  (alternativeReexportModules m)(variable \<mapsto> reexporter)\<rparr>) g
                 else g
             | _ \<Rightarrow> g)
          else g
      | _ \<Rightarrow> g)"

definition Module_traceVariable ::
  "Resolver \<Rightarrow> ModuleId \<Rightarrow> string \<Rightarrow> ModuleId option \<Rightarrow> Graph \<Rightarrow> Variable option Outcome" where
  "Module_traceVariable gv this_module nm importer g =
     (case modulesById g this_module of
        Some (Internal m) \<Rightarrow>
          (case scope_variables m nm of
             Some localVariable \<Rightarrow> Return (Some localVariable) g
           | None \<Rightarrow>
               (case importDescriptions m nm of
                  Some importDeclaration \<Rightarrow>
                    (let otherModule = ImportDescription.module importDeclaration in
                     case modulesById g otherModule of
                       None \<Rightarrow> Throw JsTypeError
                     | Some om \<Rightarrow>
                         if (case om of Internal _ \<Rightarrow> True | External _ \<Rightarrow> False)
                            \<and> ImportDescription.name importDeclaration = ''*''
                         then Return (Some (Var_Namespace otherModule)) g
                         else
                           bind (target_getVariableForExportName gv otherModule
                                   (ImportDescription.name importDeclaration)
                                   \<lparr>importerForSideEffects =
                                      Some (case importer of Some i \<Rightarrow> i | None \<Rightarrow> this_module),
                                    isExportAllSearch = False, onlyExplicit = False,
                                    searchedNamesAndModules = None\<rparr> g)
                                (\<lambda>((declaration, _), _) g'.
                                   case declaration of
                                     None \<Rightarrow>
                                       Throw (MISSING_EXPORT (ImportDescription.name importDeclaration)
                                                this_module otherModule
                                                (ImportDescription.start importDeclaration))
                                   | Some d \<Rightarrow> Return (Some d) g'))
                | None \<Rightarrow> Return None g))
      | _ \<Rightarrow> Throw JsTypeError)"

definition Module_getSyntheticNamespace :: "Resolver \<Rightarrow> ModuleId \<Rightarrow> Graph \<Rightarrow> Variable Outcome" where
  "Module_getSyntheticNamespace gv this_module g =
     (case modulesById g this_module of
        Some (Internal m) \<Rightarrow>
          bind (if syntheticNamespace m = Null then
                  bind (gv this_module
                          (case syntheticNamedExports (info m) of
                             SyntheticName s \<Rightarrow> s
                           | Synthetic _ \<Rightarrow> ''default'')
                          \<lparr>importerForSideEffects = None, isExportAllSearch = False,
                           onlyExplicit = True, searchedNamesAndModules = None\<rparr>
                          (updateModule this_module (\<lambda>m. m\<lparr>syntheticNamespace := Undefined\<rparr>) g))
                       (\<lambda>((variable, _), _) g'.
                          Return ()
                            (updateModule this_module
                               (\<lambda>m. m\<lparr>syntheticNamespace :=
                                         (case variable of None \<Rightarrow> Null | Some v \<Rightarrow> Value v)\<rparr>) g'))
                else Return () g)
               (\<lambda>_ g'.
                  case modulesById g' this_module of
                    Some (Internal m') \<Rightarrow>
                      (case syntheticNamespace m' of
                         Value v \<Rightarrow> Return v g'
                       | _ \<Rightarrow>
                           Throw (SYNTHETIC_NAMED_EXPORTS_NEED_NAMESPACE_EXPORT this_module
                                    (syntheticNamedExports (info m'))))
                  | _ \<Rightarrow> Throw JsTypeError)
      | _ \<Rightarrow> Throw JsTypeError)"

text \<open>The three collections of \<open>getVariableFromNamespaceReexports\<close>. The set of external
  declarations receives \<open>variable as ExternalVariable\<close> unchecked, so it can hold \<open>null\<close>.\<close>

record FoundDeclarations =
  foundSyntheticDeclaration :: "Variable option"
  foundInternalDeclarations :: "(Variable \<times> ModuleId) list"
  foundExternalDeclarations :: "Variable option list"

definition noDeclarations :: FoundDeclarations where
  "noDeclarations =
     \<lparr>foundSyntheticDeclaration = None, foundInternalDeclarations = [],
      foundExternalDeclarations = []\<rparr>"

text \<open>The if-chain at the end of the loop body: where the result of one probe goes.\<close>

definition addFoundDeclaration ::
  "bool \<Rightarrow> ModuleId \<Rightarrow> Variable option \<Rightarrow> bool \<Rightarrow> FoundDeclarations \<Rightarrow> FoundDeclarations" where
  "addFoundDeclaration moduleIsExternal md variable indirectExternal found =
     (if moduleIsExternal \<or> indirectExternal then
        found\<lparr>foundExternalDeclarations := Set_add variable (foundExternalDeclarations found)\<rparr>
      else case variable of
        None \<Rightarrow> found
      | Some v \<Rightarrow>
          if isSyntheticNamedExportVariable v then
            (if foundSyntheticDeclaration found = None
             then found\<lparr>foundSyntheticDeclaration := Some v\<rparr>
             else found)
          else found\<lparr>foundInternalDeclarations := Map_set v md (foundInternalDeclarations found)\<rparr>)"

fun probeExportAllModules ::
  "Resolver \<Rightarrow> string \<Rightarrow> ModuleId option \<Rightarrow> ModuleId list \<Rightarrow> FoundDeclarations \<Rightarrow> Searched option
     \<Rightarrow> Graph \<Rightarrow> (FoundDeclarations \<times> Searched option) Outcome" where
  "probeExportAllModules gv nm importer [] found searched g = Return (found, searched) g"
| "probeExportAllModules gv nm importer (md # rest) found searched g =
     (case modulesById g md of
        None \<Rightarrow> Throw JsTypeError
      | Some gm \<Rightarrow>
          if syntheticNamedExports (GraphModule_info gm) = SyntheticName nm
          then probeExportAllModules gv nm importer rest found searched g
          else
            (case getVariableForExportNameRecursive gv md nm importer True searched g of
               OutOfFuel \<Rightarrow> OutOfFuel
             | Throw e \<Rightarrow> Throw e
             | Return ((variable, indirectExternal), searched') g' \<Rightarrow>
                 probeExportAllModules gv nm importer rest
                   (addFoundDeclaration (case gm of External _ \<Rightarrow> True | Internal _ \<Rightarrow> False)
                      md variable indirectExternal found)
                   searched' g'))"

text \<open>The part of \<open>getVariableFromNamespaceReexports\<close> after the loop.\<close>

definition resolveFoundDeclarations ::
  "ModuleId \<Rightarrow> string \<Rightarrow> FoundDeclarations \<Rightarrow> Graph \<Rightarrow> (Variable option \<times> bool) Outcome" where
  "resolveFoundDeclarations this_module nm found g =
     (if length (foundInternalDeclarations found) > 0 then
        (case foundInternalDeclarations found of
           [(usedDeclaration, _)] \<Rightarrow> Return (Some usedDeclaration, False) g
         | foundDeclarationList \<Rightarrow>
             Return (None, False)
               (onwarn (NAMESPACE_CONFLICT nm this_module (map snd foundDeclarationList)) g))
      else if length (foundExternalDeclarations found) > 0 then
        (let foundDeclarationList = foundExternalDeclarations found;
             usedDeclaration = hd foundDeclarationList
         in if length foundDeclarationList > 1 then
              (case those foundDeclarationList of
                 None \<Rightarrow> Throw JsTypeError
               | Some externalVariables \<Rightarrow>
                   Return (usedDeclaration, True)
                     (onwarn (AMBIGUOUS_EXTERNAL_NAMESPACES nm this_module
                                (Variable_module (hd externalVariables))
                                (map Variable_module externalVariables)) g))
            else Return (usedDeclaration, True) g)
      else case foundSyntheticDeclaration found of
        Some s \<Rightarrow> Return (Some s, False) g
      | None \<Rightarrow> Return (None, False) g)"

definition Module_getVariableFromNamespaceReexports ::
  "Resolver \<Rightarrow> ModuleId \<Rightarrow> string \<Rightarrow> ModuleId option \<Rightarrow> Searched option \<Rightarrow> Graph
     \<Rightarrow> Resolution Outcome" where
  "Module_getVariableFromNamespaceReexports gv this_module nm importer searched g =
     (case modulesById g this_module of
        Some (Internal m) \<Rightarrow>
          bind (probeExportAllModules gv nm importer (exportAllModules m) noDeclarations searched g)
               (\<lambda>(found, searched') g'.
                  bind (resolveFoundDeclarations this_module nm found g')
                       (\<lambda>result g''. Return (result, searched') g''))
      | _ \<Rightarrow> Throw JsTypeError)"

definition Module_shimMissingExport :: "ModuleId \<Rightarrow> string \<Rightarrow> Graph \<Rightarrow> Graph" where
  "Module_shimMissingExport this_module nm g =
     updateModule this_module
       (\<lambda>m. m\<lparr>exports := Map_set nm MISSING_EXPORT_SHIM_DESCRIPTION (exports m)\<rparr>)
       (onwarn (SHIMMED_EXPORT this_module nm) g)"

text \<open>The end of \<open>getVariableForExportName\<close>, from the test of \<open>syntheticNamedExports\<close> on.\<close>

definition syntheticOrShimOrNull ::
  "Resolver \<Rightarrow> ModuleId \<Rightarrow> string \<Rightarrow> ResolveOptions \<Rightarrow> Searched option \<Rightarrow> Graph
     \<Rightarrow> Resolution Outcome" where
  "syntheticOrShimOrNull gv this_module nm opts searched g =
     (case modulesById g this_module of
        Some (Internal m) \<Rightarrow>
          if truthy_syntheticNamedExports (syntheticNamedExports (info m)) then
            (case syntheticExports m nm of
               Some v \<Rightarrow> Return ((Some v, False), searched) g
             | None \<Rightarrow>
                 bind (Module_getSyntheticNamespace gv this_module g)
                      (\<lambda>ns g'.
                         Return ((Some (Var_SyntheticNamedExport this_module nm ns), False), searched)
                           (updateModule this_module
                              (\<lambda>m. m\<lparr>syntheticExports :=
                                        (syntheticExports m)
                                          (nm \<mapsto> Var_SyntheticNamedExport this_module nm ns)\<rparr>) g')))
          else if \<not> isExportAllSearch opts \<and> shimMissingExports g then
            Return ((Some (Var_ExportShim this_module), False), searched)
              (Module_shimMissingExport this_module nm g)
          else Return ((None, False), searched) g
      | _ \<Rightarrow> Throw JsTypeError)"

definition Module_getVariableForExportName_body ::
  "Resolver \<Rightarrow> ModuleId \<Rightarrow> string \<Rightarrow> ResolveOptions \<Rightarrow> Graph \<Rightarrow> Resolution Outcome" where
  "Module_getVariableForExportName_body gv this_module nm opts g =
     (let importer = importerForSideEffects opts;
          searched = searchedNamesAndModules opts
      in case modulesById g this_module of
        Some (Internal m) \<Rightarrow>
          if nm \<noteq> [] \<and> hd nm = CHR ''*'' then
            (if length nm = 1 then Return ((Some (Var_Namespace this_module), False), searched) g
             else
               bind (target_getVariableForExportName gv (tl nm) ''*''
                       \<lparr>importerForSideEffects = None, isExportAllSearch = False,
                        onlyExplicit = False, searchedNamesAndModules = None\<rparr> g)
                    (\<lambda>(found, _) g'. Return (found, searched) g'))
          else
            (case map_of (reexportDescriptions m) nm of
               Some reexportDeclaration \<Rightarrow>
                 bind (getVariableForExportNameRecursive gv
                         (ReexportDescription.module reexportDeclaration)
                         (localName reexportDeclaration) importer False searched g)
                      (\<lambda>((variable, _), searched') g'.
                         case variable of
                           None \<Rightarrow>
                             Throw (MISSING_EXPORT (localName reexportDeclaration) this_module
                                      (ReexportDescription.module reexportDeclaration)
                                      (ReexportDescription.start reexportDeclaration))
                         | Some v \<Rightarrow>
                             Return ((Some v, False), searched')
                               (case importer of
                                  Some i \<Rightarrow> setAlternativeExporterIfCyclic v i this_module g'
                                | None \<Rightarrow> g'))
             | None \<Rightarrow>
                 (case map_of (exports m) nm of
                    Some MISSING_EXPORT_SHIM_DESCRIPTION \<Rightarrow>
                      Return ((Some (Var_ExportShim this_module), False), searched) g
                  | Some (ExportDescription identifier local) \<Rightarrow>
                      bind (Module_traceVariable gv this_module local importer g)
                           (\<lambda>variable g'.
                              case importer of
                                None \<Rightarrow> Return ((variable, False), searched) g'
                              | Some i \<Rightarrow>
                                  (case variable of
                                     None \<Rightarrow> Throw JsTypeError
                                   | Some v \<Rightarrow>
                                       Return ((Some v, False), searched)
                                         (setAlternativeExporterIfCyclic v i this_module
                                            (updateModule i
                                               (\<lambda>im. im\<lparr>sideEffectDependenciesByVariable :=
                                                    (sideEffectDependenciesByVariable im)
                                                      (v \<mapsto> Set_add this_module
                                                          (case sideEffectDependenciesByVariable im v of
                                                             None \<Rightarrow> []
                                                           | Some s \<Rightarrow> s))\<rparr>)
                                               g'))))
                  | None \<Rightarrow>
                      if onlyExplicit opts then Return ((None, False), searched) g
                      else if nm \<noteq> ''default'' then
                        bind (case namespaceReexportsByName m nm of
                                Some memo \<Rightarrow> Return (memo, searched) g
                              | None \<Rightarrow>
                                  Module_getVariableFromNamespaceReexports gv this_module nm
                                    importer searched g)
                             (\<lambda>(foundNamespaceReexport, searched') g'.
                                let g'' = updateModule this_module
                                            (\<lambda>m. m\<lparr>namespaceReexportsByName :=
                                                      (namespaceReexportsByName m)
                                                        (nm \<mapsto> foundNamespaceReexport)\<rparr>) g'
                                in if fst foundNamespaceReexport \<noteq> None
                                   then Return (foundNamespaceReexport, searched') g''
                                   else syntheticOrShimOrNull gv this_module nm opts searched' g'')
                      else syntheticOrShimOrNull gv this_module nm opts searched g))
      | _ \<Rightarrow> Throw JsTypeError)"

primrec Module_getVariableForExportName :: "nat \<Rightarrow> Resolver" where
  "Module_getVariableForExportName 0 = (\<lambda>this_module nm opts g. OutOfFuel)"
| "Module_getVariableForExportName (Suc fuel) =
     Module_getVariableForExportName_body (Module_getVariableForExportName fuel)"

text \<open>A call with no options, as most callers make it.\<close>

definition noOptions :: ResolveOptions where
  "noOptions =
     \<lparr>importerForSideEffects = None, isExportAllSearch = False, onlyExplicit = False,
      searchedNamesAndModules = None\<rparr>"

text \<open>The field values the constructor of Module sets, for its arguments \<open>isEntry\<close>,
  \<open>moduleSideEffects\<close> and \<open>syntheticNamedExports\<close>.\<close>

definition Module_new :: "bool \<Rightarrow> ModuleSideEffects \<Rightarrow> SyntheticNamedExports \<Rightarrow> Module" where
  "Module_new entry sideEffects synthetic =
     \<lparr>info = \<lparr>isEntry = entry, moduleSideEffects = sideEffects, syntheticNamedExports = synthetic\<rparr>,
      ast = None, alternativeReexportModules = Map.empty, cycles = {}, dependencies = [],
      exportAllModules = [], exports = [], implicitlyLoadedAfter = [],
      importDescriptions = Map.empty, module_imports = [], includedDynamicImporters = [],
      isExecuted = False, namespaceReexportsByName = Map.empty, reexportDescriptions = [],
      relevantDependencies = None, scope_variables = Map.empty,
      sideEffectDependenciesByVariable = Map.empty, syntheticExports = Map.empty,
      syntheticNamespace = Null, transitiveReexports = None\<rparr>"

definition Graph_new :: "(ModuleId \<times> GraphModule) list \<Rightarrow> Graph" where
  "Graph_new modules =
     \<lparr>modulesById = map_of modules, treeshake = True, shimMissingExports = False,
      warnings = [], needsTreeshakingPass = False, includedVariables = {}\<rparr>"

section \<open>Effects and relevant dependencies of a module\<close>

text \<open>\<open>ast\<close> of a module is the index of its program node in the arena. Modelled from the
  spec: the class Program (ast/nodes/Program) is not among the sources. A program node
  has its \<open>included\<close> flag and its top-level statements \<open>body\<close>, nodes of the arena (spec
  4.2); spec 4.3 words what \<open>Module.hasEffects\<close> asks of it as "whether any included
  top-level statement has effects".\<close>

definition Program_hasEffects :: "NodeMethods \<Rightarrow> Nodes \<Rightarrow> Node \<Rightarrow> HasEffectsContext \<Rightarrow> bool" where
  "Program_hasEffects methods nodes program context =
     list_ex (\<lambda>statement.
                (case node_at nodes statement of
                   None \<Rightarrow> False
                 | Some n \<Rightarrow> Node.included n \<and> node_hasEffects methods statement context))
             (body program)"

definition Module_hasEffects :: "NodeMethods \<Rightarrow> Nodes \<Rightarrow> Module \<Rightarrow> RollupError + bool" where
  "Module_hasEffects methods nodes m =
     (if moduleSideEffects (info m) = NoTreeshake then Inr True
      else case ast m of
        None \<Rightarrow> Inl JsTypeError
      | Some p \<Rightarrow>
          (case node_at nodes p of
             None \<Rightarrow> Inl JsTypeError
           | Some program \<Rightarrow>
               Inr (Node.included program
                    \<and> Program_hasEffects methods nodes program createHasEffectsContext)))"

definition Module_getExports :: "Module \<Rightarrow> string list" where
  "Module_getExports m = map fst (exports m)"

text \<open>\<open>getReexports\<close> recurses through the \<open>export *\<close> targets; \<open>transitiveReexports\<close> is set
  to the empty array before the recursion, which stops a cycle. \<open>gr\<close> is the method itself
  on the other modules.\<close>

fun collectReexports ::
  "(ModuleId \<Rightarrow> Graph \<Rightarrow> string list Outcome) \<Rightarrow> ModuleId list \<Rightarrow> string list \<Rightarrow> Graph
     \<Rightarrow> string list Outcome" where
  "collectReexports gr [] reexports g = Return reexports g"
| "collectReexports gr (md # rest) reexports g =
     (case modulesById g md of
        None \<Rightarrow> Throw JsTypeError
      | Some (External e) \<Rightarrow> collectReexports gr rest (Set_add (CHR ''*'' # md) reexports) g
      | Some (Internal om) \<Rightarrow>
          (case gr md g of
             OutOfFuel \<Rightarrow> OutOfFuel
           | Throw e \<Rightarrow> Throw e
           | Return names g' \<Rightarrow>
               (case modulesById g' md of
                  Some (Internal om') \<Rightarrow>
                    collectReexports gr rest
                      (foldl (\<lambda>acc n. if n \<noteq> ''default'' then Set_add n acc else acc) reexports
                         (names @ Module_getExports om'))
                      g'
                | _ \<Rightarrow> Throw JsTypeError)))"

definition Module_getReexports_body ::
  "(ModuleId \<Rightarrow> Graph \<Rightarrow> string list Outcome) \<Rightarrow> ModuleId \<Rightarrow> Graph \<Rightarrow> string list Outcome" where
  "Module_getReexports_body gr this_module g =
     (case modulesById g this_module of
        Some (Internal m) \<Rightarrow>
          (case transitiveReexports m of
             Some r \<Rightarrow> Return r g
           | None \<Rightarrow>
               bind (collectReexports gr (exportAllModules m) (map fst (reexportDescriptions m))
                       (updateModule this_module (\<lambda>m. m\<lparr>transitiveReexports := Some []\<rparr>) g))
                    (\<lambda>reexports g'.
                       Return reexports
                         (updateModule this_module
                            (\<lambda>m. m\<lparr>transitiveReexports := Some reexports\<rparr>) g')))
      | _ \<Rightarrow> Throw JsTypeError)"

primrec Module_getReexports :: "nat \<Rightarrow> ModuleId \<Rightarrow> Graph \<Rightarrow> string list Outcome" where
  "Module_getReexports 0 = (\<lambda>this_module g. OutOfFuel)"
| "Module_getReexports (Suc fuel) = Module_getReexports_body (Module_getReexports fuel)"

text \<open>The methods \<open>getBaseVariable\<close> of SyntheticNamedExportVariable and
  \<open>getOriginalVariable\<close>, \<open>getDirectOriginalVariable\<close> of ExportDefaultVariable, whose
  classes are not among the sources, are parameters.\<close>

record VariableMethods =
  getBaseVariable :: "Variable \<Rightarrow> Variable"
  getOriginalVariable :: "Variable \<Rightarrow> Variable"
  getDirectOriginalVariable :: "Variable \<Rightarrow> Variable option"

text \<open>The first loop of \<open>getDependenciesToBeIncluded\<close>: the variable of every export name
  joins \<open>dependencyVariables\<close>.\<close>

fun addExportedVariables ::
  "nat \<Rightarrow> ModuleId \<Rightarrow> string list \<Rightarrow> Variable list \<Rightarrow> Graph \<Rightarrow> Variable list Outcome" where
  "addExportedVariables fuel this_module [] dependencyVariables g = Return dependencyVariables g"
| "addExportedVariables fuel this_module (exportName # rest) dependencyVariables g =
     (case Module_getVariableForExportName fuel this_module exportName noOptions g of
        OutOfFuel \<Rightarrow> OutOfFuel
      | Throw e \<Rightarrow> Throw e
      | Return ((exportedVariable, _), _) g' \<Rightarrow>
          addExportedVariables fuel this_module rest
            (case exportedVariable of
               Some v \<Rightarrow> Set_add v dependencyVariables
             | None \<Rightarrow> dependencyVariables)
            g')"

text \<open>The second loop: \<open>necessaryDependencies\<close> and \<open>alwaysCheckedDependencies\<close>.\<close>

fun necessaryAndAlwaysChecked ::
  "VariableMethods \<Rightarrow> Module \<Rightarrow> Variable list \<Rightarrow> ModuleId list \<times> ModuleId list
     \<Rightarrow> ModuleId list \<times> ModuleId list" where
  "necessaryAndAlwaysChecked vm m [] acc = acc"
| "necessaryAndAlwaysChecked vm m (variable # rest) (necessaryDependencies, alwaysCheckedDependencies) =
     necessaryAndAlwaysChecked vm m rest
       (Set_add
          (Variable_module
             (if isSyntheticNamedExportVariable variable then getBaseVariable vm variable
              else if isExportDefaultVariable variable then getOriginalVariable vm variable
              else variable))
          necessaryDependencies,
        (case sideEffectDependenciesByVariable m variable of
           Some sideEffectDependencies \<Rightarrow>
             foldl (\<lambda>acc md. Set_add md acc) alwaysCheckedDependencies sideEffectDependencies
         | None \<Rightarrow> alwaysCheckedDependencies))"

text \<open>The closure \<open>addSideEffectDependencies\<close> of \<open>addRelevantSideEffectDependencies\<close>; its
  state is the pair of \<open>handledDependencies\<close> and \<open>relevantDependencies\<close>.\<close>

fun addSideEffectDependencies ::
  "nat \<Rightarrow> NodeMethods \<Rightarrow> Nodes \<Rightarrow> ModuleId list \<Rightarrow> ModuleId list \<Rightarrow> ModuleId list
     \<Rightarrow> ModuleId list \<times> ModuleId list \<Rightarrow> Graph \<Rightarrow> (ModuleId list \<times> ModuleId list) Outcome" where
  "addSideEffectDependencies fuel methods nodes necessary alwaysChecked [] hr g = Return hr g"
| "addSideEffectDependencies 0 methods nodes necessary alwaysChecked (dependency # rest) hr g =
     OutOfFuel"
| "addSideEffectDependencies (Suc fuel) methods nodes necessary alwaysChecked (dependency # rest)
     (handled, relevant) g =
     (if dependency \<in> set handled then
        addSideEffectDependencies (Suc fuel) methods nodes necessary alwaysChecked rest
          (handled, relevant) g
      else if dependency \<in> set necessary then
        addSideEffectDependencies (Suc fuel) methods nodes necessary alwaysChecked rest
          (handled @ [dependency], Set_add dependency relevant) g
      else
        (case modulesById g dependency of
           None \<Rightarrow> Throw JsTypeError
         | Some gm \<Rightarrow>
             if \<not> (truthy_moduleSideEffects (moduleSideEffects (GraphModule_info gm))
                    \<or> dependency \<in> set alwaysChecked) then
               addSideEffectDependencies (Suc fuel) methods nodes necessary alwaysChecked rest
                 (handled @ [dependency], relevant) g
             else
               (case gm of
                  External e \<Rightarrow>
                    addSideEffectDependencies (Suc fuel) methods nodes necessary alwaysChecked rest
                      (handled @ [dependency], Set_add dependency relevant) g
                | Internal dm \<Rightarrow>
                    (case Module_hasEffects methods nodes dm of
                       Inl e \<Rightarrow> Throw e
                     | Inr True \<Rightarrow>
                         addSideEffectDependencies (Suc fuel) methods nodes necessary alwaysChecked
                           rest (handled @ [dependency], Set_add dependency relevant) g
                     | Inr False \<Rightarrow>
                         (case addSideEffectDependencies fuel methods nodes necessary alwaysChecked
                                 (dependencies dm) (handled @ [dependency], relevant) g of
                            OutOfFuel \<Rightarrow> OutOfFuel
                          | Throw e \<Rightarrow> Throw e
                          | Return hr' g' \<Rightarrow>
                              addSideEffectDependencies (Suc fuel) methods nodes necessary
                                alwaysChecked rest hr' g')))))"

definition Module_addRelevantSideEffectDependencies ::
  "nat \<Rightarrow> NodeMethods \<Rightarrow> Nodes \<Rightarrow> Module \<Rightarrow> ModuleId list \<Rightarrow> ModuleId list \<Rightarrow> ModuleId list
     \<Rightarrow> Graph \<Rightarrow> ModuleId list Outcome" where
  "Module_addRelevantSideEffectDependencies fuel methods nodes m relevant necessary alwaysChecked g =
     bind (addSideEffectDependencies fuel methods nodes necessary alwaysChecked (dependencies m)
             ([], relevant) g)
          (\<lambda>hr g'.
             bind (addSideEffectDependencies fuel methods nodes necessary alwaysChecked
                     alwaysChecked hr g')
                  (\<lambda>(handled, relevant') g''. Return relevant' g''))"

text \<open>The first part of \<open>getDependenciesToBeIncluded\<close>: \<open>dependencyVariables\<close> starts as
  the imports; for an entry module, or one with included dynamic importers, an included
  namespace or \<open>implicitlyLoadedAfter\<close>, the first loop adds the variable of every export
  name.\<close>

definition Module_dependencyVariables ::
  "nat \<Rightarrow> ModuleId \<Rightarrow> Module \<Rightarrow> Graph \<Rightarrow> Variable list Outcome" where
  "Module_dependencyVariables fuel this_module m g =
     (if isEntry (info m) \<or> length (includedDynamicImporters m) > 0
         \<or> Var_Namespace this_module \<in> includedVariables g
         \<or> length (implicitlyLoadedAfter m) > 0
      then
        bind (Module_getReexports fuel this_module g)
             (\<lambda>reexports g'.
                case modulesById g' this_module of
                  Some (Internal m') \<Rightarrow>
                    addExportedVariables fuel this_module
                      (reexports @ Module_getExports m')
                      (foldl (\<lambda>acc v. Set_add v acc) [] (module_imports m)) g'
                | _ \<Rightarrow> Throw JsTypeError)
      else Return (foldl (\<lambda>acc v. Set_add v acc) [] (module_imports m)) g)"

definition Module_getDependenciesToBeIncluded ::
  "nat \<Rightarrow> VariableMethods \<Rightarrow> NodeMethods \<Rightarrow> Nodes \<Rightarrow> ModuleId \<Rightarrow> Graph \<Rightarrow> ModuleId list Outcome" where
  "Module_getDependenciesToBeIncluded fuel vm methods nodes this_module g =
     (case modulesById g this_module of
        Some (Internal m) \<Rightarrow>
          (case relevantDependencies m of
             Some cached \<Rightarrow> Return cached g
           | None \<Rightarrow>
               bind (Module_dependencyVariables fuel this_module m
                       (updateModule this_module (\<lambda>m. m\<lparr>relevantDependencies := Some []\<rparr>) g))
                    (\<lambda>dependencyVariables g'.
                       case modulesById g' this_module of
                         Some (Internal m') \<Rightarrow>
                           (let (necessaryDependencies, alwaysCheckedDependencies) =
                                  necessaryAndAlwaysChecked vm m' dependencyVariables ([], [])
                            in bind (if \<not> treeshake g' \<or> moduleSideEffects (info m') = NoTreeshake
                                     then Return (foldl (\<lambda>acc d. Set_add d acc) [] (dependencies m')) g'
                                     else Module_addRelevantSideEffectDependencies fuel methods nodes
                                            m' [] necessaryDependencies alwaysCheckedDependencies g')
                                    (\<lambda>relevant g''.
                                       let result = foldl (\<lambda>acc d. Set_add d acc) relevant
                                                      necessaryDependencies
                                       in Return result
                                            (updateModule this_module
                                               (\<lambda>m. m\<lparr>relevantDependencies := Some result\<rparr>) g'')))
                       | _ \<Rightarrow> Throw JsTypeError))
      | _ \<Rightarrow> Throw JsTypeError)"

section \<open>Including a variable from a module\<close>

text \<open>
  \<open>variable.included\<close> of the variables of the graph is the set \<open>includedVariables\<close>.
  \<open>variable.include()\<close> is a virtual call (for a local variable it is
  \<open>LocalVariable_include\<close> above, for the other classes it is not among the sources) and
  \<open>markModuleAndImpureDependenciesAsExecuted\<close> is a utility that is not among the sources:
  both are parameters here (\<open>GraphMethods\<close>).
\<close>

record GraphMethods =
  variable_include :: "Variable \<Rightarrow> Graph \<Rightarrow> Graph"
  markModuleAndImpureDependenciesAsExecuted :: "ModuleId \<Rightarrow> Graph \<Rightarrow> Graph"

text \<open>The loop \<open>while (true)\<close> of \<open>getAndExtendSideEffectModules\<close>, with fuel: it follows
  the chain of original variables and synthetic namespaces until the chain ends or
  comes back to a variable it has seen.\<close>

fun extendSideEffectModules ::
  "nat \<Rightarrow> VariableMethods \<Rightarrow> Variable \<Rightarrow> Variable list \<Rightarrow> ModuleId list \<Rightarrow> Graph
     \<Rightarrow> ModuleId list Outcome" where
  "extendSideEffectModules 0 vm currentVariable referencedVariables sideEffectModules g = OutOfFuel"
| "extendSideEffectModules (Suc fuel) vm currentVariable referencedVariables sideEffectModules g =
     (let importingModule = Variable_module currentVariable;
          next = (case currentVariable of
                    Var_ExportDefault _ \<Rightarrow> getDirectOriginalVariable vm currentVariable
                  | Var_SyntheticNamedExport _ _ syntheticNs \<Rightarrow> Some syntheticNs
                  | _ \<Rightarrow> None)
      in case next of
           None \<Rightarrow> Return sideEffectModules g
         | Some nextVariable \<Rightarrow>
             if nextVariable \<in> set referencedVariables then Return sideEffectModules g
             else
               (case modulesById g importingModule of
                  Some (Internal im) \<Rightarrow>
                    extendSideEffectModules fuel vm nextVariable
                      (referencedVariables @ [nextVariable])
                      (foldl (\<lambda>acc md. Set_add md acc) (Set_add importingModule sideEffectModules)
                         (case sideEffectDependenciesByVariable im nextVariable of
                            Some originalSideEffects \<Rightarrow> originalSideEffects
                          | None \<Rightarrow> []))
                      g
                | _ \<Rightarrow> Throw JsTypeError))"

text \<open>The set that \<open>getAndExtendSideEffectModules\<close> returns is the one stored for the
  variable in \<open>sideEffectDependenciesByVariable\<close> of the module, extended in place.\<close>

definition getAndExtendSideEffectModules ::
  "nat \<Rightarrow> VariableMethods \<Rightarrow> Variable \<Rightarrow> ModuleId \<Rightarrow> Graph \<Rightarrow> ModuleId list Outcome" where
  "getAndExtendSideEffectModules fuel vm variable md g =
     (case modulesById g md of
        Some (Internal m) \<Rightarrow>
          bind (extendSideEffectModules fuel vm variable [variable]
                  (case sideEffectDependenciesByVariable m variable of
                     Some s \<Rightarrow> s
                   | None \<Rightarrow> [])
                  g)
               (\<lambda>sideEffectModules g'.
                  Return sideEffectModules
                    (updateModule md
                       (\<lambda>m. m\<lparr>sideEffectDependenciesByVariable :=
                                 (sideEffectDependenciesByVariable m)(variable \<mapsto> sideEffectModules)\<rparr>)
                       g'))
      | _ \<Rightarrow> Throw JsTypeError)"

definition markExecutedIfNot :: "GraphMethods \<Rightarrow> ModuleId \<Rightarrow> Graph \<Rightarrow> Graph" where
  "markExecutedIfNot gm md g =
     (case modulesById g md of
        Some (Internal m) \<Rightarrow>
          if \<not> isExecuted m then markModuleAndImpureDependenciesAsExecuted gm md g else g
      | _ \<Rightarrow> g)"

definition Module_includeVariable ::
  "nat \<Rightarrow> VariableMethods \<Rightarrow> GraphMethods \<Rightarrow> ModuleId \<Rightarrow> Variable \<Rightarrow> Graph \<Rightarrow> unit Outcome" where
  "Module_includeVariable fuel vm gm this_module variable g =
     (if variable \<notin> includedVariables g then
        (let g1 = (variable_include gm variable g)\<lparr>needsTreeshakingPass := True\<rparr>;
             variableModule = Variable_module variable
         in case modulesById g1 variableModule of
              Some (Internal m) \<Rightarrow>
                if isExternalVariable variable then Return () g1
                else
                  (let g2 = markExecutedIfNot gm variableModule g1
                   in if variableModule \<noteq> this_module then
                        bind (getAndExtendSideEffectModules fuel vm variable this_module g2)
                             (\<lambda>sideEffectModules g3.
                                Return () (foldl (\<lambda>acc md. markExecutedIfNot gm md acc) g3
                                             sideEffectModules))
                      else Return () g2)
            | _ \<Rightarrow> Return () g1)
      else Return () g)"

definition Module_includeVariableInModule ::
  "nat \<Rightarrow> VariableMethods \<Rightarrow> GraphMethods \<Rightarrow> ModuleId \<Rightarrow> Variable \<Rightarrow> Graph \<Rightarrow> unit Outcome" where
  "Module_includeVariableInModule fuel vm gm this_module variable g =
     bind (Module_includeVariable fuel vm gm this_module variable g)
          (\<lambda>_ g'.
             Return ()
               (if Variable_module variable \<noteq> this_module
                then updateModule this_module
                       (\<lambda>m. m\<lparr>module_imports := Set_add variable (module_imports m)\<rparr>) g'
                else g'))"

text \<open>\<open>updateOptions\<close>, for the two options that are modelled.\<close>

definition Module_updateOptions ::
  "ModuleSideEffects option \<Rightarrow> SyntheticNamedExports option \<Rightarrow> Module \<Rightarrow> Module" where
  "Module_updateOptions sideEffects synthetic m =
     m\<lparr>info := (info m)\<lparr>
          moduleSideEffects := (case sideEffects of Some v \<Rightarrow> v | None \<Rightarrow> moduleSideEffects (info m)),
          syntheticNamedExports :=
            (case synthetic of Some v \<Rightarrow> v | None \<Rightarrow> syntheticNamedExports (info m))\<rparr>\<rparr>"

section \<open>Monotone inclusion\<close>

text \<open>\<open>Module.include()\<close>: the program node of the module is included if it should be.
  The class Program is not among the sources, so its \<open>shouldBeIncluded\<close> and \<open>include\<close>
  are those of \<open>NodeMethods\<close>.\<close>

definition Module_include :: "NodeMethods \<Rightarrow> Module \<Rightarrow> Nodes \<Rightarrow> RollupError + Nodes" where
  "Module_include methods m nodes =
     (case ast m of
        None \<Rightarrow> Inl JsTypeError
      | Some p \<Rightarrow>
          if node_shouldBeIncluded methods p createInclusionContext nodes
          then Inr (node_include methods p createInclusionContext False nodes)
          else Inr nodes)"

text \<open>No \<open>included\<close> flag of a node is cleared between two arenas; and what is asked of
  the methods that are parameters: \<open>include\<close> of the other node classes clears no flag
  of a node, and \<open>include\<close> of the other variable classes and
  \<open>markModuleAndImpureDependenciesAsExecuted\<close> clear no flag of a variable.\<close>

definition nodes_monotone :: "Nodes \<Rightarrow> Nodes \<Rightarrow> bool" where
  "nodes_monotone nodes nodes' \<longleftrightarrow>
     length nodes \<le> length nodes'
     \<and> (\<forall>n < length nodes. Node.included (nodes ! n) \<longrightarrow> Node.included (nodes' ! n))"

definition include_monotone :: "(nat \<Rightarrow> InclusionContext \<Rightarrow> bool \<Rightarrow> Nodes \<Rightarrow> Nodes) \<Rightarrow> bool" where
  "include_monotone node_incl \<longleftrightarrow>
     (\<forall>n context r nodes. nodes_monotone nodes (node_incl n context r nodes))"

definition graph_methods_monotone :: "GraphMethods \<Rightarrow> bool" where
  "graph_methods_monotone gm \<longleftrightarrow>
     (\<forall>v g. includedVariables g \<subseteq> includedVariables (variable_include gm v g))
     \<and> (\<forall>md g. includedVariables g
                 \<subseteq> includedVariables (markModuleAndImpureDependenciesAsExecuted gm md g))"

text \<open>Examples: \<open>include\<close> of a variable sets its flag, marking a module executed sets
  \<open>isExecuted\<close>; and the variable \<open>x\<close> declared by the identifier node 9.\<close>

definition example_graph_methods :: GraphMethods where
  "example_graph_methods =
     \<lparr>variable_include = (\<lambda>v g. g\<lparr>includedVariables := insert v (includedVariables g)\<rparr>),
      markModuleAndImpureDependenciesAsExecuted =
        (\<lambda>md g. updateModule md (\<lambda>m. m\<lparr>isExecuted := True\<rparr>) g)\<rparr>"

definition example_declared :: LocalVariable where
  "example_declared = example_variable\<lparr>declarations := [9]\<rparr>"

section \<open>Observing outcomes, and example graphs\<close>

definition thrown :: "'a Outcome \<Rightarrow> RollupError option" where
  "thrown x = (case x of Throw e \<Rightarrow> Some e | _ \<Rightarrow> None)"

definition returned :: "'a Outcome \<Rightarrow> 'a option" where
  "returned x = (case x of Return a g \<Rightarrow> Some a | _ \<Rightarrow> None)"

definition warned :: "'a Outcome \<Rightarrow> RollupWarning list" where
  "warned x = (case x of Return a g \<Rightarrow> warnings g | _ \<Rightarrow> [])"

definition plain_module :: Module where
  "plain_module = Module_new False (SideEffects True) (Synthetic False)"

definition external_module :: GraphModule where
  "external_module =
     External \<lparr>external_info = \<lparr>isEntry = False, moduleSideEffects = SideEffects True,
                                 syntheticNamedExports = Synthetic False\<rparr>,
               reexported = False\<rparr>"

text \<open>Spec scenario S4: \<open>a.js: export { x } from './b'\<close>, \<open>b.js: export { x } from './a'\<close>.\<close>

definition circular_graph :: Graph where
  "circular_graph = Graph_new
     [(''a'', Internal (plain_module\<lparr>reexportDescriptions :=
         [(''x'', \<lparr>localName = ''x'', module = ''b'', source = ''./b'', start = 0\<rparr>)]\<rparr>)),
      (''b'', Internal (plain_module\<lparr>reexportDescriptions :=
         [(''x'', \<lparr>localName = ''x'', module = ''a'', source = ''./a'', start = 0\<rparr>)]\<rparr>))]"

text \<open>Spec scenario S5: \<open>a.js: export const k = 1\<close>, \<open>b.js: export const k = 2\<close>,
  \<open>m.js: export * from './a'; export * from './b'\<close>.\<close>

definition conflict_graph :: Graph where
  "conflict_graph = Graph_new
     [(''a'', Internal (plain_module\<lparr>exports := [(''k'', ExportDescription None ''k'')],
                                     scope_variables := [''k'' \<mapsto> Var_Local ''a'' ''k'']\<rparr>)),
      (''b'', Internal (plain_module\<lparr>exports := [(''k'', ExportDescription None ''k'')],
                                     scope_variables := [''k'' \<mapsto> Var_Local ''b'' ''k'']\<rparr>)),
      (''m'', Internal (plain_module\<lparr>exportAllModules := [''a'', ''b'']\<rparr>))]"

text \<open>An external module reached twice: \<open>t.js: export * from './m'\<close>,
  \<open>m.js: export * from './a'; export * from 'ext'\<close>, \<open>a.js: export * from 'ext'\<close>.\<close>

definition diamond_graph :: Graph where
  "diamond_graph = Graph_new
     [(''ext'', external_module),
      (''a'', Internal (plain_module\<lparr>exportAllModules := [''ext'']\<rparr>)),
      (''m'', Internal (plain_module\<lparr>exportAllModules := [''a'', ''ext'']\<rparr>)),
      (''t'', Internal (plain_module\<lparr>exportAllModules := [''m'']\<rparr>))]"

text \<open>Synthetic named exports: \<open>s.js\<close> has \<open>syntheticNamedExports = true\<close> and a default
  export, \<open>n.js\<close> has \<open>syntheticNamedExports = 'x'\<close> and exports \<open>x\<close>, \<open>c.js: export const x\<close>,
  and \<open>m.js: export * from './n'; export * from './s'; export * from './c'\<close>.\<close>

definition synthetic_graph :: Graph where
  "synthetic_graph = Graph_new
     [(''c'', Internal (plain_module\<lparr>exports := [(''x'', ExportDescription None ''x'')],
                                     scope_variables := [''x'' \<mapsto> Var_Local ''c'' ''x'']\<rparr>)),
      (''s'', Internal ((Module_new False (SideEffects True) (Synthetic True))
                          \<lparr>exports := [(''default'', ExportDescription None ''default'')],
                           scope_variables := [''default'' \<mapsto> Var_ExportDefault ''s'']\<rparr>)),
      (''n'', Internal ((Module_new False (SideEffects True) (SyntheticName ''x''))
                          \<lparr>exports := [(''x'', ExportDescription None ''x'')],
                           scope_variables := [''x'' \<mapsto> Var_Local ''n'' ''x'']\<rparr>)),
      (''m'', Internal (plain_module\<lparr>exportAllModules := [''n'', ''s'', ''c'']\<rparr>))]"

text \<open>What the loop of \<open>getVariableFromNamespaceReexports\<close> keeps true of its collections:
  the keys of the map and the entries of the set are distinct, and no internal declaration
  is a synthetic variable.\<close>

definition found_wf :: "FoundDeclarations \<Rightarrow> bool" where
  "found_wf found \<longleftrightarrow>
     distinct (map fst (foundInternalDeclarations found))
     \<and> distinct (foundExternalDeclarations found)
     \<and> (\<forall>v \<in> set (map fst (foundInternalDeclarations found)).
            \<not> isSyntheticNamedExportVariable v)"

section \<open>What the resolver leaves alone\<close>

text \<open>The part of the graph that name resolution never writes: the option \<open>treeshake\<close>,
  which modules there are and of which kind, and of each module its \<open>info\<close> and its
  \<open>dependencies\<close>. \<open>keeps_static g x\<close> says that the outcome \<open>x\<close> of a call made in the graph
  \<open>g\<close>, if it returns, leaves a graph with the same static part.\<close>

definition static_part ::
  "Graph \<Rightarrow> bool \<times> (ModuleId \<Rightarrow> (ModuleInfo \<times> ModuleId list + ModuleInfo) option)" where
  "static_part g =
     (treeshake g,
      \<lambda>md. case modulesById g md of
              None \<Rightarrow> None
            | Some (Internal m) \<Rightarrow> Some (Inl (info m, dependencies m))
            | Some (External e) \<Rightarrow> Some (Inr (external_info e)))"

definition keeps_static :: "Graph \<Rightarrow> 'a Outcome \<Rightarrow> bool" where
  "keeps_static g x = (case x of Return a g' \<Rightarrow> static_part g' = static_part g | _ \<Rightarrow> True)"

text \<open>A resolver keeps the static part when each of its calls does.\<close>

definition resolver_keeps_static :: "Resolver \<Rightarrow> bool" where
  "resolver_keeps_static gv \<longleftrightarrow> (\<forall>t n opts g. keeps_static g (gv t n opts g))"

text \<open>Examples for the dependency selector: \<open>main.js\<close> is an entry that re-exports \<open>k\<close>
  from \<open>dep.js\<close>, exports its own variable and also depends on \<open>lib.js\<close>, which has no side
  effects and from which nothing is used; \<open>dep.js\<close> depends on \<open>lib.js\<close> too.\<close>

definition example_variable_methods :: VariableMethods where
  "example_variable_methods =
     \<lparr>getBaseVariable = (\<lambda>v. case v of Var_SyntheticNamedExport _ _ ns \<Rightarrow> ns | _ \<Rightarrow> v),
      getOriginalVariable = (\<lambda>v. v),
      getDirectOriginalVariable = (\<lambda>v. None)\<rparr>"

definition main_module :: "ModuleSideEffects \<Rightarrow> Module" where
  "main_module sideEffects =
     (Module_new True sideEffects (Synthetic False))
       \<lparr>dependencies := [''dep'', ''lib''],
        reexportDescriptions :=
          [(''k'', \<lparr>localName = ''k'', module = ''dep'', source = ''./dep'', start = 0\<rparr>)],
        exports := [(''own'', ExportDescription None ''own'')],
        scope_variables := [''own'' \<mapsto> Var_Local ''main'' ''own'']\<rparr>"

definition dependency_graph :: "ModuleSideEffects \<Rightarrow> Graph" where
  "dependency_graph sideEffects = Graph_new
     [(''main'', Internal (main_module sideEffects)),
      (''dep'', Internal ((Module_new False (SideEffects False) (Synthetic False))
                            \<lparr>dependencies := [''lib''],
                             exports := [(''k'', ExportDescription None ''k'')],
                             scope_variables := [''k'' \<mapsto> Var_Local ''dep'' ''k'']\<rparr>)),
      (''lib'', Internal (Module_new False (SideEffects False) (Synthetic False)))]"

text \<open>The module with the given id, when it is an internal one.\<close>

definition internalModule :: "Graph \<Rightarrow> ModuleId \<Rightarrow> Module option" where
  "internalModule g md = (case modulesById g md of Some (Internal m) \<Rightarrow> Some m | _ \<Rightarrow> None)"

text \<open>The example graph after \<open>main.getDependenciesToBeIncluded()\<close> was called while
  \<open>moduleSideEffects\<close> of \<open>main.js\<close> was \<open>true\<close>, and then
  \<open>main.updateOptions({moduleSideEffects: 'no-treeshake'})\<close>.\<close>

definition graph_after_updateOptions :: Graph where
  "graph_after_updateOptions =
     (case Module_getDependenciesToBeIncluded 10 example_variable_methods example_methods
             example_nodes ''main'' (dependency_graph (SideEffects True)) of
        Return result g \<Rightarrow> updateModule ''main'' (Module_updateOptions (Some NoTreeshake) None) g
      | _ \<Rightarrow> dependency_graph (SideEffects True))"

text \<open>An entry in an import/export cycle: \<open>a.js\<close> is
  \<open>import {x} from './b'; export {x}\<close> and \<open>b.js\<close> is \<open>import {x} from './a'; export {x}\<close>.\<close>

definition import_cycle_graph :: Graph where
  "import_cycle_graph = Graph_new
     [(''a'', Internal ((Module_new True NoTreeshake (Synthetic False))
                \<lparr>dependencies := [''b''],
                 exports := [(''x'', ExportDescription None ''x'')],
                 importDescriptions :=
                   [''x'' \<mapsto> \<lparr>ImportDescription.module = ''b'', ImportDescription.name = ''x'',
                                  ImportDescription.source = ''./b'', ImportDescription.start = 0\<rparr>]\<rparr>)),
      (''b'', Internal ((Module_new False (SideEffects True) (Synthetic False))
                \<lparr>dependencies := [''a''],
                 exports := [(''x'', ExportDescription None ''x'')],
                 importDescriptions :=
                   [''x'' \<mapsto> \<lparr>ImportDescription.module = ''a'', ImportDescription.name = ''x'',
                                  ImportDescription.source = ''./a'', ImportDescription.start = 0\<rparr>]\<rparr>))]"

text \<open>The module exports \<open>x\<close> under its own name, has no variable \<open>x\<close> of its own and
  imports \<open>x\<close> from the other module.\<close>

definition imports_and_exports :: "Module \<Rightarrow> string \<Rightarrow> ModuleId \<Rightarrow> bool" where
  "imports_and_exports m x other \<longleftrightarrow>
     map_of (reexportDescriptions m) x = None
     \<and> (case map_of (exports m) x of Some (ExportDescription i l) \<Rightarrow> l = x | _ \<Rightarrow> False)
     \<and> scope_variables m x = None
     \<and> (case importDescriptions m x of
           Some d \<Rightarrow> ImportDescription.module d = other \<and> ImportDescription.name d = x
         | None \<Rightarrow> False)"

section \<open>Properties of LocalVariable\<close>

lemmas LocalVariable_defs =
  LocalVariable_addDeclaration_def LocalVariable_markInitializersForDeoptimization_def
  LocalVariable_consolidateInitializers_def LocalVariable_deoptimizePath_def
  LocalVariable_getLiteralValueAtPath_def LocalVariable_getReturnExpressionWhenCalledAtPath_def
  LocalVariable_include_def LocalVariable_markCalledFromTryStatement_def
  withTrackedEntityAtPath_def trackEntityAtPathAndGetIfTracked_def

lemma call_keeps_isReassigned:
  "LocalVariable_call v v' \<Longrightarrow> isReassigned v \<Longrightarrow> isReassigned v'"
  by (induction rule: LocalVariable_call.induct)
     (auto simp: LocalVariable_defs Let_def split: option.splits if_splits sum.splits prod.splits)

lemma calls_keep_isReassigned:
  "LocalVariable_call\<^sup>*\<^sup>* v v' \<Longrightarrow> isReassigned v \<Longrightarrow> isReassigned v'"
  by (induction rule: rtranclp_induct) (auto intro: call_keeps_isReassigned)

lemma reassigned_queries_unknown:
  assumes "isReassigned v"
  shows "fst (LocalVariable_getLiteralValueAtPath env v path tracker origin) = UnknownValue"
    and "fst (LocalVariable_getReturnExpressionWhenCalledAtPath env v path callOptions tracker origin)
           = UNKNOWN_EXPRESSION"
  using assms
  by (auto simp: LocalVariable_getLiteralValueAtPath_def
      LocalVariable_getReturnExpressionWhenCalledAtPath_def split: option.splits)

lemma call_keeps_multiply_declared_inv:
  "LocalVariable_call v v' \<Longrightarrow> multiply_declared_inv v \<Longrightarrow> multiply_declared_inv v'"
  by (induction rule: LocalVariable_call.induct)
     (auto simp: multiply_declared_inv_def LocalVariable_defs Let_def
           split: option.splits if_splits sum.splits prod.splits)

lemma calls_keep_multiply_declared_inv:
  "LocalVariable_call\<^sup>*\<^sup>* v v' \<Longrightarrow> multiply_declared_inv v \<Longrightarrow> multiply_declared_inv v'"
  by (induction rule: rtranclp_induct) (auto intro: call_keeps_multiply_declared_inv)

lemma new_multiply_declared_inv:
  "multiply_declared_inv (LocalVariable_new self nm declarator ini m)"
  by (simp add: multiply_declared_inv_def LocalVariable_new_def split: option.splits)

lemma call_declarations_grow:
  "LocalVariable_call v v' \<Longrightarrow> length (declarations v) \<le> length (declarations v')"
  by (induction rule: LocalVariable_call.induct)
     (auto simp: LocalVariable_defs Let_def split: option.splits if_splits sum.splits prod.splits)

lemma calls_declarations_grow:
  "LocalVariable_call\<^sup>*\<^sup>* v v' \<Longrightarrow> length (declarations v) \<le> length (declarations v')"
  by (induction rule: rtranclp_induct) (auto dest: call_declarations_grow)

lemma example_variable_reassigned:
  "isReassigned (fst (LocalVariable_deoptimizePath example_variable [] {}))"
  by (simp add: example_variable_def LocalVariable_new_def LocalVariable_deoptimizePath_def
      trackEntityAtPathAndGetIfTracked_def)

text \<open>
  C8. Once \<open>isReassigned\<close> of a local variable is true, it stays true under every later
  method call on the variable, and every value query then reports unknown:
  \<open>getLiteralValueAtPath\<close> returns \<open>UnknownValue\<close> and
  \<open>getReturnExpressionWhenCalledAtPath\<close> returns \<open>UNKNOWN_EXPRESSION\<close>, at every path, with
  every tracker and whatever the initialiser is or would answer.
\<close>

theorem LocalVariable_reassigned_stays_unknown:
  assumes "isReassigned v" and "LocalVariable_call\<^sup>*\<^sup>* v v'"
  shows "isReassigned v'
       \<and> fst (LocalVariable_getLiteralValueAtPath env v' path tracker origin) = UnknownValue
       \<and> fst (LocalVariable_getReturnExpressionWhenCalledAtPath env v' path callOptions tracker origin)
           = UNKNOWN_EXPRESSION"
proof -
  have r: "isReassigned v'"
    using assms calls_keep_isReassigned by blast
  show ?thesis
    using r reassigned_queries_unknown[OF r] by simp
qed

theorem LocalVariable_reassigned_stays_unknown_witness:
  "isReassigned (fst (LocalVariable_deoptimizePath example_variable [] {}))
   \<and> LocalVariable_call\<^sup>*\<^sup>*
        (fst (LocalVariable_deoptimizePath example_variable [] {}))
        (LocalVariable_markCalledFromTryStatement
           (fst (LocalVariable_deoptimizePath example_variable [] {})))
   \<and> isReassigned (LocalVariable_markCalledFromTryStatement
        (fst (LocalVariable_deoptimizePath example_variable [] {})))
   \<and> fst (LocalVariable_getLiteralValueAtPath example_entities
        (LocalVariable_markCalledFromTryStatement
           (fst (LocalVariable_deoptimizePath example_variable [] {})))
        [Key ''a''] {} 3) = UnknownValue
   \<and> fst (LocalVariable_getReturnExpressionWhenCalledAtPath example_entities
        (LocalVariable_markCalledFromTryStatement
           (fst (LocalVariable_deoptimizePath example_variable [] {})))
        [Key ''a''] \<lparr>withNew = False, args = []\<rparr> {} 3) = UNKNOWN_EXPRESSION"
proof -
  let ?v = "fst (LocalVariable_deoptimizePath example_variable [] {})"
  have h1: "isReassigned ?v"
    by (rule example_variable_reassigned)
  have h2: "LocalVariable_call\<^sup>*\<^sup>* ?v (LocalVariable_markCalledFromTryStatement ?v)"
    by (rule r_into_rtranclp) (rule call_markCalledFromTryStatement)
  show ?thesis
    using h1 h2
      LocalVariable_reassigned_stays_unknown[OF h1 h2, of example_entities "[Key ''a'']" "{}" 3
        "\<lparr>withNew = False, args = []\<rparr>"]
    by simp
qed

text \<open>
  C9. \<open>hasEffectsWhenAssignedAtPath\<close> of a local variable is true whenever the variable
  is included, at every path; and for a variable that is not included and not reassigned
  it is false at the empty path.
\<close>

theorem LocalVariable_hasEffectsWhenAssignedAtPath_cases:
  "(included v \<longrightarrow>
      fst (LocalVariable_hasEffectsWhenAssignedAtPath env v path context) = True)
   \<and> (\<not> included v \<and> \<not> isReassigned v \<longrightarrow>
      fst (LocalVariable_hasEffectsWhenAssignedAtPath env v [] context) = False)"
  by (simp add: LocalVariable_hasEffectsWhenAssignedAtPath_def)

theorem LocalVariable_hasEffectsWhenAssignedAtPath_cases_witness:
  "included (example_variable\<lparr>included := True\<rparr>)
   \<and> fst (LocalVariable_hasEffectsWhenAssignedAtPath example_entities
            (example_variable\<lparr>included := True\<rparr>) [Key ''a''] createHasEffectsContext) = True
   \<and> \<not> included example_variable \<and> \<not> isReassigned example_variable
   \<and> fst (LocalVariable_hasEffectsWhenAssignedAtPath example_entities
            example_variable [] createHasEffectsContext) = False"
proof -
  have a: "included (example_variable\<lparr>included := True\<rparr>)"
    by simp
  have b: "\<not> included example_variable \<and> \<not> isReassigned example_variable"
    by (simp add: example_variable_def LocalVariable_new_def)
  show ?thesis
    using a b
      LocalVariable_hasEffectsWhenAssignedAtPath_cases
        [of "example_variable\<lparr>included := True\<rparr>" example_entities "[Key ''a'']"
            createHasEffectsContext]
      LocalVariable_hasEffectsWhenAssignedAtPath_cases
        [of example_variable example_entities "[]" createHasEffectsContext]
    by simp
qed

text \<open>
  C10. A local variable that has more than one declarator (it was constructed and
  \<open>addDeclaration\<close> was called on it, so that its declarations number at least two) has
  \<open>init\<close> replaced by the unknown expression and \<open>isReassigned\<close> set, and this is
  permanent: after any further method calls it still is so, and it reports the unknown
  literal value and the unknown return expression at every path.
\<close>

theorem LocalVariable_multiply_declared_unknown:
  assumes "LocalVariable_call\<^sup>*\<^sup>* (LocalVariable_new self nm declarator ini m) v"
    and "1 < length (declarations v)"
    and "LocalVariable_call\<^sup>*\<^sup>* v v'"
  shows "1 < length (declarations v')
       \<and> init v' = Some UNKNOWN_EXPRESSION \<and> isReassigned v'
       \<and> fst (LocalVariable_getLiteralValueAtPath env v' path tracker origin) = UnknownValue
       \<and> fst (LocalVariable_getReturnExpressionWhenCalledAtPath env v' path callOptions tracker origin)
           = UNKNOWN_EXPRESSION"
proof -
  have len: "1 < length (declarations v')"
    using assms(2) calls_declarations_grow[OF assms(3)] by simp
  have "multiply_declared_inv v"
    using calls_keep_multiply_declared_inv[OF assms(1)] new_multiply_declared_inv by blast
  then have "multiply_declared_inv v'"
    using calls_keep_multiply_declared_inv[OF assms(3)] by blast
  then have j: "isReassigned v' \<and> init v' = Some UNKNOWN_EXPRESSION"
    using len by (simp add: multiply_declared_inv_def)
  show ?thesis
    using len j reassigned_queries_unknown[of v'] by simp
qed

theorem LocalVariable_multiply_declared_unknown_witness:
  "LocalVariable_call\<^sup>*\<^sup>* (LocalVariable_new (Entity 0) ''x'' (Some 0) (Some (Entity 1)) ''main.js'')
      (LocalVariable_addDeclaration example_variable 5 (Some (Entity 2)))
   \<and> 1 < length (declarations (LocalVariable_addDeclaration example_variable 5 (Some (Entity 2))))
   \<and> LocalVariable_call\<^sup>*\<^sup>*
       (LocalVariable_addDeclaration example_variable 5 (Some (Entity 2)))
       (fst (LocalVariable_consolidateInitializers
               (LocalVariable_addDeclaration example_variable 5 (Some (Entity 2)))))
   \<and> init (fst (LocalVariable_consolidateInitializers
               (LocalVariable_addDeclaration example_variable 5 (Some (Entity 2)))))
       = Some UNKNOWN_EXPRESSION
   \<and> isReassigned (fst (LocalVariable_consolidateInitializers
               (LocalVariable_addDeclaration example_variable 5 (Some (Entity 2)))))
   \<and> fst (LocalVariable_getLiteralValueAtPath example_entities
            (fst (LocalVariable_consolidateInitializers
               (LocalVariable_addDeclaration example_variable 5 (Some (Entity 2)))))
            [] {} 3) = UnknownValue"
proof -
  let ?new = "LocalVariable_new (Entity 0) ''x'' (Some 0) (Some (Entity 1)) ''main.js''"
  let ?v = "LocalVariable_addDeclaration example_variable 5 (Some (Entity 2))"
  let ?v' = "fst (LocalVariable_consolidateInitializers ?v)"
  have h1: "LocalVariable_call\<^sup>*\<^sup>* ?new ?v"
    unfolding example_variable_def by (rule r_into_rtranclp) (rule call_addDeclaration)
  have h2: "1 < length (declarations ?v)"
    by (simp add: example_variable_def LocalVariable_new_def LocalVariable_addDeclaration_def
        LocalVariable_markInitializersForDeoptimization_def Let_def)
  have h3: "LocalVariable_call\<^sup>*\<^sup>* ?v ?v'"
    by (rule r_into_rtranclp) (rule call_consolidateInitializers)
  show ?thesis
    using h1 h2 h3
      LocalVariable_multiply_declared_unknown[OF h1 h2 h3, of example_entities "[]" "{}" 3]
    by simp
qed

section \<open>Properties of SequenceExpression\<close>


lemma includeExpressions_append:
  "includeExpressions m t l c r (xs @ ys) st =
     (let (st1, c1) = includeExpressions m t l c r xs st;
          (st2, c2) = includeExpressions m t l c r ys st1
      in (st2, c1 @ c2))"
  by (induction xs arbitrary: st) (auto split: prod.splits)

lemma includeExpressions_calls_aux:
  "includeExpressions m t l c r es st = (st', cs) \<Longrightarrow> x \<in> set cs
     \<Longrightarrow> \<exists>e \<in> set es. x = Call_include (Entity e) r"
proof (induction es arbitrary: st st' cs)
  case Nil
  then show ?case by simp
next
  case (Cons a es)
  show ?case
  proof (cases "includesExpression m t l c r a st")
    case True
    obtain st2 c2 where p: "includeExpressions m t l c r es (node_include m a c r st) = (st2, c2)"
      by (cases "includeExpressions m t l c r es (node_include m a c r st)")
    with True Cons.prems have "cs = Call_include (Entity a) r # c2" by simp
    with Cons.prems(2) have "x = Call_include (Entity a) r \<or> x \<in> set c2" by auto
    then show ?thesis using Cons.IH[OF p] by auto
  next
    case False
    with Cons.prems have "includeExpressions m t l c r es st = (st', cs)" by simp
    then show ?thesis using Cons.IH Cons.prems(2) by auto
  qed
qed

lemma includeExpressions_calls:
  "x \<in> set (snd (includeExpressions m t l c r es st)) \<Longrightarrow> \<exists>e \<in> set es. x = Call_include (Entity e) r"
  using includeExpressions_calls_aux[of m t l c r es st] by (cases "includeExpressions m t l c r es st") auto

lemma includeExpressions_call_at:
  assumes "i < length es" and "es ! i \<notin> set (take i es)" and "es ! i \<notin> set (drop (Suc i) es)"
  shows "Call_include (Entity (es ! i)) r \<in> set (snd (includeExpressions m t l c r es st))
         \<longleftrightarrow> includesExpression m t l c r (es ! i) (fst (includeExpressions m t l c r (take i es) st))"
proof -
  let ?e = "es ! i"
  have es: "es = take i es @ ?e # drop (Suc i) es"
    using assms(1) by (simp add: id_take_nth_drop)
  obtain st1 c1 where p1: "includeExpressions m t l c r (take i es) st = (st1, c1)"
    by (cases "includeExpressions m t l c r (take i es) st")
  obtain st2 c2 where p2: "includeExpressions m t l c r (?e # drop (Suc i) es) st1 = (st2, c2)"
    by (cases "includeExpressions m t l c r (?e # drop (Suc i) es) st1")
  have whole: "snd (includeExpressions m t l c r es st) = c1 @ c2"
    using includeExpressions_append[of m t l c r "take i es" "?e # drop (Suc i) es" st] p1 p2 es
    by simp
  have n1: "Call_include (Entity ?e) r \<notin> set c1"
    using includeExpressions_calls[of "Call_include (Entity ?e) r" m t l c r "take i es" st] p1 assms(2)
    by auto
  have n3: "Call_include (Entity ?e) r \<notin> set (snd (includeExpressions m t l c r (drop (Suc i) es) st'))" for st'
    using includeExpressions_calls[of "Call_include (Entity ?e) r" m t l c r "drop (Suc i) es" st'] assms(3)
    by auto
  have mid: "Call_include (Entity ?e) r \<in> set c2 \<longleftrightarrow> includesExpression m t l c r ?e st1"
  proof (cases "includesExpression m t l c r ?e st1")
    case True
    then show ?thesis using p2 by (auto split: prod.splits)
  next
    case False
    then have "c2 = snd (includeExpressions m t l c r (drop (Suc i) es) st1)"
      using p2 by simp
    then show ?thesis using False n3[of st1] by simp
  qed
  show ?thesis
    using whole n1 mid p1 by simp
qed

lemma distinct_nth_notin:
  assumes "distinct es" "i < length es"
  shows "es ! i \<notin> set (take i es)" "es ! i \<notin> set (drop (Suc i) es)"
proof -
  have es: "es = take i es @ es ! i # drop (Suc i) es"
    using assms(2) by (simp add: id_take_nth_drop)
  have "distinct (take i es @ es ! i # drop (Suc i) es)"
    using assms(1) es by simp
  then show "es ! i \<notin> set (take i es)" "es ! i \<notin> set (drop (Suc i) es)"
    by auto
qed

lemma includeExpressions_last_called:
  assumes "es \<noteq> []"
    and "\<not> parentIsExpressionStatement (fst (includeExpressions m t (Some (last es)) c r (butlast es) st)) t"
  shows "Call_include (Entity (last es)) r \<in> set (snd (includeExpressions m t (Some (last es)) c r es st))"
proof -
  have es: "es = butlast es @ [last es]" using assms(1) by simp
  obtain st1 c1 where p1: "includeExpressions m t (Some (last es)) c r (butlast es) st = (st1, c1)"
    by (cases "includeExpressions m t (Some (last es)) c r (butlast es) st")
  have "snd (includeExpressions m t (Some (last es)) c r (butlast es @ [last es]) st)
        = c1 @ snd (includeExpressions m t (Some (last es)) c r [last es] st1)"
    using includeExpressions_append[of m t "Some (last es)" c r "butlast es" "[last es]" st] p1
    by (simp split: prod.splits)
  moreover have "Call_include (Entity (last es)) r \<in> set (snd (includeExpressions m t (Some (last es)) c r [last es] st1))"
    using assms(2) p1 by (simp add: includesExpression_def)
  ultimately show ?thesis using es by (metis Un_iff set_append)
qed


lemma includeExpressions_take_Suc:
  assumes "i < length es"
  shows "fst (includeExpressions m t l c r (take (Suc i) es) st)
         = (if includesExpression m t l c r (es ! i) (fst (includeExpressions m t l c r (take i es) st))
            then node_include m (es ! i) c r (fst (includeExpressions m t l c r (take i es) st))
            else fst (includeExpressions m t l c r (take i es) st))"
proof -
  obtain st1 c1 where p1: "includeExpressions m t l c r (take i es) st = (st1, c1)"
    by (cases "includeExpressions m t l c r (take i es) st")
  have "take (Suc i) es = take i es @ [es ! i]"
    using assms by (simp add: take_Suc_conv_app_nth)
  then have "includeExpressions m t l c r (take (Suc i) es) st
             = (let (st2, c2) = includeExpressions m t l c r [es ! i] st1 in (st2, c1 @ c2))"
    using includeExpressions_append[of m t l c r "take i es" "[es ! i]" st] p1 by simp
  then show ?thesis
    using p1 by simp
qed

text \<open>
  C7. For a SequenceExpression with a non-empty expression list, \<open>getLiteralValueAtPath\<close>,
  \<open>hasEffectsWhenAssignedAtPath\<close>, \<open>hasEffectsWhenCalledAtPath\<close> and \<open>deoptimizePath\<close>
  are forwarded to the last expression. \<open>include\<close> returns, and the arena it returns is
  built as follows: the flag of the sequence is set; then, for each expression in order,
  \<open>include\<close> of that expression is applied if inclusion is recursive, or the expression
  is the last one and the parent of the sequence is not an ExpressionStatement, or
  \<open>shouldBeIncluded\<close> of the expression holds, and the arena is left as it is otherwise.
  So, whenever the parent is not an ExpressionStatement, the arena returned is the one
  that \<open>include\<close> of the last expression returns (the last expression is marked
  included in it if its own \<open>include\<close> marks it) and that call is among the calls
  made; and when inclusion is not recursive, \<open>include\<close> is applied to an earlier
  expression exactly if \<open>shouldBeIncluded\<close> of that expression holds when the loop
  reaches it. (The expressions of an AST node are distinct objects.)
\<close>

theorem SequenceExpression_forwards_to_last_and_include_arena:
  assumes "node_at nodes this_node = Some s" and "expressions s \<noteq> []"
  shows
    "SequenceExpression_getLiteralValueAtPath env s path tracker origin
       = Inr (entity_getLiteralValueAtPath env (Entity (last (expressions s))) path tracker origin)
     \<and> SequenceExpression_hasEffectsWhenAssignedAtPath env s path context
       = Inr (entity_hasEffectsWhenAssignedAtPath env (Entity (last (expressions s))) path context)
     \<and> SequenceExpression_hasEffectsWhenCalledAtPath env s path callOptions context
       = Inr (entity_hasEffectsWhenCalledAtPath env (Entity (last (expressions s))) path callOptions context)
     \<and> SequenceExpression_deoptimizePath s path
       = Inr [Call_deoptimizePath (Entity (last (expressions s))) path]
     \<and> (case SequenceExpression_include methods this_node inclusionContext r nodes of
          Inl e \<Rightarrow> False
        | Inr (nodes', calls) \<Rightarrow>
            nodesBeforeExpression methods this_node inclusionContext r nodes 0
              = set_included nodes this_node
            \<and> (\<forall>i. i < length (expressions s) \<longrightarrow>
                 nodesBeforeExpression methods this_node inclusionContext r nodes (Suc i)
                 = (if r
                       \<or> (expressions s ! i = last (expressions s)
                           \<and> \<not> parentIsExpressionStatement
                                 (nodesBeforeExpression methods this_node inclusionContext r nodes i)
                                 this_node)
                       \<or> node_shouldBeIncluded methods (expressions s ! i) inclusionContext
                            (nodesBeforeExpression methods this_node inclusionContext r nodes i)
                    then node_include methods (expressions s ! i) inclusionContext r
                           (nodesBeforeExpression methods this_node inclusionContext r nodes i)
                    else nodesBeforeExpression methods this_node inclusionContext r nodes i))
            \<and> nodes' = nodesBeforeExpression methods this_node inclusionContext r nodes
                         (length (expressions s))
            \<and> (\<not> parentIsExpressionStatement
                   (nodesBeforeExpression methods this_node inclusionContext r nodes
                      (length (expressions s) - 1)) this_node
               \<longrightarrow> nodes' = node_include methods (last (expressions s)) inclusionContext r
                               (nodesBeforeExpression methods this_node inclusionContext r nodes
                                  (length (expressions s) - 1))
                   \<and> (Node.included
                          (node_include methods (last (expressions s)) inclusionContext r
                             (nodesBeforeExpression methods this_node inclusionContext r nodes
                                (length (expressions s) - 1))
                           ! last (expressions s))
                        \<longrightarrow> Node.included (nodes' ! last (expressions s)))
                   \<and> Call_include (Entity (last (expressions s))) r \<in> set calls)
            \<and> (\<not> r \<and> distinct (expressions s) \<longrightarrow>
                 (\<forall>i. i < length (expressions s) - 1 \<longrightarrow>
                    nodesBeforeExpression methods this_node inclusionContext r nodes (Suc i)
                    = (if node_shouldBeIncluded methods (expressions s ! i) inclusionContext
                            (nodesBeforeExpression methods this_node inclusionContext r nodes i)
                       then node_include methods (expressions s ! i) inclusionContext r
                              (nodesBeforeExpression methods this_node inclusionContext r nodes i)
                       else nodesBeforeExpression methods this_node inclusionContext r nodes i)
                    \<and> (Call_include (Entity (expressions s ! i)) r \<in> set calls)
                      = node_shouldBeIncluded methods (expressions s ! i) inclusionContext
                          (nodesBeforeExpression methods this_node inclusionContext r nodes i))))"
proof -
  let ?es = "expressions s"
  let ?st = "set_included nodes this_node"
  let ?run = "includeExpressions methods this_node (Some (last ?es)) inclusionContext r"
  let ?before = "nodesBeforeExpression methods this_node inclusionContext r nodes"
  have l: "lastExpression s = Some (last ?es)"
    using assms(2) by (simp add: lastExpression_def)
  have q: "SequenceExpression_getLiteralValueAtPath env s path tracker origin
       = Inr (entity_getLiteralValueAtPath env (Entity (last ?es)) path tracker origin)
     \<and> SequenceExpression_hasEffectsWhenAssignedAtPath env s path context
       = Inr (entity_hasEffectsWhenAssignedAtPath env (Entity (last ?es)) path context)
     \<and> SequenceExpression_hasEffectsWhenCalledAtPath env s path callOptions context
       = Inr (entity_hasEffectsWhenCalledAtPath env (Entity (last ?es)) path callOptions context)
     \<and> SequenceExpression_deoptimizePath s path
       = Inr [Call_deoptimizePath (Entity (last ?es)) path]"
    by (simp add: l SequenceExpression_getLiteralValueAtPath_def
        SequenceExpression_hasEffectsWhenAssignedAtPath_def
        SequenceExpression_hasEffectsWhenCalledAtPath_def SequenceExpression_deoptimizePath_def)
  have inc: "SequenceExpression_include methods this_node inclusionContext r nodes = Inr (?run ?es ?st)"
    using assms(1) l by (simp add: SequenceExpression_include_def)
  have before: "?before i = fst (?run (take i ?es) ?st)" for i
    using assms(1) l by (simp add: nodesBeforeExpression_def)
  have start: "?before 0 = ?st"
    by (simp add: before)
  have step: "?before (Suc i)
              = (if r \<or> (?es ! i = last ?es \<and> \<not> parentIsExpressionStatement (?before i) this_node)
                    \<or> node_shouldBeIncluded methods (?es ! i) inclusionContext (?before i)
                 then node_include methods (?es ! i) inclusionContext r (?before i)
                 else ?before i)"
    if "i < length ?es" for i
    unfolding before includeExpressions_take_Suc[OF that]
    by (simp add: includesExpression_def eq_commute)
  have finish: "fst (?run ?es ?st) = ?before (length ?es)"
    by (simp add: before)
  have n: "Suc (length ?es - 1) = length ?es"
    using assms(2) by (cases ?es) simp_all
  have lst: "?es ! (length ?es - 1) = last ?es"
    using assms(2) by (simp add: last_conv_nth)
  have a1: "fst (?run ?es ?st)
            = node_include methods (last ?es) inclusionContext r (?before (length ?es - 1))"
    if "\<not> parentIsExpressionStatement (?before (length ?es - 1)) this_node"
  proof -
    have "length ?es - 1 < length ?es" using assms(2) by simp
    from step[OF this] show ?thesis
      using that lst n finish by simp
  qed
  have a: "Call_include (Entity (last ?es)) r \<in> set (snd (?run ?es ?st))"
    if "\<not> parentIsExpressionStatement (?before (length ?es - 1)) this_node"
  proof -
    have "take (length ?es - 1) ?es = butlast ?es"
      by (simp add: butlast_conv_take)
    then show ?thesis
      using includeExpressions_last_called[OF assms(2), of methods this_node inclusionContext r ?st]
        that before[of "length ?es - 1"] by simp
  qed
  have b: "?before (Suc i)
           = (if node_shouldBeIncluded methods (?es ! i) inclusionContext (?before i)
              then node_include methods (?es ! i) inclusionContext r (?before i)
              else ?before i)
           \<and> (Call_include (Entity (?es ! i)) r \<in> set (snd (?run ?es ?st)))
             = node_shouldBeIncluded methods (?es ! i) inclusionContext (?before i)"
    if "\<not> r" and d: "distinct ?es" and i: "i < length ?es - 1" for i
  proof -
    have il: "i < length ?es" using i by simp
    have "?es ! i \<noteq> ?es ! (length ?es - 1)"
      using d i il by (simp add: nth_eq_iff_index_eq)
    then have ne: "?es ! i \<noteq> last ?es"
      using lst by simp
    have "(Call_include (Entity (?es ! i)) r \<in> set (snd (?run ?es ?st)))
          = includesExpression methods this_node (Some (last ?es)) inclusionContext r (?es ! i)
              (fst (?run (take i ?es) ?st))"
      using includeExpressions_call_at[OF il distinct_nth_notin[OF d il]] by simp
    then show ?thesis
      using ne \<open>\<not> r\<close> before[of i] step[OF il] by (simp add: includesExpression_def)
  qed
  obtain nodes' calls where run: "?run ?es ?st = (nodes', calls)"
    by (cases "?run ?es ?st")
  have calls: "snd (?run ?es ?st) = calls" and arena: "fst (?run ?es ?st) = nodes'"
    using run by simp_all
  have i: "?before 0 = ?st
         \<and> (\<forall>i. i < length ?es \<longrightarrow>
                 ?before (Suc i)
                 = (if r \<or> (?es ! i = last ?es \<and> \<not> parentIsExpressionStatement (?before i) this_node)
                       \<or> node_shouldBeIncluded methods (?es ! i) inclusionContext (?before i)
                    then node_include methods (?es ! i) inclusionContext r (?before i)
                    else ?before i))
         \<and> nodes' = ?before (length ?es)
         \<and> (\<not> parentIsExpressionStatement (?before (length ?es - 1)) this_node
               \<longrightarrow> nodes' = node_include methods (last ?es) inclusionContext r
                               (?before (length ?es - 1))
                   \<and> (Node.included
                          (node_include methods (last ?es) inclusionContext r
                             (?before (length ?es - 1)) ! last ?es)
                        \<longrightarrow> Node.included (nodes' ! last ?es))
                   \<and> Call_include (Entity (last ?es)) r \<in> set calls)
         \<and> (\<not> r \<and> distinct ?es \<longrightarrow>
                 (\<forall>i. i < length ?es - 1 \<longrightarrow>
                    ?before (Suc i)
                    = (if node_shouldBeIncluded methods (?es ! i) inclusionContext (?before i)
                       then node_include methods (?es ! i) inclusionContext r (?before i)
                       else ?before i)
                    \<and> (Call_include (Entity (?es ! i)) r \<in> set calls)
                      = node_shouldBeIncluded methods (?es ! i) inclusionContext (?before i)))"
  proof (intro conjI)
    show "?before 0 = ?st" by (rule start)
    show "\<forall>i. i < length ?es \<longrightarrow>
                 ?before (Suc i)
                 = (if r \<or> (?es ! i = last ?es \<and> \<not> parentIsExpressionStatement (?before i) this_node)
                       \<or> node_shouldBeIncluded methods (?es ! i) inclusionContext (?before i)
                    then node_include methods (?es ! i) inclusionContext r (?before i)
                    else ?before i)"
      using step by blast
    show "nodes' = ?before (length ?es)"
      using finish arena by simp
    show "\<not> parentIsExpressionStatement (?before (length ?es - 1)) this_node
               \<longrightarrow> nodes' = node_include methods (last ?es) inclusionContext r
                               (?before (length ?es - 1))
                   \<and> (Node.included
                          (node_include methods (last ?es) inclusionContext r
                             (?before (length ?es - 1)) ! last ?es)
                        \<longrightarrow> Node.included (nodes' ! last ?es))
                   \<and> Call_include (Entity (last ?es)) r \<in> set calls"
      using a1 a arena calls by auto
    show "\<not> r \<and> distinct ?es \<longrightarrow>
                 (\<forall>i. i < length ?es - 1 \<longrightarrow>
                    ?before (Suc i)
                    = (if node_shouldBeIncluded methods (?es ! i) inclusionContext (?before i)
                       then node_include methods (?es ! i) inclusionContext r (?before i)
                       else ?before i)
                    \<and> (Call_include (Entity (?es ! i)) r \<in> set calls)
                      = node_shouldBeIncluded methods (?es ! i) inclusionContext (?before i))"
      using b unfolding calls by blast
  qed
  show ?thesis
    unfolding inc run sum.case prod.case using q i by blast
qed

lemma example_include_7:
  "SequenceExpression_include example_methods 7 createInclusionContext False example_nodes
     = Inr (set_included (set_included (set_included example_nodes 7) 8) 9,
            [Call_include (Entity 8) False, Call_include (Entity 9) False])"
  by (simp add: SequenceExpression_include_def node_at_def example_nodes_def example_methods_def
      lastExpression_def includesExpression_def parentIsExpressionStatement_def set_included_def)

lemma example_include_2:
  "snd (projr (SequenceExpression_include example_methods 2 createInclusionContext False example_nodes))
     = [Call_include (Entity 3) False]"
  by (simp add: SequenceExpression_include_def node_at_def example_nodes_def example_methods_def
      lastExpression_def includesExpression_def parentIsExpressionStatement_def set_included_def)


lemmas example_arena_defs =
  SequenceExpression_include_def node_at_def example_nodes_def example_methods_def
  lastExpression_def includesExpression_def parentIsExpressionStatement_def set_included_def
  nodesBeforeExpression_def

theorem SequenceExpression_forwards_to_last_and_include_arena_witness:
  "node_at example_nodes 7 = Some (example_nodes ! 7)
   \<and> expressions (example_nodes ! 7) = [8, 9]
   \<and> SequenceExpression_getLiteralValueAtPath example_entities (example_nodes ! 7) [] {} 3
       = Inr (LiteralValue ''1'')
   \<and> SequenceExpression_deoptimizePath (example_nodes ! 7) [] = Inr [Call_deoptimizePath (Entity 9) []]
   \<and> \<not> parentIsExpressionStatement
         (nodesBeforeExpression example_methods 7 createInclusionContext False example_nodes 1) 7
   \<and> Node.included
        (node_include example_methods 9 createInclusionContext False
           (nodesBeforeExpression example_methods 7 createInclusionContext False example_nodes 1) ! 9)
   \<and> node_shouldBeIncluded example_methods 8 createInclusionContext
        (nodesBeforeExpression example_methods 7 createInclusionContext False example_nodes 0)
   \<and> SequenceExpression_include example_methods 7 createInclusionContext False example_nodes
       = Inr (set_included (set_included (set_included example_nodes 7) 8) 9,
              [Call_include (Entity 8) False, Call_include (Entity 9) False])
   \<and> map Node.included (set_included (set_included (set_included example_nodes 7) 8) 9)
       = [False, False, False, False, False, False, False, True, True, True]
   \<and> node_at example_nodes 2 = Some (example_nodes ! 2)
   \<and> expressions (example_nodes ! 2) = [3, 4, 5]
   \<and> distinct (expressions (example_nodes ! 2))
   \<and> node_shouldBeIncluded example_methods 3 createInclusionContext
        (nodesBeforeExpression example_methods 2 createInclusionContext False example_nodes 0)
   \<and> \<not> node_shouldBeIncluded example_methods 4 createInclusionContext
        (nodesBeforeExpression example_methods 2 createInclusionContext False example_nodes 1)
   \<and> SequenceExpression_include example_methods 2 createInclusionContext False example_nodes
       = Inr (set_included (set_included example_nodes 2) 3, [Call_include (Entity 3) False])
   \<and> map Node.included (set_included (set_included example_nodes 2) 3)
       = [False, False, True, True, False, False, False, False, False, False]"
proof -
  have h1: "node_at example_nodes 7 = Some (example_nodes ! 7)"
    by (simp add: node_at_def example_nodes_def)
  have h2: "expressions (example_nodes ! 7) \<noteq> []"
    by (simp add: example_nodes_def)
  have es: "expressions (example_nodes ! 7) = [8, 9]"
    by (simp add: example_nodes_def)
  have k1: "node_at example_nodes 2 = Some (example_nodes ! 2)"
    by (simp add: node_at_def example_nodes_def)
  have k2: "expressions (example_nodes ! 2) \<noteq> []"
    by (simp add: example_nodes_def)
  have ks: "expressions (example_nodes ! 2) = [3, 4, 5]"
    by (simp add: example_nodes_def)
  have p: "\<not> parentIsExpressionStatement
         (nodesBeforeExpression example_methods 7 createInclusionContext False example_nodes 1) 7"
    by (simp add: example_arena_defs)
  have fl: "Node.included
        (node_include example_methods 9 createInclusionContext False
           (nodesBeforeExpression example_methods 7 createInclusionContext False example_nodes 1) ! 9)"
    by (simp add: example_arena_defs)
  have sb: "node_shouldBeIncluded example_methods 8 createInclusionContext
        (nodesBeforeExpression example_methods 7 createInclusionContext False example_nodes 0)"
       "node_shouldBeIncluded example_methods 3 createInclusionContext
        (nodesBeforeExpression example_methods 2 createInclusionContext False example_nodes 0)"
       "\<not> node_shouldBeIncluded example_methods 4 createInclusionContext
        (nodesBeforeExpression example_methods 2 createInclusionContext False example_nodes 1)"
    by (simp_all add: example_methods_def)
  have f7: "map Node.included (set_included (set_included (set_included example_nodes 7) 8) 9)
       = [False, False, False, False, False, False, False, True, True, True]"
    by (simp add: set_included_def example_nodes_def)
  have f2: "map Node.included (set_included (set_included example_nodes 2) 3)
       = [False, False, True, True, False, False, False, False, False, False]"
    by (simp add: set_included_def example_nodes_def)
  have i2: "SequenceExpression_include example_methods 2 createInclusionContext False example_nodes
       = Inr (set_included (set_included example_nodes 2) 3, [Call_include (Entity 3) False])"
    by (simp add: example_arena_defs)
  have t: "SequenceExpression_getLiteralValueAtPath example_entities (example_nodes ! 7) [] {} 3
       = Inr (LiteralValue ''1'')"
    using SequenceExpression_forwards_to_last_and_include_arena[OF h1 h2, of example_entities "[]" "{}" 3]
    by (simp add: es example_entities_def)
  show ?thesis
    using h1 es k1 ks p fl sb t f7 f2 i2
      SequenceExpression_forwards_to_last_and_include_arena[OF h1 h2, of example_entities "[]" "{}" 3
        createHasEffectsContext "\<lparr>withNew = False, args = []\<rparr>" example_methods
        createInclusionContext False]
      SequenceExpression_forwards_to_last_and_include_arena[OF k1 k2, of example_entities "[]" "{}" 3
        createHasEffectsContext "\<lparr>withNew = False, args = []\<rparr>" example_methods
        createInclusionContext False]
    by (simp add: example_include_7)
qed

section \<open>Properties of the resolver\<close>

lemma circular_reexport_scenario:
  "thrown (Module_getVariableForExportName 10 ''a'' ''x'' noOptions circular_graph)
     = Some (CIRCULAR_REEXPORT ''x'' ''b'')"
  by code_simp

text \<open>
  C2. When \<open>getVariableForExportNameRecursive\<close> is entered for a name and a target module
  that \<open>searchedNamesAndModules\<close> already records for that name, it throws the fatal
  CIRCULAR_REEXPORT error with the name and the id of the revisited module if the search
  is not an \<open>export *\<close> probe, and it returns null (no variable), without throwing, warning
  or changing the graph or the map, if it is an \<open>export *\<close> probe. The target's
  \<open>getVariableForExportName\<close> is not called in either case.
\<close>

theorem getVariableForExportNameRecursive_revisit:
  assumes "searched nm = Some searchedModules" and "target \<in> searchedModules"
  shows "getVariableForExportNameRecursive gv target nm importer False (Some searched) g
           = Throw (CIRCULAR_REEXPORT nm target)
       \<and> getVariableForExportNameRecursive gv target nm importer True (Some searched) g
           = Return ((None, False), Some searched) g"
  using assms by (simp add: getVariableForExportNameRecursive_def)

theorem getVariableForExportNameRecursive_revisit_witness:
  "[''x'' \<mapsto> {''b'', ''a''}] ''x'' = Some {''b'', ''a''}
   \<and> ''b'' \<in> {''b'', ''a''}
   \<and> getVariableForExportNameRecursive (Module_getVariableForExportName 7) ''b'' ''x'' None False
        (Some [''x'' \<mapsto> {''b'', ''a''}]) circular_graph
       = Throw (CIRCULAR_REEXPORT ''x'' ''b'')
   \<and> getVariableForExportNameRecursive (Module_getVariableForExportName 7) ''b'' ''x'' None True
        (Some [''x'' \<mapsto> {''b'', ''a''}]) circular_graph
       = Return ((None, False), Some [''x'' \<mapsto> {''b'', ''a''}]) circular_graph
   \<and> thrown (Module_getVariableForExportName 10 ''a'' ''x'' noOptions circular_graph)
       = Some (CIRCULAR_REEXPORT ''x'' ''b'')"
proof -
  have h1: "[''x'' \<mapsto> {''b'', ''a''}] ''x'' = Some {''b'', ''a''}" by simp
  have h2: "''b'' \<in> {''b'', ''a''}" by simp
  show ?thesis
    using h1 h2 circular_reexport_scenario
      getVariableForExportNameRecursive_revisit[of "[''x'' \<mapsto> {''b'', ''a''}]" "''x''"
        "{''b'', ''a''}" "''b''" "Module_getVariableForExportName 7" None circular_graph]
    by simp
qed

text \<open>
  C1. The tie-break of \<open>getVariableFromNamespaceReexports\<close> is not met on every input. In
  \<open>diamond_graph\<close> (\<open>t.js: export * from './m'\<close>, \<open>m.js: export * from './a'; export *
  from 'ext'\<close>, \<open>a.js: export * from 'ext'\<close>) the probe of \<open>m\<close> for \<open>x\<close> inside the search
  started at \<open>t\<close> finds the external variable \<open>x\<close> of \<open>ext\<close> through \<open>a\<close>; the direct probe of
  \<open>ext\<close> then hits the (name, module) pair recorded on the way through \<open>a\<close> and yields null,
  which is added to the set of external declarations as it is. The set has two entries,
  the ambiguity warning is built, and reading \<open>module\<close> of null throws a TypeError: no
  variable is returned, where the claim has the first (here the only) external
  declaration returned. Asked directly, with no search in progress, \<open>m\<close> resolves \<open>x\<close> to
  that external variable.
\<close>

theorem external_namespace_reached_twice_throws:
  "map_option fst (returned (probeExportAllModules (Module_getVariableForExportName 8) ''x'' None
       [''a'', ''ext''] noDeclarations (Some [''x'' \<mapsto> {''m''}]) diamond_graph))
     = Some \<lparr>foundSyntheticDeclaration = None, foundInternalDeclarations = [],
             foundExternalDeclarations = [Some (Var_External ''ext'' ''x''), None]\<rparr>
   \<and> thrown (resolveFoundDeclarations ''m'' ''x''
               \<lparr>foundSyntheticDeclaration = None, foundInternalDeclarations = [],
                foundExternalDeclarations = [Some (Var_External ''ext'' ''x''), None]\<rparr>
               diamond_graph)
     = Some JsTypeError
   \<and> thrown (Module_getVariableForExportName 10 ''t'' ''x'' noOptions diamond_graph) = Some JsTypeError
   \<and> map_option fst (returned (Module_getVariableForExportName 10 ''m'' ''x'' noOptions diamond_graph))
     = Some (Some (Var_External ''ext'' ''x''), True)"
  by code_simp

text \<open>What the code after the loop does with the three collections, case by case.\<close>

lemma resolveFoundDeclarations_tie_break:
  "resolveFoundDeclarations this_module nm found g =
     (case foundInternalDeclarations found of
        [] \<Rightarrow>
          (case foundExternalDeclarations found of
             [] \<Rightarrow> Return (foundSyntheticDeclaration found, False) g
           | [u] \<Rightarrow> Return (u, True) g
           | u # _ # _ \<Rightarrow>
               (case those (foundExternalDeclarations found) of
                  None \<Rightarrow> Throw JsTypeError
                | Some vs \<Rightarrow>
                    Return (u, True)
                      (onwarn (AMBIGUOUS_EXTERNAL_NAMESPACES nm this_module
                                 (Variable_module (hd vs)) (map Variable_module vs)) g)))
      | [(v, md)] \<Rightarrow> Return (Some v, False) g
      | _ # _ # _ \<Rightarrow>
          Return (None, False)
            (onwarn (NAMESPACE_CONFLICT nm this_module (map snd (foundInternalDeclarations found))) g))"
  by (auto simp: resolveFoundDeclarations_def Let_def split: list.splits option.splits)

lemma Map_set_keys: "set (map fst (Map_set k v ps)) = insert k (set (map fst ps))"
  by (induction ps) auto

lemma Map_set_distinct: "distinct (map fst ps) \<Longrightarrow> distinct (map fst (Map_set k v ps))"
proof (induction ps)
  case Nil
  then show ?case by simp
next
  case (Cons p ps)
  have "set (map fst (Map_set k v ps)) = insert k (set (map fst ps))" by (rule Map_set_keys)
  with Cons show ?case by auto
qed

lemma addFoundDeclaration_wf:
  "found_wf found \<Longrightarrow> found_wf (addFoundDeclaration ext md variable indirect found)"
  unfolding found_wf_def addFoundDeclaration_def
  by (simp add: Set_add_def Map_set_distinct Map_set_keys del: set_map split: option.splits)

lemma probeExportAllModules_wf:
  "probeExportAllModules gv nm importer mods found searched g = Return (found', searched') g'
     \<Longrightarrow> found_wf found \<Longrightarrow> found_wf found'"
proof (induction mods arbitrary: found searched g)
  case Nil
  then show ?case by simp
next
  case (Cons md rest)
  then show ?case
    by (auto split: option.splits if_splits Outcome.splits prod.splits
        dest!: Cons.IH intro: addFoundDeclaration_wf)
qed


lemma found_wf_noDeclarations: "found_wf noDeclarations"
  by (simp add: found_wf_def noDeclarations_def)

text \<open>
  C5. In the \<open>export *\<close> probe for a name, a target module whose \<open>syntheticNamedExports\<close>
  equals the name is skipped: the loop goes on with the remaining targets, with the
  collections, the map and the graph unchanged. And when the probe of a module returns a
  variable, then with the collections the loop has gathered: if an internal declaration
  was found, the result is that declaration, which is not a synthetic variable; otherwise
  if the set of external declarations is not empty, the result is its first entry, marked
  \<open>indirectExternal\<close>; and only if both are empty is the result the synthetic declaration.
\<close>

theorem synthetic_namespace_target_skipped_and_fallback_last:
  assumes "modulesById g this_module = Some (Internal m)"
  shows
   "(modulesById g md = Some gm \<and> syntheticNamedExports (GraphModule_info gm) = SyntheticName nm \<longrightarrow>
       probeExportAllModules gv nm importer (md # rest) found0 searched0 g
         = probeExportAllModules gv nm importer rest found0 searched0 g)
    \<and> (Module_getVariableFromNamespaceReexports gv this_module nm importer searched g
          = Return ((Some v, indirectExternal), searched') g' \<longrightarrow>
        (\<exists>found g1.
            probeExportAllModules gv nm importer (exportAllModules m) noDeclarations searched g
              = Return (found, searched') g1
            \<and> (if foundInternalDeclarations found \<noteq> [] then
                  \<not> indirectExternal \<and> \<not> isSyntheticNamedExportVariable v
                  \<and> map fst (foundInternalDeclarations found) = [v]
                else if foundExternalDeclarations found \<noteq> [] then
                  indirectExternal \<and> hd (foundExternalDeclarations found) = Some v
                else \<not> indirectExternal \<and> foundSyntheticDeclaration found = Some v)))"
proof (intro conjI impI)
  assume "modulesById g md = Some gm \<and> syntheticNamedExports (GraphModule_info gm) = SyntheticName nm"
  then show "probeExportAllModules gv nm importer (md # rest) found0 searched0 g
         = probeExportAllModules gv nm importer rest found0 searched0 g"
    by simp
next
  assume r: "Module_getVariableFromNamespaceReexports gv this_module nm importer searched g
          = Return ((Some v, indirectExternal), searched') g'"
  let ?probe = "probeExportAllModules gv nm importer (exportAllModules m) noDeclarations searched g"
  from r assms obtain found s1 g1 where
    p: "?probe = Return (found, s1) g1"
    and t: "bind (resolveFoundDeclarations this_module nm found g1)
                 (\<lambda>result g''. Return (result, s1) g'') = Return ((Some v, indirectExternal), searched') g'"
    by (auto simp: Module_getVariableFromNamespaceReexports_def bind_def split: Outcome.splits)
  from t have t': "resolveFoundDeclarations this_module nm found g1 = Return (Some v, indirectExternal) g'"
    and s: "s1 = searched'"
    by (auto simp: bind_def split: Outcome.splits)
  have wf: "found_wf found"
    using probeExportAllModules_wf[OF p found_wf_noDeclarations] .
  have c: "if foundInternalDeclarations found \<noteq> [] then
                  \<not> indirectExternal \<and> \<not> isSyntheticNamedExportVariable v
                  \<and> map fst (foundInternalDeclarations found) = [v]
                else if foundExternalDeclarations found \<noteq> [] then
                  indirectExternal \<and> hd (foundExternalDeclarations found) = Some v
                else \<not> indirectExternal \<and> foundSyntheticDeclaration found = Some v"
    using t' wf unfolding resolveFoundDeclarations_tie_break found_wf_def
    by (auto split: list.splits option.splits)
  show "\<exists>found g1. ?probe = Return (found, searched') g1
            \<and> (if foundInternalDeclarations found \<noteq> [] then
                  \<not> indirectExternal \<and> \<not> isSyntheticNamedExportVariable v
                  \<and> map fst (foundInternalDeclarations found) = [v]
                else if foundExternalDeclarations found \<noteq> [] then
                  indirectExternal \<and> hd (foundExternalDeclarations found) = Some v
                else \<not> indirectExternal \<and> foundSyntheticDeclaration found = Some v)"
    using p s c by blast
qed

lemma synthetic_graph_probe:
  "map_option fst (returned (probeExportAllModules (Module_getVariableForExportName 7) ''x'' None
       [''n'', ''s'', ''c''] noDeclarations None synthetic_graph))
     = Some \<lparr>foundSyntheticDeclaration = Some (Var_SyntheticNamedExport ''s'' ''x'' (Var_ExportDefault ''s'')),
             foundInternalDeclarations = [(Var_Local ''c'' ''x'', ''c'')],
             foundExternalDeclarations = []\<rparr>"
  by code_simp

lemma synthetic_graph_resolution:
  "map_option fst (returned (Module_getVariableFromNamespaceReexports
       (Module_getVariableForExportName 7) ''m'' ''x'' None None synthetic_graph))
     = Some (Some (Var_Local ''c'' ''x''), False)"
  by code_simp

theorem synthetic_namespace_target_skipped_and_fallback_last_witness:
  "modulesById synthetic_graph ''m''
     = Some (Internal (plain_module\<lparr>exportAllModules := [''n'', ''s'', ''c'']\<rparr>))
   \<and> map_option (\<lambda>gm. syntheticNamedExports (GraphModule_info gm)) (modulesById synthetic_graph ''n'')
     = Some (SyntheticName ''x'')
   \<and> probeExportAllModules (Module_getVariableForExportName 7) ''x'' None [''n'', ''s'', ''c'']
        noDeclarations None synthetic_graph
     = probeExportAllModules (Module_getVariableForExportName 7) ''x'' None [''s'', ''c'']
        noDeclarations None synthetic_graph
   \<and> map_option fst (returned (Module_getVariableFromNamespaceReexports
        (Module_getVariableForExportName 7) ''m'' ''x'' None None synthetic_graph))
     = Some (Some (Var_Local ''c'' ''x''), False)
   \<and> map_option fst (returned (probeExportAllModules (Module_getVariableForExportName 7) ''x'' None
        [''n'', ''s'', ''c''] noDeclarations None synthetic_graph))
     = Some \<lparr>foundSyntheticDeclaration = Some (Var_SyntheticNamedExport ''s'' ''x'' (Var_ExportDefault ''s'')),
             foundInternalDeclarations = [(Var_Local ''c'' ''x'', ''c'')],
             foundExternalDeclarations = []\<rparr>"
proof -
  have h: "modulesById synthetic_graph ''m''
     = Some (Internal (plain_module\<lparr>exportAllModules := [''n'', ''s'', ''c'']\<rparr>))"
    by (simp add: synthetic_graph_def Graph_new_def)
  obtain gm where n: "modulesById synthetic_graph ''n'' = Some gm"
    and sn: "syntheticNamedExports (GraphModule_info gm) = SyntheticName ''x''"
    by (simp add: synthetic_graph_def Graph_new_def Module_new_def)
  have skip: "probeExportAllModules (Module_getVariableForExportName 7) ''x'' None [''n'', ''s'', ''c'']
        noDeclarations None synthetic_graph
     = probeExportAllModules (Module_getVariableForExportName 7) ''x'' None [''s'', ''c'']
        noDeclarations None synthetic_graph"
    using synthetic_namespace_target_skipped_and_fallback_last[OF h,
        of "''n''" gm "''x''" "Module_getVariableForExportName 7" None "[''s'', ''c'']"
           noDeclarations None] n sn
    by simp
  show ?thesis
    using h n sn skip synthetic_graph_probe synthetic_graph_resolution
      synthetic_namespace_target_skipped_and_fallback_last[OF h,
        of "''n''" gm "''x''" "Module_getVariableForExportName 7" None "[''s'', ''c'']"
           noDeclarations None]
    by simp
qed

section \<open>Properties of the effects and the dependencies of a module\<close>




lemma keeps_static_simps [simp]:
  "keeps_static g (Return a g') \<longleftrightarrow> static_part g' = static_part g"
  "keeps_static g (Throw e)"
  "keeps_static g OutOfFuel"
  by (simp_all add: keeps_static_def)

lemma keeps_static_bind:
  assumes "keeps_static g x"
    and "\<And>a g1. x = Return a g1 \<Longrightarrow> keeps_static g1 (f a g1)"
  shows "keeps_static g (bind x f)"
proof (cases x)
  case (Return a g1)
  then have s1: "static_part g1 = static_part g" using assms(1) by simp
  have "keeps_static g1 (f a g1)" using assms(2)[OF Return] .
  then show ?thesis
    using Return s1 by (simp add: bind_def keeps_static_def split: Outcome.splits)
qed (simp_all add: bind_def)

lemma keeps_static_trans:
  "static_part g1 = static_part g \<Longrightarrow> keeps_static g1 x \<Longrightarrow> keeps_static g x"
  by (simp add: keeps_static_def split: Outcome.splits)

lemma static_part_updateModule:
  assumes "\<And>m. info (f m) = info m" and "\<And>m. dependencies (f m) = dependencies m"
  shows "static_part (updateModule md f g) = static_part g"
  using assms
  by (auto simp: static_part_def updateModule_def fun_eq_iff split: option.splits GraphModule.splits)

lemma static_part_onwarn [simp]: "static_part (onwarn w g) = static_part g"
  by (simp add: static_part_def onwarn_def)

lemma static_part_setAlternativeExporterIfCyclic [simp]:
  "static_part (setAlternativeExporterIfCyclic v i r g) = static_part g"
  by (simp add: setAlternativeExporterIfCyclic_def static_part_updateModule
      split: option.splits GraphModule.splits)

lemma static_part_shimMissingExport [simp]:
  "static_part (Module_shimMissingExport md nm g) = static_part g"
  by (simp add: Module_shimMissingExport_def static_part_updateModule)

lemma target_keeps_static:
  "resolver_keeps_static gv \<Longrightarrow> keeps_static g (target_getVariableForExportName gv target nm opts g)"
  by (simp add: target_getVariableForExportName_def ExternalModule_getVariableForExportName_def
      resolver_keeps_static_def split: option.splits GraphModule.splits)

lemma recursive_keeps_static:
  assumes "resolver_keeps_static gv"
  shows "keeps_static g (getVariableForExportNameRecursive gv target nm importer e searched g)"
  unfolding getVariableForExportNameRecursive_def Let_def
  by (auto split: option.splits prod.splits
      intro!: keeps_static_bind target_keeps_static[OF assms])

lemma traceVariable_keeps_static:
  assumes "resolver_keeps_static gv"
  shows "keeps_static g (Module_traceVariable gv this_module nm importer g)"
  unfolding Module_traceVariable_def Let_def
  by (auto split: option.splits prod.splits GraphModule.splits
      intro!: keeps_static_bind target_keeps_static[OF assms])


lemma getSyntheticNamespace_keeps_static:
  assumes "resolver_keeps_static gv"
  shows "keeps_static g (Module_getSyntheticNamespace gv this_module g)"
proof -
  have gv: "keeps_static g' (gv t n opts g')" for t n opts g'
    using assms by (simp add: resolver_keeps_static_def)
  have u: "static_part (updateModule this_module (\<lambda>m. m\<lparr>syntheticNamespace := x\<rparr>) g') = static_part g'"
    for x g'
    by (simp add: static_part_updateModule)
  show ?thesis
    unfolding Module_getSyntheticNamespace_def
    by (auto split: option.splits prod.splits GraphModule.splits Nullable.splits
        simp: u
        intro!: keeps_static_bind keeps_static_trans[OF u gv])
qed

lemma probeExportAllModules_keeps_static:
  assumes "resolver_keeps_static gv"
  shows "keeps_static g (probeExportAllModules gv nm importer mods found searched g)"
proof (induction mods arbitrary: found searched g)
  case Nil
  then show ?case by simp
next
  case (Cons md rest)
  show ?case
  proof (cases "modulesById g md")
    case None
    then show ?thesis by simp
  next
    case (Some gm)
    show ?thesis
    proof (cases "syntheticNamedExports (GraphModule_info gm) = SyntheticName nm")
      case True
      then show ?thesis using Some Cons.IH by simp
    next
      case False
      show ?thesis
      proof (cases "getVariableForExportNameRecursive gv md nm importer True searched g")
        case (Return r g1)
        then have s1: "static_part g1 = static_part g"
          using recursive_keeps_static[OF assms, of g md nm importer True searched] by simp
        obtain variable indirectExternal searched' where r: "r = ((variable, indirectExternal), searched')"
          by (cases r) auto
        show ?thesis
          using Some False Return r keeps_static_trans[OF s1 Cons.IH] by simp
      qed (use Some False in simp_all)
    qed
  qed
qed

lemma resolveFoundDeclarations_keeps_static:
  "keeps_static g (resolveFoundDeclarations this_module nm found g)"
  by (simp add: resolveFoundDeclarations_def Let_def split: list.splits option.splits prod.splits)

lemma namespaceReexports_keeps_static:
  assumes "resolver_keeps_static gv"
  shows "keeps_static g (Module_getVariableFromNamespaceReexports gv this_module nm importer searched g)"
  unfolding Module_getVariableFromNamespaceReexports_def
  by (auto split: option.splits GraphModule.splits prod.splits
      intro!: keeps_static_bind probeExportAllModules_keeps_static[OF assms]
              resolveFoundDeclarations_keeps_static)

lemma syntheticOrShimOrNull_keeps_static:
  assumes "resolver_keeps_static gv"
  shows "keeps_static g (syntheticOrShimOrNull gv this_module nm opts searched g)"
  unfolding syntheticOrShimOrNull_def
  by (auto split: option.splits GraphModule.splits prod.splits
      simp: static_part_updateModule
      intro!: keeps_static_bind getSyntheticNamespace_keeps_static[OF assms])

lemma starBranch_keeps_static:
  assumes "resolver_keeps_static gv"
  shows "keeps_static g
     (bind (target_getVariableForExportName gv t n opts' g)
           (\<lambda>(found, _) g'. Return (found, searched :: Searched option) g'))"
  by (auto intro!: keeps_static_bind target_keeps_static[OF assms])

lemma reexportBranch_keeps_static:
  assumes "resolver_keeps_static gv"
  shows "keeps_static g
     (bind (getVariableForExportNameRecursive gv t n importer False searched g)
           (\<lambda>((variable, _), searched') g'.
              case variable of
                None \<Rightarrow> Throw (MISSING_EXPORT n this_module t st)
              | Some v \<Rightarrow>
                  Return ((Some v, False), searched')
                    (case importer of
                       Some i \<Rightarrow> setAlternativeExporterIfCyclic v i this_module g'
                     | None \<Rightarrow> g')))"
  by (auto intro!: keeps_static_bind recursive_keeps_static[OF assms] split: option.splits)

lemma exportBranch_keeps_static:
  assumes "resolver_keeps_static gv"
  shows "keeps_static g
     (bind (Module_traceVariable gv this_module local importer g)
           (\<lambda>variable g'.
              case importer of
                None \<Rightarrow> Return ((variable, False), searched) g'
              | Some i \<Rightarrow>
                  (case variable of
                     None \<Rightarrow> Throw JsTypeError
                   | Some v \<Rightarrow>
                       Return ((Some v, False), searched)
                         (setAlternativeExporterIfCyclic v i this_module
                            (updateModule i
                               (\<lambda>im. im\<lparr>sideEffectDependenciesByVariable :=
                                    (sideEffectDependenciesByVariable im)
                                      (v \<mapsto> Set_add this_module
                                          (case sideEffectDependenciesByVariable im v of
                                             None \<Rightarrow> []
                                           | Some s \<Rightarrow> s))\<rparr>)
                               g')))))"
  by (auto intro!: keeps_static_bind traceVariable_keeps_static[OF assms] split: option.splits
      simp: static_part_updateModule)

lemma starExportBranch_keeps_static:
  assumes "resolver_keeps_static gv"
  shows "keeps_static g
     (bind (case memo of
              Some mm \<Rightarrow> Return (mm, searched) g
            | None \<Rightarrow> Module_getVariableFromNamespaceReexports gv this_module nm importer searched g)
           (\<lambda>(foundNamespaceReexport, searched') g'.
              let g'' = updateModule this_module
                          (\<lambda>m. m\<lparr>namespaceReexportsByName :=
                                    (namespaceReexportsByName m)(nm \<mapsto> foundNamespaceReexport)\<rparr>) g'
              in if fst foundNamespaceReexport \<noteq> None
                 then Return (foundNamespaceReexport, searched') g''
                 else syntheticOrShimOrNull gv this_module nm opts searched' g''))"
proof -
  let ?first = "case memo of
              Some mm \<Rightarrow> Return (mm, searched) g
            | None \<Rightarrow> Module_getVariableFromNamespaceReexports gv this_module nm importer searched g"
  have k: "keeps_static g ?first"
    using namespaceReexports_keeps_static[OF assms] by (simp split: option.splits)
  show ?thesis
  proof (cases ?first)
    case (Return a g1)
    obtain f s' where a: "a = (f, s')" by (cases a)
    let ?g2 = "updateModule this_module
                 (\<lambda>m. m\<lparr>namespaceReexportsByName := (namespaceReexportsByName m)(nm \<mapsto> f)\<rparr>) g1"
    have s1: "static_part g1 = static_part g"
      using k Return by simp
    have u: "static_part ?g2 = static_part g1"
      by (simp add: static_part_updateModule)
    have "keeps_static ?g2 (syntheticOrShimOrNull gv this_module nm opts s' ?g2)"
      using syntheticOrShimOrNull_keeps_static[OF assms] .
    then have "keeps_static g (syntheticOrShimOrNull gv this_module nm opts s' ?g2)"
      by (rule keeps_static_trans[OF _ keeps_static_trans[OF u], OF s1])
    then show ?thesis
      using u s1 by (simp add: bind_def Return a Let_def)
  qed (simp_all add: bind_def)
qed

lemma body_keeps_static:
  assumes "resolver_keeps_static gv"
  shows "keeps_static g (Module_getVariableForExportName_body gv this_module nm opts g)"
proof (cases "modulesById g this_module")
  case None
  then show ?thesis by (simp add: Module_getVariableForExportName_body_def)
next
  case (Some gm)
  show ?thesis
  proof (cases gm)
    case (External e)
    then show ?thesis using Some by (simp add: Module_getVariableForExportName_body_def)
  next
    case (Internal m)
    note m = Some[unfolded Internal]
    define star where "star \<longleftrightarrow> nm \<noteq> [] \<and> hd nm = CHR ''*''"
    note body = Module_getVariableForExportName_body_def[of gv this_module nm opts g,
        unfolded Let_def m option.case GraphModule.case star_def[symmetric]]
    show ?thesis
    proof (cases star)
      case True
      show ?thesis
        unfolding body using True starBranch_keeps_static[OF assms] by simp
    next
      case notStar: False
      show ?thesis
      proof (cases "map_of (reexportDescriptions m) nm")
        case (Some d)
        show ?thesis
          unfolding body using notStar Some reexportBranch_keeps_static[OF assms] by simp
      next
        case noReexport: None
        show ?thesis
        proof (cases "map_of (exports m) nm")
          case (Some d)
          show ?thesis
            unfolding body using notStar noReexport Some exportBranch_keeps_static[OF assms]
            by (cases d) simp_all
        next
          case noExport: None
          show ?thesis
          proof (cases "onlyExplicit opts")
            case True
            show ?thesis
              unfolding body using notStar noReexport noExport True by simp
          next
            case notExplicit: False
            show ?thesis
            proof (cases "nm = ''default''")
              case True
              show ?thesis
                unfolding body
                using notStar noReexport noExport notExplicit True
                  syntheticOrShimOrNull_keeps_static[OF assms]
                by simp
            next
              case False
              show ?thesis
                unfolding body
                using notStar noReexport noExport notExplicit False
                  starExportBranch_keeps_static[OF assms,
                    where g = g and memo = "namespaceReexportsByName m nm"
                      and searched = "searchedNamesAndModules opts"
                      and this_module = this_module and nm = nm
                      and importer = "importerForSideEffects opts" and opts = opts]
                by (simp add: Let_def)
            qed
          qed
        qed
      qed
    qed
  qed
qed

lemma Module_getVariableForExportName_keeps_static:
  "resolver_keeps_static (Module_getVariableForExportName fuel)"
proof (induction fuel)
  case 0
  show ?case by (simp add: resolver_keeps_static_def)
next
  case (Suc fuel)
  show ?case
    unfolding resolver_keeps_static_def
    using body_keeps_static[OF Suc] by simp
qed

lemma resolution_keeps_static:
  "keeps_static g (Module_getVariableForExportName fuel t n opts g)"
  using Module_getVariableForExportName_keeps_static[of fuel]
  by (simp add: resolver_keeps_static_def)

lemma collectReexports_keeps_static:
  assumes "\<And>md g. keeps_static g (gr md g)"
  shows "keeps_static g (collectReexports gr mods reexports g)"
proof (induction mods arbitrary: reexports g)
  case Nil
  then show ?case by simp
next
  case (Cons md rest)
  show ?case
  proof (cases "modulesById g md")
    case None
    then show ?thesis by simp
  next
    case (Some gm)
    show ?thesis
    proof (cases gm)
      case (External e)
      then show ?thesis using Some Cons.IH by simp
    next
      case (Internal om)
      show ?thesis
      proof (cases "gr md g")
        case (Return names g1)
        then have s1: "static_part g1 = static_part g"
          using assms[of g md] by simp
        show ?thesis
          using Some Internal Return keeps_static_trans[OF s1 Cons.IH]
          by (simp split: option.splits GraphModule.splits)
      qed (use Some Internal in simp_all)
    qed
  qed
qed

lemma Module_getReexports_keeps_static:
  "keeps_static g (Module_getReexports fuel this_module g)"
proof (induction fuel arbitrary: this_module g)
  case 0
  show ?case by simp
next
  case (Suc fuel)
  show ?case
  proof (cases "modulesById g this_module")
    case None
    then show ?thesis by (simp add: Module_getReexports_body_def)
  next
    case (Some gm)
    show ?thesis
    proof (cases gm)
      case (External e)
      then show ?thesis using Some by (simp add: Module_getReexports_body_def)
    next
      case (Internal m)
      show ?thesis
      proof (cases "transitiveReexports m")
        case (Some r)
        then show ?thesis
          using \<open>modulesById g this_module = Some gm\<close> Internal
          by (simp add: Module_getReexports_body_def)
      next
        case None
        let ?g0 = "updateModule this_module (\<lambda>m. m\<lparr>transitiveReexports := Some []\<rparr>) g"
        let ?c = "collectReexports (Module_getReexports fuel) (exportAllModules m)
                    (map fst (reexportDescriptions m)) ?g0"
        have u0: "static_part ?g0 = static_part g"
          by (simp add: static_part_updateModule)
        have k: "keeps_static ?g0 ?c"
          by (rule collectReexports_keeps_static) (rule Suc)
        have "keeps_static g
                (bind ?c (\<lambda>reexports g'. Return reexports
                    (updateModule this_module (\<lambda>m. m\<lparr>transitiveReexports := Some reexports\<rparr>) g')))"
        proof (cases ?c)
          case (Return a g1)
          then have "static_part g1 = static_part g" using k u0 by simp
          then show ?thesis
            by (simp add: bind_def Return static_part_updateModule)
        qed (simp_all add: bind_def)
        then show ?thesis
          using \<open>modulesById g this_module = Some gm\<close> Internal None
          by (simp add: Module_getReexports_body_def)
      qed
    qed
  qed
qed

lemma addExportedVariables_keeps_static:
  "keeps_static g (addExportedVariables fuel this_module names dependencyVariables g)"
proof (induction names arbitrary: dependencyVariables g)
  case Nil
  then show ?case by simp
next
  case (Cons exportName rest)
  show ?case
  proof (cases "Module_getVariableForExportName fuel this_module exportName noOptions g")
    case (Return r g1)
    then have s1: "static_part g1 = static_part g"
      using resolution_keeps_static[of g fuel this_module exportName noOptions] by simp
    obtain v i s where r: "r = ((v, i), s)" by (cases r) auto
    show ?thesis
      using Return r keeps_static_trans[OF s1 Cons.IH] by simp
  qed simp_all
qed

lemma set_foldl_Set_add: "set (foldl (\<lambda>acc d. Set_add d acc) xs ys) = set xs \<union> set ys"
  by (induction ys arbitrary: xs) (auto simp: Set_add_def)

lemma static_part_module:
  assumes "static_part g' = static_part g" and "modulesById g md = Some (Internal m)"
  shows "\<exists>m'. modulesById g' md = Some (Internal m') \<and> info m' = info m
              \<and> dependencies m' = dependencies m"
proof -
  have "snd (static_part g') md = snd (static_part g) md" using assms(1) by simp
  then show ?thesis
    using assms(2) by (auto simp: static_part_def split: option.splits GraphModule.splits)
qed

lemma static_part_treeshake: "static_part g' = static_part g \<Longrightarrow> treeshake g' = treeshake g"
  by (simp add: static_part_def)

lemma updateModule_lookup:
  "modulesById g md = Some (Internal m)
     \<Longrightarrow> modulesById (updateModule md f g) md = Some (Internal (f m))"
  by (simp add: updateModule_def)

text \<open>
  C4, as stated, fails for a module whose set was computed before: \<open>main.js\<close> of the
  example has the dependencies \<open>dep.js\<close> and \<open>lib.js\<close>; its set was computed while its
  \<open>moduleSideEffects\<close> was \<open>true\<close>, and now that it is \<open>'no-treeshake'\<close> the call returns
  that set, in which \<open>lib.js\<close> is missing.
\<close>

theorem cached_dependencies_miss_a_dependency:
  "map_option (moduleSideEffects \<circ> info) (internalModule graph_after_updateOptions ''main'')
     = Some NoTreeshake
   \<and> map_option dependencies (internalModule graph_after_updateOptions ''main'')
       = Some [''dep'', ''lib'']
   \<and> returned (Module_getDependenciesToBeIncluded 10 example_variable_methods example_methods
                 example_nodes ''main'' graph_after_updateOptions)
       = Some [''dep'', ''main'']
   \<and> ''lib'' \<notin> set [''dep'', ''main'']"
  by code_simp

text \<open>
  C4. For a module whose set of relevant dependencies has not been computed yet: if
  treeshaking is disabled or its \<open>moduleSideEffects\<close> is \<open>'no-treeshake'\<close>, then the set
  that \<open>getDependenciesToBeIncluded()\<close> returns contains every module of the
  \<open>dependencies\<close> of the module, and every later call returns that same set again (it is
  cached). The call returns exactly when the collection of the dependency variables
  returns, and throws what that throws: so it returns for every module that is not an
  entry, has no included dynamic importers, no included namespace and no
  \<open>implicitlyLoadedAfter\<close>, and for the others it returns unless the resolution of one of
  the export names throws or does not end.
\<close>

theorem first_call_no_treeshake_dependencies_are_relevant:
  assumes m: "modulesById g this_module = Some (Internal m)"
    and cache: "relevantDependencies m = None"
    and nt: "\<not> treeshake g \<or> moduleSideEffects (info m) = NoTreeshake"
  shows "(Module_getDependenciesToBeIncluded fuel vm methods nodes this_module g = Return result g'
            \<longrightarrow> set (dependencies m) \<subseteq> set result
                \<and> Module_getDependenciesToBeIncluded fuel' vm' methods' nodes' this_module g'
                    = Return result g')
       \<and> (returned (Module_getDependenciesToBeIncluded fuel vm methods nodes this_module g) \<noteq> None)
         = (returned (Module_dependencyVariables fuel this_module m
                        (updateModule this_module (\<lambda>m. m\<lparr>relevantDependencies := Some []\<rparr>) g))
              \<noteq> None)
       \<and> thrown (Module_getDependenciesToBeIncluded fuel vm methods nodes this_module g)
         = thrown (Module_dependencyVariables fuel this_module m
                     (updateModule this_module (\<lambda>m. m\<lparr>relevantDependencies := Some []\<rparr>) g))
       \<and> (\<not> (isEntry (info m) \<or> length (includedDynamicImporters m) > 0
               \<or> Var_Namespace this_module \<in> includedVariables g
               \<or> length (implicitlyLoadedAfter m) > 0)
            \<longrightarrow> returned (Module_getDependenciesToBeIncluded fuel vm methods nodes this_module g) \<noteq> None)"
proof -
  let ?g0 = "updateModule this_module (\<lambda>m. m\<lparr>relevantDependencies := Some []\<rparr>) g"
  let ?needs = "isEntry (info m) \<or> length (includedDynamicImporters m) > 0
               \<or> Var_Namespace this_module \<in> includedVariables g
               \<or> length (implicitlyLoadedAfter m) > 0"
  let ?imports = "foldl (\<lambda>acc v. Set_add v acc) [] (module_imports m)"
  let ?exported = "bind (Module_getReexports fuel this_module ?g0)
                     (\<lambda>reexports g'.
                        case modulesById g' this_module of
                          Some (Internal m') \<Rightarrow>
                            addExportedVariables fuel this_module
                              (reexports @ Module_getExports m') ?imports g'
                        | _ \<Rightarrow> Throw JsTypeError)"
  let ?first = "Module_dependencyVariables fuel this_module m ?g0"
  let ?call = "Module_getDependenciesToBeIncluded fuel vm methods nodes this_module g"
  let ?second = "\<lambda>dependencyVariables g'.
                       case modulesById g' this_module of
                         Some (Internal m') \<Rightarrow>
                           (let (necessaryDependencies, alwaysCheckedDependencies) =
                                  necessaryAndAlwaysChecked vm m' dependencyVariables ([], [])
                            in bind (if \<not> treeshake g' \<or> moduleSideEffects (info m') = NoTreeshake
                                     then Return (foldl (\<lambda>acc d. Set_add d acc) [] (dependencies m')) g'
                                     else Module_addRelevantSideEffectDependencies fuel methods nodes
                                            m' [] necessaryDependencies alwaysCheckedDependencies g')
                                    (\<lambda>relevant g''.
                                       let result = foldl (\<lambda>acc d. Set_add d acc) relevant
                                                      necessaryDependencies
                                       in Return result
                                            (updateModule this_module
                                               (\<lambda>m. m\<lparr>relevantDependencies := Some result\<rparr>) g'')))
                       | _ \<Rightarrow> Throw JsTypeError"
  have iv: "includedVariables ?g0 = includedVariables g"
    by (simp add: updateModule_def m)
  have first: "?first = (if ?needs then ?exported else Return ?imports ?g0)"
    unfolding Module_dependencyVariables_def iv by simp
  have whole: "?call = bind ?first ?second"
    using m cache by (simp add: Module_getDependenciesToBeIncluded_def)
  have u0: "static_part ?g0 = static_part g"
    by (simp add: static_part_updateModule)
  have k_exported: "keeps_static ?g0 ?exported"
    by (rule keeps_static_bind[OF Module_getReexports_keeps_static])
       (auto split: option.splits GraphModule.splits intro: addExportedVariables_keeps_static)
  have k_first: "keeps_static g ?first"
    unfolding first using keeps_static_trans[OF u0 k_exported] u0 by simp
  have second: "?second dv g1 =
          Return (foldl (\<lambda>acc d. Set_add d acc) (foldl (\<lambda>acc d. Set_add d acc) [] (dependencies m))
                    (fst (necessaryAndAlwaysChecked vm m1 dv ([], []))))
            (updateModule this_module
               (\<lambda>x. x\<lparr>relevantDependencies :=
                         Some (foldl (\<lambda>acc d. Set_add d acc)
                                 (foldl (\<lambda>acc d. Set_add d acc) [] (dependencies m))
                                 (fst (necessaryAndAlwaysChecked vm m1 dv ([], []))))\<rparr>) g1)"
    if s1: "static_part g1 = static_part g" and m1: "modulesById g1 this_module = Some (Internal m1)"
    for dv g1 m1
  proof -
    obtain m' where "modulesById g1 this_module = Some (Internal m')" and i: "info m' = info m"
      and d: "dependencies m' = dependencies m"
      using static_part_module[OF s1 m] by blast
    with m1 have i1: "info m1 = info m" and d1: "dependencies m1 = dependencies m" by simp_all
    have t1: "treeshake g1 = treeshake g" using static_part_treeshake[OF s1] .
    have c: "\<not> treeshake g1 \<or> moduleSideEffects (info m1) = NoTreeshake"
      using nt i1 t1 by simp
    obtain nec alw where na: "necessaryAndAlwaysChecked vm m1 dv ([], []) = (nec, alw)"
      by (cases "necessaryAndAlwaysChecked vm m1 dv ([], [])")
    show ?thesis
      using c by (simp add: m1 na bind_def d1 Let_def)
  qed
  have outcome: "(case ?first of
            Return dv g1 \<Rightarrow>
              (\<exists>res gF. ?call = Return res gF \<and> set (dependencies m) \<subseteq> set res
                 \<and> Module_getDependenciesToBeIncluded fuel' vm' methods' nodes' this_module gF
                     = Return res gF)
          | Throw e \<Rightarrow> ?call = Throw e
          | OutOfFuel \<Rightarrow> ?call = OutOfFuel)"
  proof (cases ?first)
    case (Return dv g1)
    then have s1: "static_part g1 = static_part g" using k_first by simp
    obtain m1 where m1: "modulesById g1 this_module = Some (Internal m1)"
      using static_part_module[OF s1 m] by blast
    let ?result = "foldl (\<lambda>acc d. Set_add d acc) (foldl (\<lambda>acc d. Set_add d acc) [] (dependencies m))
                    (fst (necessaryAndAlwaysChecked vm m1 dv ([], [])))"
    let ?gF = "updateModule this_module (\<lambda>m. m\<lparr>relevantDependencies := Some ?result\<rparr>) g1"
    have r: "?call = Return ?result ?gF"
      unfolding whole Return using second[OF s1 m1] by (simp add: bind_def)
    have sub: "set (dependencies m) \<subseteq> set ?result"
      by (simp add: set_foldl_Set_add)
    have again: "Module_getDependenciesToBeIncluded fuel' vm' methods' nodes' this_module ?gF
               = Return ?result ?gF"
      using updateModule_lookup[OF m1, of "\<lambda>m. m\<lparr>relevantDependencies := Some ?result\<rparr>"]
      by (simp add: Module_getDependenciesToBeIncluded_def)
    show ?thesis
      unfolding Return using r sub again by simp
  next
    case OutOfFuel
    then show ?thesis unfolding whole by (simp add: bind_def)
  next
    case (Throw e)
    then show ?thesis unfolding whole by (simp add: bind_def)
  qed
  have part1: "set (dependencies m) \<subseteq> set result
                \<and> Module_getDependenciesToBeIncluded fuel' vm' methods' nodes' this_module g'
                    = Return result g'"
    if "?call = Return result g'"
    using outcome that by (cases ?first) auto
  have part2: "(returned ?call \<noteq> None) = (returned ?first \<noteq> None)"
    using outcome by (cases ?first) (auto simp: returned_def)
  have part3: "thrown ?call = thrown ?first"
    using outcome by (cases ?first) (auto simp: thrown_def)
  have part4: "returned ?call \<noteq> None" if n: "\<not> ?needs"
    using part2 n by (simp add: first returned_def)
  show ?thesis
    using part1 part2 part3 part4 by blast
qed

lemma dependency_graph_no_treeshake:
  "returned (Module_getDependenciesToBeIncluded 10 example_variable_methods example_methods
               example_nodes ''main'' (dependency_graph NoTreeshake))
     = Some [''dep'', ''lib'', ''main'']"
  by code_simp

lemma dependency_graph_treeshake:
  "returned (Module_getDependenciesToBeIncluded 10 example_variable_methods example_methods
               example_nodes ''main'' (dependency_graph (SideEffects True)))
     = Some [''dep'', ''main'']"
  by code_simp

lemma dependency_graph_not_entry:
  "returned (Module_getDependenciesToBeIncluded 10 example_variable_methods example_methods
               example_nodes ''dep'' ((dependency_graph NoTreeshake)\<lparr>treeshake := False\<rparr>))
     = Some [''lib'']"
  by code_simp

text \<open>The set is computed once: a module whose \<open>moduleSideEffects\<close> becomes
  \<open>'no-treeshake'\<close> after the first call keeps the set of the first call.\<close>

lemma cached_dependencies_are_returned:
  "returned
     (bind (Module_getDependenciesToBeIncluded 10 example_variable_methods example_methods
              example_nodes ''main'' (dependency_graph (SideEffects True)))
           (\<lambda>_ g. Module_getDependenciesToBeIncluded 10 example_variable_methods example_methods
                     example_nodes ''main''
                     (updateModule ''main'' (Module_updateOptions (Some NoTreeshake) None) g)))
     = Some [''dep'', ''main'']"
  by code_simp

text \<open>\<open>traceVariable\<close> hands no \<open>searchedNamesAndModules\<close> on, so in an import/export
  cycle the resolution of the name never ends, with whatever fuel; and neither does
  \<open>getDependenciesToBeIncluded\<close> of an entry module in such a cycle.\<close>

lemma import_export_cycle_never_returns:
  assumes a: "modulesById g a = Some (Internal ma)" and b: "modulesById g b = Some (Internal mb)"
    and ia: "imports_and_exports ma x b" and ib: "imports_and_exports mb x a"
    and x: "x \<noteq> [] \<and> hd x \<noteq> CHR ''*''"
  shows "Module_getVariableForExportName fuel a x opts g = OutOfFuel
         \<and> Module_getVariableForExportName fuel b x opts g = OutOfFuel"
proof (induction fuel arbitrary: opts)
  case 0
  show ?case by simp
next
  case (Suc fuel)
  have step: "Module_getVariableForExportName_body (Module_getVariableForExportName fuel) t x opts g
              = OutOfFuel"
    if t: "modulesById g t = Some (Internal mt)" and o: "modulesById g other = Some (Internal mo)"
      and i: "imports_and_exports mt x other"
      and ih: "\<And>opts. Module_getVariableForExportName fuel other x opts g = OutOfFuel"
    for t mt other mo
  proof -
    from i have r: "map_of (reexportDescriptions mt) x = None"
      and sv: "scope_variables mt x = None"
      by (simp_all add: imports_and_exports_def)
    from i obtain ident where e: "map_of (exports mt) x = Some (ExportDescription ident x)"
      by (auto simp: imports_and_exports_def split: option.splits ExportDescription.splits)
    from i obtain d where im: "importDescriptions mt x = Some d"
      and dm: "ImportDescription.module d = other" and dn: "ImportDescription.name d = x"
      by (auto simp: imports_and_exports_def split: option.splits)
    have star: "x \<noteq> ''*''" using x by auto
    have tv: "Module_traceVariable (Module_getVariableForExportName fuel) t x importer g = OutOfFuel"
      for importer
      by (simp add: Module_traceVariable_def t sv im dm dn o star
          target_getVariableForExportName_def ih bind_def Let_def)
    show ?thesis
      using x by (simp add: Module_getVariableForExportName_body_def t r e tv bind_def Let_def)
  qed
  show ?case
    using step[OF a b ia] step[OF b a ib] Suc by simp
qed


lemma import_cycle_graph_modules:
  "\<exists>ma mb. modulesById import_cycle_graph ''a'' = Some (Internal ma)
     \<and> modulesById import_cycle_graph ''b'' = Some (Internal mb)
     \<and> imports_and_exports ma ''x'' ''b'' \<and> imports_and_exports mb ''x'' ''a''
     \<and> isEntry (info ma) \<and> relevantDependencies ma = None \<and> transitiveReexports ma = None
     \<and> exportAllModules ma = [] \<and> reexportDescriptions ma = []
     \<and> Module_getExports ma = [''x'']"
  by (simp add: import_cycle_graph_def Graph_new_def Module_new_def imports_and_exports_def
      Module_getExports_def)

lemma updateModule_other:
  "md \<noteq> other \<Longrightarrow> modulesById (updateModule md f g) other = modulesById g other"
  by (simp add: updateModule_def split: option.splits GraphModule.splits)

lemma import_cycle_never_returns:
  "Module_getDependenciesToBeIncluded fuel vm methods nodes ''a'' import_cycle_graph = OutOfFuel"
proof -
  obtain ma mb where a: "modulesById import_cycle_graph ''a'' = Some (Internal ma)"
    and b: "modulesById import_cycle_graph ''b'' = Some (Internal mb)"
    and ia: "imports_and_exports ma ''x'' ''b''" and ib: "imports_and_exports mb ''x'' ''a''"
    and entry: "isEntry (info ma)" and cache: "relevantDependencies ma = None"
    and tr: "transitiveReexports ma = None"
    and ea: "exportAllModules ma = []" and rd: "reexportDescriptions ma = []"
    and ex: "Module_getExports ma = [''x'']"
    using import_cycle_graph_modules by blast
  let ?f0 = "\<lambda>m. m\<lparr>relevantDependencies := Some []\<rparr>"
  let ?f1 = "\<lambda>m. m\<lparr>transitiveReexports := Some []\<rparr>"
  let ?g0 = "updateModule ''a'' ?f0 import_cycle_graph"
  let ?g1 = "updateModule ''a'' ?f1 (updateModule ''a'' ?f1 ?g0)"
  let ?m1 = "?f1 (?f1 (?f0 ma))"
  have a0: "modulesById ?g0 ''a'' = Some (Internal (?f0 ma))"
    by (rule updateModule_lookup[OF a])
  have a1: "modulesById ?g1 ''a'' = Some (Internal ?m1)"
    by (rule updateModule_lookup[OF updateModule_lookup[OF a0]])
  have b1: "modulesById ?g1 ''b'' = Some (Internal mb)"
    using b by (simp add: updateModule_other)
  have i1: "imports_and_exports ?m1 ''x'' ''b''"
    using ia by (simp add: imports_and_exports_def)
  have loop: "Module_getVariableForExportName fuel ''a'' ''x'' noOptions ?g1 = OutOfFuel"
    using import_export_cycle_never_returns[OF a1 b1 i1 ib, of fuel noOptions] by simp
  have first: "Module_dependencyVariables fuel ''a'' ma ?g0 = OutOfFuel"
  proof (cases fuel)
    case 0
    then show ?thesis
      using entry by (simp add: Module_dependencyVariables_def bind_def)
  next
    case (Suc n)
    have re: "Module_getReexports fuel ''a'' ?g0 = Return [] ?g1"
      unfolding Suc
      by (simp add: Module_getReexports_body_def a0 tr ea rd bind_def)
    show ?thesis
      using entry loop
      by (simp add: Module_dependencyVariables_def re bind_def a1 Module_getExports_def
          ex[unfolded Module_getExports_def])
  qed
  show ?thesis
    by (simp add: Module_getDependenciesToBeIncluded_def a cache first bind_def)
qed

theorem first_call_no_treeshake_dependencies_are_relevant_witness:
  "modulesById (dependency_graph NoTreeshake) ''main'' = Some (Internal (main_module NoTreeshake))
   \<and> relevantDependencies (main_module NoTreeshake) = None
   \<and> moduleSideEffects (info (main_module NoTreeshake)) = NoTreeshake
   \<and> isEntry (info (main_module NoTreeshake))
   \<and> dependencies (main_module NoTreeshake) = [''dep'', ''lib'']
   \<and> returned (Module_dependencyVariables 10 ''main'' (main_module NoTreeshake)
                 (updateModule ''main'' (\<lambda>m. m\<lparr>relevantDependencies := Some []\<rparr>)
                    (dependency_graph NoTreeshake)))
       = Some [Var_Local ''dep'' ''k'', Var_Local ''main'' ''own'']
   \<and> returned (Module_getDependenciesToBeIncluded 10 example_variable_methods example_methods
                 example_nodes ''main'' (dependency_graph NoTreeshake))
       = Some [''dep'', ''lib'', ''main'']
   \<and> set (dependencies (main_module NoTreeshake)) \<subseteq> set [''dep'', ''lib'', ''main'']
   \<and> map_option dependencies
        (internalModule ((dependency_graph NoTreeshake)\<lparr>treeshake := False\<rparr>) ''dep'')
       = Some [''lib'']
   \<and> map_option (isEntry \<circ> info)
        (internalModule ((dependency_graph NoTreeshake)\<lparr>treeshake := False\<rparr>) ''dep'')
       = Some False
   \<and> \<not> treeshake ((dependency_graph NoTreeshake)\<lparr>treeshake := False\<rparr>)
   \<and> returned (Module_getDependenciesToBeIncluded 10 example_variable_methods example_methods
                 example_nodes ''dep'' ((dependency_graph NoTreeshake)\<lparr>treeshake := False\<rparr>))
       = Some [''lib'']"
proof -
  let ?call = "Module_getDependenciesToBeIncluded 10 example_variable_methods example_methods
                 example_nodes ''main'' (dependency_graph NoTreeshake)"
  let ?g2 = "(dependency_graph NoTreeshake)\<lparr>treeshake := False\<rparr>"
  let ?dep = "(Module_new False (SideEffects False) (Synthetic False))
                \<lparr>dependencies := [''lib''],
                 exports := [(''k'', ExportDescription None ''k'')],
                 scope_variables := [''k'' \<mapsto> Var_Local ''dep'' ''k'']\<rparr>"
  have h1: "modulesById (dependency_graph NoTreeshake) ''main''
              = Some (Internal (main_module NoTreeshake))"
    by (simp add: dependency_graph_def Graph_new_def)
  have h2: "relevantDependencies (main_module NoTreeshake) = None"
    by (simp add: main_module_def Module_new_def)
  have h3: "moduleSideEffects (info (main_module NoTreeshake)) = NoTreeshake"
    by (simp add: main_module_def Module_new_def)
  then have h3': "\<not> treeshake (dependency_graph NoTreeshake)
            \<or> moduleSideEffects (info (main_module NoTreeshake)) = NoTreeshake"
    by simp
  have h4: "dependencies (main_module NoTreeshake) = [''dep'', ''lib'']"
    by (simp add: main_module_def)
  have h5: "isEntry (info (main_module NoTreeshake))"
    by (simp add: main_module_def Module_new_def)
  have dv: "returned (Module_dependencyVariables 10 ''main'' (main_module NoTreeshake)
                 (updateModule ''main'' (\<lambda>m. m\<lparr>relevantDependencies := Some []\<rparr>)
                    (dependency_graph NoTreeshake)))
       = Some [Var_Local ''dep'' ''k'', Var_Local ''main'' ''own'']"
    by code_simp
  have n: "returned ?call = Some [''dep'', ''lib'', ''main'']"
    by (rule dependency_graph_no_treeshake)
  then obtain g' where r: "?call = Return [''dep'', ''lib'', ''main''] g'"
    by (cases ?call) (auto simp: returned_def)
  note t1 = first_call_no_treeshake_dependencies_are_relevant[OF h1 h2 h3',
        of 10 example_variable_methods example_methods example_nodes "[''dep'', ''lib'', ''main'']" g'
          10 example_variable_methods example_methods example_nodes]
  from t1 have "?call = Return [''dep'', ''lib'', ''main''] g'
                  \<longrightarrow> set (dependencies (main_module NoTreeshake)) \<subseteq> set [''dep'', ''lib'', ''main'']
                      \<and> Module_getDependenciesToBeIncluded 10 example_variable_methods example_methods
                            example_nodes ''main'' g' = Return [''dep'', ''lib'', ''main''] g'"
    by (rule conjunct1)
  with r have a1: "set (dependencies (main_module NoTreeshake)) \<subseteq> set [''dep'', ''lib'', ''main'']"
    by blast
  have k1: "modulesById ?g2 ''dep'' = Some (Internal ?dep)"
    by (simp add: dependency_graph_def Graph_new_def)
  have k2: "relevantDependencies ?dep = None"
    by (simp add: Module_new_def)
  have k3: "\<not> treeshake ?g2" by simp
  then have k3': "\<not> treeshake ?g2 \<or> moduleSideEffects (info ?dep) = NoTreeshake" by (rule disjI1)
  have k0: "internalModule ?g2 ''dep'' = Some ?dep"
    unfolding internalModule_def k1 by simp
  have k4: "map_option dependencies (internalModule ?g2 ''dep'') = Some [''lib'']"
    unfolding k0 by simp
  have k5: "map_option (isEntry \<circ> info) (internalModule ?g2 ''dep'') = Some False"
    unfolding k0 by (simp add: Module_new_def)
  have ne: "\<not> (isEntry (info ?dep) \<or> length (includedDynamicImporters ?dep) > 0
               \<or> Var_Namespace ''dep'' \<in> includedVariables ?g2
               \<or> length (implicitlyLoadedAfter ?dep) > 0)"
    by (simp add: Module_new_def dependency_graph_def Graph_new_def)
  note t2 = first_call_no_treeshake_dependencies_are_relevant[OF k1 k2 k3',
        of 10 example_variable_methods example_methods example_nodes]
  from t2 ne have "returned (Module_getDependenciesToBeIncluded 10 example_variable_methods
           example_methods example_nodes ''dep'' ?g2) \<noteq> None"
    by blast
  moreover have "returned (Module_getDependenciesToBeIncluded 10 example_variable_methods
           example_methods example_nodes ''dep'' ?g2) = Some [''lib'']"
    by (rule dependency_graph_not_entry)
  ultimately have k6: "returned (Module_getDependenciesToBeIncluded 10 example_variable_methods
           example_methods example_nodes ''dep'' ?g2) = Some [''lib'']"
    by simp
  show ?thesis
    by (intro conjI) (rule h1 h2 h3 h4 h5 dv n a1 k4 k5 k3 k6)+
qed

section \<open>Properties of inclusion\<close>


lemma nodes_monotone_refl [simp]: "nodes_monotone nodes nodes"
  by (simp add: nodes_monotone_def)

lemma nodes_monotone_trans:
  "nodes_monotone a b \<Longrightarrow> nodes_monotone b c \<Longrightarrow> nodes_monotone a c"
  by (auto simp: nodes_monotone_def)

lemma nodes_monotone_set_included [simp]: "nodes_monotone nodes (set_included nodes n)"
proof (cases "n < length nodes")
  case True
  then show ?thesis
    by (auto simp: nodes_monotone_def set_included_def nth_list_update)
next
  case False
  then show ?thesis
    by (simp add: nodes_monotone_def set_included_def)
qed

lemma includeParents_monotone:
  "includeParents nodes p = Inr nodes' \<Longrightarrow> nodes_monotone nodes nodes'"
proof (induction nodes p arbitrary: nodes' rule: includeParents.induct)
  case (1 nodes)
  then show ?case by simp
next
  case (2 nodes n)
  show ?case
  proof (cases "n < length nodes")
    case False
    with "2.prems" show ?thesis by simp
  next
    case inRange: True
    show ?thesis
    proof (cases "Node.included (nodes ! n)")
      case True
      with "2.prems" inRange show ?thesis by simp
    next
      case notIncluded: False
      show ?thesis
      proof (cases "type (nodes ! n) = Program")
        case True
        with "2.prems" inRange notIncluded show ?thesis by auto
      next
        case False
        with "2.prems" inRange notIncluded
        have "includeParents (set_included nodes n) (parent (nodes ! n)) = Inr nodes'" by simp
        then have "nodes_monotone (set_included nodes n) nodes'"
          using "2.IH" inRange notIncluded False by simp
        then show ?thesis
          using nodes_monotone_trans[OF nodes_monotone_set_included] by blast
      qed
    qed
  qed
qed

lemma includeDeclarations_monotone:
  assumes "include_monotone ni"
  shows "includeDeclarations ni ds nodes = Inr nodes' \<Longrightarrow> nodes_monotone nodes nodes'"
proof (induction ds arbitrary: nodes)
  case Nil
  then show ?case by simp
next
  case (Cons d rest)
  from Cons.prems obtain dn where dn: "node_at nodes d = Some dn"
    by (auto split: option.splits)
  let ?nodes1 = "if \<not> Node.included dn then ni d createInclusionContext False nodes else nodes"
  have m1: "nodes_monotone nodes ?nodes1"
    using assms by (simp add: include_monotone_def)
  from Cons.prems dn obtain d1 where d1: "node_at ?nodes1 d = Some d1"
    by (auto simp: Let_def split: option.splits)
  from Cons.prems dn d1 obtain nodes2 where
    p: "includeParents ?nodes1 (parent d1) = Inr nodes2"
    and r: "includeDeclarations ni rest nodes2 = Inr nodes'"
    by (auto simp: Let_def split: option.splits sum.splits if_splits)
  have "nodes_monotone ?nodes1 nodes2" using includeParents_monotone[OF p] .
  moreover have "nodes_monotone nodes2 nodes'" using Cons.IH[OF r] .
  ultimately show ?case using m1 nodes_monotone_trans by blast
qed

lemma LocalVariable_include_monotone:
  assumes "include_monotone ni" and "LocalVariable_include ni v nodes = Inr (v', nodes')"
  shows "nodes_monotone nodes nodes' \<and> included v'"
  using assms(2) includeDeclarations_monotone[OF assms(1)]
  by (auto simp: LocalVariable_include_def split: if_splits sum.splits)

lemma LocalVariable_call_included:
  "LocalVariable_call v v' \<Longrightarrow> included v \<Longrightarrow> included v'"
  by (induction rule: LocalVariable_call.induct)
     (auto simp: LocalVariable_defs Let_def split: option.splits if_splits sum.splits prod.splits)

lemma includeExpressions_monotone:
  assumes "include_monotone (node_include m)"
  shows "nodes_monotone nodes (fst (includeExpressions m t l c r es nodes))"
proof (induction es arbitrary: nodes)
  case Nil
  then show ?case by simp
next
  case (Cons e rest)
  have s: "nodes_monotone nodes (node_include m e c r nodes)"
    using assms by (simp add: include_monotone_def)
  show ?case
  proof (cases "includesExpression m t l c r e nodes")
    case True
    obtain n2 c2 where p: "includeExpressions m t l c r rest (node_include m e c r nodes) = (n2, c2)"
      by (cases "includeExpressions m t l c r rest (node_include m e c r nodes)")
    have "nodes_monotone (node_include m e c r nodes) n2"
      using Cons[of "node_include m e c r nodes"] p by simp
    then have "nodes_monotone nodes n2"
      using nodes_monotone_trans[OF s] by blast
    then show ?thesis using True p by simp
  next
    case False
    then show ?thesis using Cons[of nodes] by simp
  qed
qed


lemma SequenceExpression_include_monotone:
  assumes "include_monotone (node_include m)"
    and "SequenceExpression_include m t c r nodes = Inr (nodes', calls)"
  shows "nodes_monotone nodes nodes'"
proof -
  from assms(2) obtain s where s: "node_at nodes t = Some s"
    and e: "includeExpressions m t (lastExpression s) c r (expressions s) (set_included nodes t)
              = (nodes', calls)"
    by (auto simp: SequenceExpression_include_def split: option.splits)
  have "nodes_monotone (set_included nodes t) nodes'"
    using includeExpressions_monotone[OF assms(1), of "set_included nodes t" t "lastExpression s" c r
        "expressions s"] e by simp
  then show ?thesis
    using nodes_monotone_trans[OF nodes_monotone_set_included] by blast
qed

lemma Module_include_monotone:
  assumes "include_monotone (node_include m)" and "Module_include m md nodes = Inr nodes'"
  shows "nodes_monotone nodes nodes'"
  using assms
  by (auto simp: Module_include_def include_monotone_def split: option.splits if_splits)

lemma includedVariables_updateModule [simp]:
  "includedVariables (updateModule md f g) = includedVariables g"
  by (simp add: updateModule_def split: option.splits GraphModule.splits)

lemma extendSideEffectModules_graph:
  "extendSideEffectModules fuel vm cur refs mods g = Return r g' \<Longrightarrow> g' = g"
proof (induction fuel arbitrary: cur refs mods)
  case 0
  then show ?case by simp
next
  case (Suc fuel)
  then show ?case
    by (auto simp: Let_def split: option.splits if_splits GraphModule.splits Variable.splits)
qed

lemma getAndExtendSideEffectModules_included:
  "getAndExtendSideEffectModules fuel vm v md g = Return r g'
     \<Longrightarrow> includedVariables g' = includedVariables g"
  by (auto simp: getAndExtendSideEffectModules_def bind_def
      split: option.splits GraphModule.splits Outcome.splits
      dest!: extendSideEffectModules_graph)

lemma markExecutedIfNot_included:
  "graph_methods_monotone gm
     \<Longrightarrow> includedVariables g \<subseteq> includedVariables (markExecutedIfNot gm md g)"
  by (auto simp: markExecutedIfNot_def graph_methods_monotone_def
      split: option.splits GraphModule.splits)

lemma foldl_markExecutedIfNot_included:
  assumes "graph_methods_monotone gm"
  shows "includedVariables g
           \<subseteq> includedVariables (foldl (\<lambda>acc md. markExecutedIfNot gm md acc) g mods)"
proof (induction mods arbitrary: g)
  case Nil
  then show ?case by simp
next
  case (Cons md rest)
  show ?case
    using markExecutedIfNot_included[OF assms, of g md] Cons[of "markExecutedIfNot gm md g"]
    by auto
qed

lemma Module_includeVariable_monotone:
  assumes gm: "graph_methods_monotone gm"
    and r: "Module_includeVariable fuel vm gm this_module variable g = Return u g'"
  shows "includedVariables g \<subseteq> includedVariables g'"
proof (cases "variable \<in> includedVariables g")
  case True
  with r show ?thesis by (simp add: Module_includeVariable_def)
next
  case False
  let ?g1 = "(variable_include gm variable g)\<lparr>needsTreeshakingPass := True\<rparr>"
  have s1: "includedVariables g \<subseteq> includedVariables ?g1"
    using gm by (simp add: graph_methods_monotone_def)
  let ?g2 = "markExecutedIfNot gm (Variable_module variable) ?g1"
  have s2: "includedVariables g \<subseteq> includedVariables ?g2"
    using s1 markExecutedIfNot_included[OF gm, of ?g1 "Variable_module variable"] by blast
  show ?thesis
  proof (cases "modulesById ?g1 (Variable_module variable)")
    case None
    with r False show ?thesis using s1 by (auto simp: Module_includeVariable_def Let_def)
  next
    case (Some x)
    show ?thesis
    proof (cases x)
      case (External e)
      with r False Some show ?thesis using s1 by (auto simp: Module_includeVariable_def Let_def)
    next
      case (Internal m)
      show ?thesis
      proof (cases "isExternalVariable variable")
        case True
        with r False Some Internal show ?thesis
          using s1 by (auto simp: Module_includeVariable_def Let_def)
      next
        case notExt: False
        show ?thesis
        proof (cases "Variable_module variable \<noteq> this_module")
          case False
          with r \<open>variable \<notin> includedVariables g\<close> Some Internal notExt show ?thesis
            using s2 by (auto simp: Module_includeVariable_def Let_def)
        next
          case True
          with r \<open>variable \<notin> includedVariables g\<close> Some Internal notExt
          obtain mods g3 where
            a: "getAndExtendSideEffectModules fuel vm variable this_module ?g2 = Return mods g3"
            and b: "g' = foldl (\<lambda>acc md. markExecutedIfNot gm md acc) g3 mods"
            by (auto simp: Module_includeVariable_def Let_def bind_def split: Outcome.splits)
          have "includedVariables g3 = includedVariables ?g2"
            using getAndExtendSideEffectModules_included[OF a] .
          then show ?thesis
            using s2 b foldl_markExecutedIfNot_included[OF gm, of g3 mods] by auto
        qed
      qed
    qed
  qed
qed


lemma LocalVariable_calls_included:
  "LocalVariable_call\<^sup>*\<^sup>* v v' \<Longrightarrow> included v \<Longrightarrow> included v'"
  by (induction rule: rtranclp_induct) (auto dest: LocalVariable_call_included)

text \<open>
  C3. No operation clears an \<open>included\<close> flag. A local variable that is included stays
  included through any sequence of calls of its methods (\<open>include\<close> and \<open>deoptimizePath\<close>
  among them); \<open>LocalVariable.include\<close> leaves the variable included and clears the flag
  of no node; \<open>SequenceExpression.include\<close> and the inclusion pass \<open>Module.include\<close> clear
  the flag of no node; and \<open>Module.includeVariable\<close> removes no variable from the included
  ones. The \<open>include\<close> methods of the other node and variable classes and
  \<open>markModuleAndImpureDependenciesAsExecuted\<close> are not among the sources: it is assumed
  of them that they clear no flag either.
\<close>

theorem included_is_monotone:
  assumes "include_monotone (node_include methods)" and "graph_methods_monotone gm"
  shows "(LocalVariable_call\<^sup>*\<^sup>* v v' \<and> included v \<longrightarrow> included v')
       \<and> (LocalVariable_include (node_include methods) w nodes = Inr (w', nodes1)
            \<longrightarrow> included w' \<and> nodes_monotone nodes nodes1)
       \<and> (SequenceExpression_include methods t ctx r nodes = Inr (nodes2, calls)
            \<longrightarrow> nodes_monotone nodes nodes2)
       \<and> (Module_include methods m nodes = Inr nodes3 \<longrightarrow> nodes_monotone nodes nodes3)
       \<and> (Module_includeVariable fuel vm gm this_module variable g = Return u g'
            \<longrightarrow> includedVariables g \<subseteq> includedVariables g')"
proof -
  have a: "LocalVariable_call\<^sup>*\<^sup>* v v' \<and> included v \<longrightarrow> included v'"
    using LocalVariable_calls_included by blast
  have b: "LocalVariable_include (node_include methods) w nodes = Inr (w', nodes1)
            \<longrightarrow> included w' \<and> nodes_monotone nodes nodes1"
    using LocalVariable_include_monotone[OF assms(1)] by blast
  have c: "SequenceExpression_include methods t ctx r nodes = Inr (nodes2, calls)
            \<longrightarrow> nodes_monotone nodes nodes2"
    using SequenceExpression_include_monotone[OF assms(1)] by blast
  have d: "Module_include methods m nodes = Inr nodes3 \<longrightarrow> nodes_monotone nodes nodes3"
    using Module_include_monotone[OF assms(1)] by blast
  have e: "Module_includeVariable fuel vm gm this_module variable g = Return u g'
            \<longrightarrow> includedVariables g \<subseteq> includedVariables g'"
    using Module_includeVariable_monotone[OF assms(2)] by blast
  show ?thesis using a b c d e by blast
qed

theorem included_is_monotone_witness:
  "include_monotone
     (node_include (example_methods\<lparr>node_shouldBeIncluded := (\<lambda>n _ _. n = 0 \<or> n = 8)\<rparr>))
   \<and> graph_methods_monotone example_graph_methods
   \<and> LocalVariable_call\<^sup>*\<^sup>*
        (example_variable\<lparr>included := True\<rparr>)
        (fst (LocalVariable_deoptimizePath (example_variable\<lparr>included := True\<rparr>) [] {}))
   \<and> included (example_variable\<lparr>included := True\<rparr>)
   \<and> included (fst (LocalVariable_deoptimizePath (example_variable\<lparr>included := True\<rparr>) [] {}))
   \<and> LocalVariable_include
        (node_include (example_methods\<lparr>node_shouldBeIncluded := (\<lambda>n _ _. n = 0 \<or> n = 8)\<rparr>))
        example_declared (set_included example_nodes 8)
      = Inr (example_declared\<lparr>included := True\<rparr>,
             set_included (set_included (set_included (set_included
               (set_included example_nodes 8) 9) 7) 6) 0)
   \<and> nodes_monotone (set_included example_nodes 8)
        (set_included (set_included (set_included (set_included
           (set_included example_nodes 8) 9) 7) 6) 0)
   \<and> SequenceExpression_include
        (example_methods\<lparr>node_shouldBeIncluded := (\<lambda>n _ _. n = 0 \<or> n = 8)\<rparr>)
        7 createInclusionContext False (set_included example_nodes 8)
      = Inr (set_included (set_included (set_included example_nodes 8) 7) 9,
             [Call_include (Entity 8) False, Call_include (Entity 9) False])
   \<and> nodes_monotone (set_included example_nodes 8)
        (set_included (set_included (set_included example_nodes 8) 7) 9)
   \<and> Module_include
        (example_methods\<lparr>node_shouldBeIncluded := (\<lambda>n _ _. n = 0 \<or> n = 8)\<rparr>)
        (plain_module\<lparr>ast := Some 0\<rparr>) (set_included example_nodes 8)
      = Inr (set_included (set_included example_nodes 8) 0)
   \<and> nodes_monotone (set_included example_nodes 8)
        (set_included (set_included example_nodes 8) 0)
   \<and> (case Module_includeVariable 3 example_variable_methods example_graph_methods ''main''
              (Var_Local ''dep'' ''k'')
              ((dependency_graph (SideEffects True))
                 \<lparr>includedVariables := {Var_Local ''main'' ''own''}\<rparr>) of
         Return u g' \<Rightarrow>
           {Var_Local ''main'' ''own''} \<subseteq> includedVariables g'
           \<and> Var_Local ''dep'' ''k'' \<in> includedVariables g'
       | _ \<Rightarrow> False)"
proof -
  let ?m = "example_methods\<lparr>node_shouldBeIncluded := (\<lambda>n _ _. n = 0 \<or> n = 8)\<rparr>"
  let ?n = "set_included example_nodes 8"
  let ?v = "example_variable\<lparr>included := True\<rparr>"
  let ?g = "(dependency_graph (SideEffects True))
              \<lparr>includedVariables := {Var_Local ''main'' ''own''}\<rparr>"
  let ?call = "Module_includeVariable 3 example_variable_methods example_graph_methods ''main''
                 (Var_Local ''dep'' ''k'') ?g"
  have h1: "include_monotone (node_include ?m)"
    by (simp add: include_monotone_def example_methods_def)
  have h2: "graph_methods_monotone example_graph_methods"
    by (auto simp: graph_methods_monotone_def example_graph_methods_def)
  have c1: "LocalVariable_call\<^sup>*\<^sup>* ?v (fst (LocalVariable_deoptimizePath ?v [] {}))"
    by (rule r_into_rtranclp) (rule call_deoptimizePath)
  have c2: "included ?v" by simp
  have i1: "LocalVariable_include (node_include ?m) example_declared ?n
      = Inr (example_declared\<lparr>included := True\<rparr>,
             set_included (set_included (set_included (set_included ?n 9) 7) 6) 0)"
    by code_simp
  have i2: "SequenceExpression_include ?m 7 createInclusionContext False ?n
      = Inr (set_included (set_included ?n 7) 9,
             [Call_include (Entity 8) False, Call_include (Entity 9) False])"
    by code_simp
  have i3: "Module_include ?m (plain_module\<lparr>ast := Some 0\<rparr>) ?n = Inr (set_included ?n 0)"
    by code_simp
  have r: "returned ?call = Some ()"
    by code_simp
  then obtain g' where i4: "?call = Return () g'"
    by (cases ?call) (auto simp: returned_def)
  have "case ?call of Return u x \<Rightarrow> Var_Local ''dep'' ''k'' \<in> includedVariables x | _ \<Rightarrow> False"
    by code_simp
  then have k: "Var_Local ''dep'' ''k'' \<in> includedVariables g'"
    using i4 by simp
  show ?thesis
    using h1 h2 c1 c2 i1 i2 i3 i4 k
      included_is_monotone[OF h1 h2,
        where v = ?v and v' = "fst (LocalVariable_deoptimizePath ?v [] {})"
          and w = example_declared and nodes = ?n
          and w' = "example_declared\<lparr>included := True\<rparr>"
          and ?nodes1.0 = "set_included (set_included (set_included (set_included ?n 9) 7) 6) 0"
          and t = 7 and ctx = createInclusionContext and r = False
          and ?nodes2.0 = "set_included (set_included ?n 7) 9"
          and calls = "[Call_include (Entity 8) False, Call_include (Entity 9) False]"
          and m = "plain_module\<lparr>ast := Some 0\<rparr>"
          and ?nodes3.0 = "set_included ?n 0"
          and fuel = 3 and vm = example_variable_methods and this_module = "''main''"
          and variable = "Var_Local ''dep'' ''k''" and g = ?g and u = "()" and g' = g']
    by simp
qed

end
